theory Spec2Isabelle
  imports Complex_Main
begin

section \<open>Numbers and input records\<close>

text \<open>
  The capacity engine of \<^verbatim>\<open>src/lib/calculations.ts\<close> computes on JavaScript numbers.
  They are modelled as exact reals: \<^verbatim>\<open>Math.ceil\<close>, \<^verbatim>\<open>Math.round\<close>, \<^verbatim>\<open>Math.max\<close>,
  \<^verbatim>\<open>Math.min\<close> and \<^verbatim>\<open>Math.log10\<close> are the mathematical functions, and the rounding of
  IEEE doubles is not part of the model.  A field of an input record may be missing,
  \<^verbatim>\<open>undefined\<close> or \<^verbatim>\<open>NaN\<close>; all of these are falsy and are the value \<open>None\<close> of a
  \<open>real option\<close> (a field that is \<^verbatim>\<open>null\<close> is falsy too and is normalized in the same
  way).  An input record as a whole may be \<^verbatim>\<open>null\<close> or \<^verbatim>\<open>undefined\<close>, again \<open>None\<close>.
  Infinite inputs are outside the model.

  The records \<open>WorkloadParams\<close> and \<open>UserResources\<close> are used by the source both for the raw
  arguments and for the normalized copies; the field type is a parameter here, \<open>real option\<close>
  for the raw record and \<open>real\<close> for the normalized one.
\<close>

record 'n WorkloadParams =
  requestsPerSecond :: 'n
  metricsPerRequest :: 'n
  uniqueMetricsRatio :: 'n
  calculationComplexity :: 'n
  flushIntervalSeconds :: 'n
  retentionPeriodDays :: 'n

record 'n UserResources =
  cpu :: 'n
  memory :: 'n
  diskIO :: 'n
  networkIO :: 'n
  storage :: 'n
  statsdInstances :: 'n
  carbonInstances :: 'n

type_synonym raw_workload = "real option WorkloadParams option"
type_synonym raw_resources = "real option UserResources option"

text \<open>\<^verbatim>\<open>r?.f\<close>: the field of a record that may itself be absent.\<close>

definition opt_chain :: "'r option \<Rightarrow> ('r \<Rightarrow> real option) \<Rightarrow> real option" where
  "opt_chain r f = (case r of None \<Rightarrow> None | Some x \<Rightarrow> f x)"

text \<open>\<^verbatim>\<open>x || d\<close> on a number: the default replaces every falsy value, zero included.\<close>

definition or_default :: "real option \<Rightarrow> real \<Rightarrow> real" where
  "or_default x d = (case x of None \<Rightarrow> d | Some v \<Rightarrow> if v = 0 then d else v)"

definition Math_ceil :: "real \<Rightarrow> real" where
  "Math_ceil x = real_of_int \<lceil>x\<rceil>"

text \<open>\<^verbatim>\<open>Math.round\<close> rounds to the nearest integer, halves upwards.\<close>

definition Math_round :: "real \<Rightarrow> real" where
  "Math_round x = real_of_int \<lfloor>x + 1 / 2\<rfloor>"

definition Math_log10 :: "real \<Rightarrow> real" where
  "Math_log10 x = log 10 x"

section \<open>Input normalizer\<close>

definition safeWorkload :: "raw_workload \<Rightarrow> real WorkloadParams" where
  "safeWorkload workload =
     \<lparr> requestsPerSecond = max 0 (or_default (opt_chain workload requestsPerSecond) 0),
       metricsPerRequest = max 0 (or_default (opt_chain workload metricsPerRequest) 0),
       uniqueMetricsRatio =
         min 1 (max 0 (or_default (opt_chain workload uniqueMetricsRatio) (2 / 10))),
       calculationComplexity = max 1 (or_default (opt_chain workload calculationComplexity) 1),
       flushIntervalSeconds = max 1 (or_default (opt_chain workload flushIntervalSeconds) 10),
       retentionPeriodDays = max 1 (or_default (opt_chain workload retentionPeriodDays) 1) \<rparr>"

definition safeResources :: "raw_resources \<Rightarrow> real UserResources" where
  "safeResources userResources =
     \<lparr> cpu = max (1 / 10) (or_default (opt_chain userResources cpu) 1),
       memory = max (1 / 10) (or_default (opt_chain userResources memory) 1),
       diskIO = max 1 (or_default (opt_chain userResources diskIO) 10),
       networkIO = max 1 (or_default (opt_chain userResources networkIO) 10),
       storage = max 1 (or_default (opt_chain userResources storage) 10),
       statsdInstances = max 1 (or_default (opt_chain userResources statsdInstances) 1),
       carbonInstances = max 1 (or_default (opt_chain userResources carbonInstances) 1) \<rparr>"

section \<open>Flow model\<close>

text \<open>
  The local constants of \<^verbatim>\<open>calculateResourceRequirements\<close> are one definition each,
  as functions of the normalized records \<open>sw\<close> (\<^verbatim>\<open>safeWorkload\<close>) and \<open>sr\<close>
  (\<^verbatim>\<open>safeResources\<close>).
\<close>

definition totalMetricsPerSecond :: "real WorkloadParams \<Rightarrow> real" where
  "totalMetricsPerSecond sw = requestsPerSecond sw * metricsPerRequest sw"

definition uniqueMetricsPerSecond :: "real WorkloadParams \<Rightarrow> real" where
  "uniqueMetricsPerSecond sw = Math_ceil (totalMetricsPerSecond sw * uniqueMetricsRatio sw)"

definition writesPerSecond :: "real WorkloadParams \<Rightarrow> real" where
  "writesPerSecond sw = uniqueMetricsPerSecond sw"

definition metricsPerInstance :: "real WorkloadParams \<Rightarrow> real UserResources \<Rightarrow> real" where
  "metricsPerInstance sw sr = Math_ceil (totalMetricsPerSecond sw / statsdInstances sr)"

definition writesPerInstance :: "real WorkloadParams \<Rightarrow> real UserResources \<Rightarrow> real" where
  "writesPerInstance sw sr = Math_ceil (writesPerSecond sw / carbonInstances sr)"

definition avgMetricSizeBytes :: real where
  "avgMetricSizeBytes = 50"

section \<open>CPU estimator\<close>

definition totalStatsDLoad :: "real WorkloadParams \<Rightarrow> real" where
  "totalStatsDLoad sw = totalMetricsPerSecond sw / 10000"

definition singleInstanceStatsDCpu :: "real WorkloadParams \<Rightarrow> real" where
  "singleInstanceStatsDCpu sw =
     totalStatsDLoad sw * (1 + Math_log10 (max 1 (totalStatsDLoad sw))) * (6 / 10)"

definition totalWriteLoad :: "real WorkloadParams \<Rightarrow> real" where
  "totalWriteLoad sw = writesPerSecond sw / 5000"

definition singleInstanceCarbonCpu :: "real WorkloadParams \<Rightarrow> real" where
  "singleInstanceCarbonCpu sw =
     totalWriteLoad sw * (1 + Math_log10 (max 1 (totalWriteLoad sw))) * (12 / 10)"

definition statsdCoordinationOverhead :: real where
  "statsdCoordinationOverhead = 15 / 1000"

definition carbonCoordinationOverhead :: real where
  "carbonCoordinationOverhead = 1 / 100"

definition statsdCpuCores :: "real WorkloadParams \<Rightarrow> real UserResources \<Rightarrow> real" where
  "statsdCpuCores sw sr =
     singleInstanceStatsDCpu sw / statsdInstances sr +
     singleInstanceStatsDCpu sw * statsdCoordinationOverhead * (statsdInstances sr - 1)"

definition carbonCpuCores :: "real WorkloadParams \<Rightarrow> real UserResources \<Rightarrow> real" where
  "carbonCpuCores sw sr =
     singleInstanceCarbonCpu sw / carbonInstances sr +
     singleInstanceCarbonCpu sw * carbonCoordinationOverhead * (carbonInstances sr - 1)"

definition graphiteCpuCores :: "real WorkloadParams \<Rightarrow> real" where
  "graphiteCpuCores sw =
     (calculationComplexity sw / 5) * (1 + calculationComplexity sw / 10) * (4 / 10)"

definition totalCpuRequired :: "real WorkloadParams \<Rightarrow> real UserResources \<Rightarrow> real" where
  "totalCpuRequired sw sr =
     max (1 / 10) (statsdCpuCores sw sr + carbonCpuCores sw sr + graphiteCpuCores sw)"

section \<open>Memory estimator\<close>

definition bytesPerMetricInMemory :: real where
  "bytesPerMetricInMemory = 150"

definition singleInstanceStatsDMemory :: "real WorkloadParams \<Rightarrow> real" where
  "singleInstanceStatsDMemory sw =
     (uniqueMetricsPerSecond sw * flushIntervalSeconds sw * bytesPerMetricInMemory * (12 / 10)) /
     (1024 * 1024 * 1024)"

definition singleInstanceCarbonMemory :: "real WorkloadParams \<Rightarrow> real" where
  "singleInstanceCarbonMemory sw =
     (uniqueMetricsPerSecond sw * 10 * bytesPerMetricInMemory) / (1024 * 1024 * 1024)"

definition statsdInstanceOverhead :: real where
  "statsdInstanceOverhead = 5 / 100"

definition carbonInstanceOverhead :: real where
  "carbonInstanceOverhead = 75 / 1000"

definition memoryEfficiency :: real where
  "memoryEfficiency = 85 / 100"

definition statsdMemoryGB :: "real WorkloadParams \<Rightarrow> real UserResources \<Rightarrow> real" where
  "statsdMemoryGB sw sr =
     (singleInstanceStatsDMemory sw * memoryEfficiency) / statsdInstances sr +
     statsdInstanceOverhead * statsdInstances sr"

definition writeLoadFactor :: "real WorkloadParams \<Rightarrow> real UserResources \<Rightarrow> real" where
  "writeLoadFactor sw sr = min (12 / 10) (1 + (writesPerInstance sw sr / 10000) * (2 / 10))"

definition carbonMemoryGB :: "real WorkloadParams \<Rightarrow> real UserResources \<Rightarrow> real" where
  "carbonMemoryGB sw sr =
     ((singleInstanceCarbonMemory sw * memoryEfficiency) / carbonInstances sr) *
       writeLoadFactor sw sr +
     carbonInstanceOverhead * carbonInstances sr"

definition effectiveStatsDMemory :: "real WorkloadParams \<Rightarrow> real UserResources \<Rightarrow> real" where
  "effectiveStatsDMemory sw sr =
     min (statsdMemoryGB sw sr)
         (singleInstanceStatsDMemory sw * (4 / 10) + statsdInstanceOverhead)"

definition effectiveCarbonMemory :: "real WorkloadParams \<Rightarrow> real UserResources \<Rightarrow> real" where
  "effectiveCarbonMemory sw sr =
     min (carbonMemoryGB sw sr)
         (singleInstanceCarbonMemory sw * (4 / 10) + carbonInstanceOverhead)"

definition baseGraphiteMemory :: real where
  "baseGraphiteMemory = 5 / 10"

definition graphiteMemoryGB :: "real WorkloadParams \<Rightarrow> real" where
  "graphiteMemoryGB sw =
     baseGraphiteMemory +
     (calculationComplexity sw / 5) * (1 + uniqueMetricsPerSecond sw / 100000) * 2"

definition totalMemoryRequired :: "real WorkloadParams \<Rightarrow> real UserResources \<Rightarrow> real" where
  "totalMemoryRequired sw sr =
     max (5 / 10)
         (effectiveStatsDMemory sw sr + effectiveCarbonMemory sw sr + graphiteMemoryGB sw)"

section \<open>Disk I/O estimator\<close>

definition baseIopsPerWrite :: real where
  "baseIopsPerWrite = 25 / 10"

definition randomIoFactor :: "real WorkloadParams \<Rightarrow> real" where
  "randomIoFactor sw = 1 + (uniqueMetricsPerSecond sw / 6000) * (4 / 10)"

definition ioCoordinationOverhead :: real where
  "ioCoordinationOverhead = 5 / 1000"

definition diskScalingFactor :: "real UserResources \<Rightarrow> real" where
  "diskScalingFactor sr =
     (1 / carbonInstances sr) * (1 + ioCoordinationOverhead * (carbonInstances sr - 1))"

definition effectiveIopsPerWrite :: "real WorkloadParams \<Rightarrow> real UserResources \<Rightarrow> real" where
  "effectiveIopsPerWrite sw sr = baseIopsPerWrite * randomIoFactor sw * diskScalingFactor sr"

definition effectiveBlockSize :: real where
  "effectiveBlockSize = 4096"

definition metadataOverhead :: real where
  "metadataOverhead = 115 / 100"

definition bytesPerOperation :: real where
  "bytesPerOperation =
     Math_ceil (100 / effectiveBlockSize) * effectiveBlockSize * metadataOverhead"

definition diskIopsRequired :: "real WorkloadParams \<Rightarrow> real UserResources \<Rightarrow> real" where
  "diskIopsRequired sw sr = writesPerSecond sw * effectiveIopsPerWrite sw sr"

definition diskIORequired :: "real WorkloadParams \<Rightarrow> real UserResources \<Rightarrow> real" where
  "diskIORequired sw sr =
     Math_ceil (((diskIopsRequired sw sr * bytesPerOperation) / (1024 * 1024)) * 10) / 10"

section \<open>Network I/O estimator\<close>

definition clientToStatsDOverhead :: real where
  "clientToStatsDOverhead = 1 / 100"

definition clientStatsDTraffic :: "real WorkloadParams \<Rightarrow> real" where
  "clientStatsDTraffic sw =
     (totalMetricsPerSecond sw * avgMetricSizeBytes * 8) / (1024 * 1024)"

definition perInstanceStatsDInbound :: "real WorkloadParams \<Rightarrow> real UserResources \<Rightarrow> real" where
  "perInstanceStatsDInbound sw sr =
     (clientStatsDTraffic sw / statsdInstances sr) *
     (1 + clientToStatsDOverhead * (statsdInstances sr - 1))"

definition statsdToCarbonRatio :: real where
  "statsdToCarbonRatio = 3 / 10"

definition interNodeOverhead :: real where
  "interNodeOverhead = 5 / 1000"

definition statsdToCarbonTraffic :: "real WorkloadParams \<Rightarrow> real" where
  "statsdToCarbonTraffic sw = clientStatsDTraffic sw * statsdToCarbonRatio"

definition perInstanceCarbonInbound :: "real WorkloadParams \<Rightarrow> real UserResources \<Rightarrow> real" where
  "perInstanceCarbonInbound sw sr =
     (statsdToCarbonTraffic sw / carbonInstances sr) *
     (1 + interNodeOverhead * max 1 (statsdInstances sr + carbonInstances sr - 2))"

definition queryTrafficMbps :: "real WorkloadParams \<Rightarrow> real" where
  "queryTrafficMbps sw = clientStatsDTraffic sw * (5 / 100) * calculationComplexity sw"

definition maxInboundTraffic :: "real WorkloadParams \<Rightarrow> real" where
  "maxInboundTraffic sw = max (clientStatsDTraffic sw) (statsdToCarbonTraffic sw)"

definition totalNetworkRequired :: "real WorkloadParams \<Rightarrow> real" where
  "totalNetworkRequired sw = Math_ceil ((maxInboundTraffic sw + queryTrafficMbps sw) * 10) / 10"

section \<open>Storage estimator\<close>

definition bytesPerStoredPoint :: real where
  "bytesPerStoredPoint = 12"

definition pointsPerMetricPerDay :: real where
  "pointsPerMetricPerDay = 86400 / 10"

definition dailyStorageGB :: "real WorkloadParams \<Rightarrow> real" where
  "dailyStorageGB sw =
     (uniqueMetricsPerSecond sw * pointsPerMetricPerDay * bytesPerStoredPoint) /
     (1024 * 1024 * 1024)"

section \<open>Status classifier\<close>

datatype ResourceStatus = healthy | warning | critical

definition getResourceStatus :: "real \<Rightarrow> real \<Rightarrow> ResourceStatus" where
  "getResourceStatus required available =
     (let u = required / available in
      if u > 9 / 10 then critical
      else if u > 7 / 10 then warning
      else healthy)"

definition cpuStatus :: "real WorkloadParams \<Rightarrow> real UserResources \<Rightarrow> ResourceStatus" where
  "cpuStatus sw sr = getResourceStatus (totalCpuRequired sw sr) (cpu sr)"

definition memoryStatus :: "real WorkloadParams \<Rightarrow> real UserResources \<Rightarrow> ResourceStatus" where
  "memoryStatus sw sr = getResourceStatus (totalMemoryRequired sw sr) (memory sr)"

definition diskIOStatus :: "real WorkloadParams \<Rightarrow> real UserResources \<Rightarrow> ResourceStatus" where
  "diskIOStatus sw sr = getResourceStatus (diskIORequired sw sr) (diskIO sr)"

definition networkIOStatus :: "real WorkloadParams \<Rightarrow> real UserResources \<Rightarrow> ResourceStatus" where
  "networkIOStatus sw sr = getResourceStatus (totalNetworkRequired sw) (networkIO sr)"

definition storageStatus :: "real WorkloadParams \<Rightarrow> real UserResources \<Rightarrow> ResourceStatus" where
  "storageStatus sw sr =
     getResourceStatus (dailyStorageGB sw * retentionPeriodDays sw) (storage sr)"

section \<open>Resources\<close>

text \<open>
  An explanation is a template literal.  It is kept as the list of its pieces: literal
  text, an interpolated number (\<open>Num\<close>, \<open>NumJ\<close> for a number that may be \<^verbatim>\<open>NaN\<close> or
  infinite) and a number printed through \<^verbatim>\<open>toLocaleString\<close> (\<open>Loc\<close>); the conversion of a
  number to its digits is not modelled.  The field \<^verbatim>\<open>value\<close> of a resource is \<open>rvalue\<close>
  here, and the fields of \<open>ResourceRequirements\<close> and \<open>FlowMetrics\<close> carry the prefixes
  \<open>req_\<close> and \<open>fm_\<close>, since the source uses the bare names a second time.
\<close>

datatype jsnum = Fin real | PosInf | NegInf | NaN

datatype fragment = Lit string | Num real | NumJ jsnum | Loc real

record Resource =
  rvalue :: real
  unit :: string
  status :: ResourceStatus
  utilization :: real
  explanation :: "fragment list"

record ResourceRequirements =
  req_cpu :: Resource
  req_memory :: Resource
  req_diskIO :: Resource
  req_networkIO :: Resource
  req_storage :: Resource

record FlowMetrics =
  fm_totalMetricsPerSecond :: real
  fm_uniqueMetricsPerSecond :: real
  fm_writesPerSecond :: real
  fm_storagePerDay :: real
  fm_metricsPerInstance :: real
  fm_writesPerInstance :: real
  fm_totalStorageRequired :: real

record Estimate =
  requirements :: ResourceRequirements
  flowMetrics :: FlowMetrics

definition cpuResource :: "real WorkloadParams \<Rightarrow> real UserResources \<Rightarrow> Resource" where
  "cpuResource sw sr =
     \<lparr> rvalue = Math_ceil (totalCpuRequired sw sr * 10) / 10,
       unit = ''cores'',
       status = cpuStatus sw sr,
       utilization = totalCpuRequired sw sr / cpu sr,
       explanation =
         (if statsdInstances sr > 1 \<or> carbonInstances sr > 1
          then [Lit ''StatsD ('', Num (statsdInstances sr), Lit '' inst): '',
                Num (Math_round (statsdCpuCores sw sr * 10) / 10), Lit '' cores total ('',
                Num (Math_round ((statsdCpuCores sw sr / statsdInstances sr) * 100) / 100),
                Lit ''/inst), Carbon ('', Num (carbonInstances sr), Lit '' inst): '',
                Num (Math_round (carbonCpuCores sw sr * 10) / 10), Lit '' cores total ('',
                Num (Math_round ((carbonCpuCores sw sr / carbonInstances sr) * 100) / 100),
                Lit ''/inst), Graphite: '',
                Num (Math_round (graphiteCpuCores sw * 10) / 10), Lit '' cores.'']
          else [Lit ''StatsD: '', Num (Math_round (statsdCpuCores sw sr * 10) / 10),
                Lit '' cores, Carbon: '', Num (Math_round (carbonCpuCores sw sr * 10) / 10),
                Lit '' cores, Graphite: '', Num (Math_round (graphiteCpuCores sw * 10) / 10),
                Lit '' cores. Processing '', Loc (totalMetricsPerSecond sw),
                Lit '' metrics/sec.'']) \<rparr>"

definition memoryResource :: "real WorkloadParams \<Rightarrow> real UserResources \<Rightarrow> Resource" where
  "memoryResource sw sr =
     \<lparr> rvalue = Math_ceil (totalMemoryRequired sw sr * 10) / 10,
       unit = ''GB'',
       status = memoryStatus sw sr,
       utilization = totalMemoryRequired sw sr / memory sr,
       explanation =
         (if statsdInstances sr > 1 \<or> carbonInstances sr > 1
          then [Lit ''StatsD ('', Num (statsdInstances sr), Lit '' inst): '',
                Num (Math_round (effectiveStatsDMemory sw sr * 100) / 100), Lit '' GB ('',
                Num (Math_round
                       (((effectiveStatsDMemory sw sr -
                          statsdInstanceOverhead * statsdInstances sr) /
                         statsdInstances sr) * 100) / 100),
                Lit '' GB data/inst, '', Num statsdInstanceOverhead,
                Lit '' GB fixed/inst). Carbon ('', Num (carbonInstances sr), Lit '' inst): '',
                Num (Math_round (effectiveCarbonMemory sw sr * 100) / 100), Lit '' GB ('',
                Num (Math_round
                       (((effectiveCarbonMemory sw sr -
                          carbonInstanceOverhead * carbonInstances sr) /
                         carbonInstances sr) * 100) / 100),
                Lit '' GB data/inst, '', Num carbonInstanceOverhead,
                Lit '' GB fixed/inst). Graphite: '',
                Num (Math_round (graphiteMemoryGB sw * 100) / 100), Lit '' GB.'']
          else [Lit ''StatsD: '', Num (Math_round (statsdMemoryGB sw sr * 100) / 100),
                Lit '' GB, Carbon: '', Num (Math_round (carbonMemoryGB sw sr * 100) / 100),
                Lit '' GB, Graphite: '', Num (Math_round (graphiteMemoryGB sw * 100) / 100),
                Lit '' GB. Storing '', Loc (uniqueMetricsPerSecond sw),
                Lit '' unique metrics.'']) \<rparr>"

definition diskIOResource :: "real WorkloadParams \<Rightarrow> real UserResources \<Rightarrow> Resource" where
  "diskIOResource sw sr =
     \<lparr> rvalue = diskIORequired sw sr,
       unit = ''MB/s'',
       status = diskIOStatus sw sr,
       utilization = diskIORequired sw sr / diskIO sr,
       explanation =
         (if carbonInstances sr > 1
          then [Lit ''Carbon ('', Num (carbonInstances sr), Lit '' inst): '',
                Num (diskIORequired sw sr), Lit '' MB/s total ('',
                Num (Math_round ((diskIORequired sw sr / carbonInstances sr) * 10) / 10),
                Lit '' MB/s per instance). Processing '', Loc (writesPerSecond sw),
                Lit '' writes/sec ('', Loc (writesPerInstance sw sr), Lit '' per instance).'']
          else [Lit ''Carbon needs ~'', Loc (diskIopsRequired sw sr), Lit '' IOPS ('',
                Num (diskIORequired sw sr), Lit '' MB/s) to write '',
                Loc (writesPerSecond sw), Lit '' metrics/sec to Whisper files.'']) \<rparr>"

definition networkIOResource :: "real WorkloadParams \<Rightarrow> real UserResources \<Rightarrow> Resource" where
  "networkIOResource sw sr =
     \<lparr> rvalue = totalNetworkRequired sw,
       unit = ''Mbps'',
       status = networkIOStatus sw sr,
       utilization = totalNetworkRequired sw / networkIO sr,
       explanation =
         (if statsdInstances sr > 1 \<or> carbonInstances sr > 1
          then [Lit ''Client traffic: '', Num (Math_round (clientStatsDTraffic sw * 10) / 10),
                Lit '' Mbps total ('',
                Num (Math_round (perInstanceStatsDInbound sw sr * 10) / 10),
                Lit '' Mbps per StatsD), Internal: '',
                Num (Math_round (statsdToCarbonTraffic sw * 10) / 10), Lit '' Mbps total ('',
                Num (Math_round (perInstanceCarbonInbound sw sr * 10) / 10),
                Lit '' Mbps per Carbon), Query: '',
                Num (Math_round (queryTrafficMbps sw * 10) / 10), Lit '' Mbps.'']
          else [Lit ''Inbound: '', Num (Math_round (clientStatsDTraffic sw * 10) / 10),
                Lit '' Mbps, Outbound: '', Num (Math_round (queryTrafficMbps sw * 10) / 10),
                Lit '' Mbps. Processing '', Loc (totalMetricsPerSecond sw),
                Lit '' total metrics.'']) \<rparr>"

definition storageResource :: "real WorkloadParams \<Rightarrow> real UserResources \<Rightarrow> Resource" where
  "storageResource sw sr =
     \<lparr> rvalue = Math_ceil (dailyStorageGB sw * 10) / 10,
       unit = ''GB/day'',
       status = storageStatus sw sr,
       utilization = (dailyStorageGB sw * retentionPeriodDays sw) / storage sr,
       explanation =
         [Lit ''Daily storage growth: '', Num (Math_round (dailyStorageGB sw * 10) / 10),
          Lit '' GB/day. '', Num (retentionPeriodDays sw), Lit ''-day storage requirement: '',
          Num (Math_round (dailyStorageGB sw * retentionPeriodDays sw * 10) / 10),
          Lit '' GB.''] \<rparr>"

definition resourceRequirements ::
  "real WorkloadParams \<Rightarrow> real UserResources \<Rightarrow> ResourceRequirements" where
  "resourceRequirements sw sr =
     \<lparr> req_cpu = cpuResource sw sr,
       req_memory = memoryResource sw sr,
       req_diskIO = diskIOResource sw sr,
       req_networkIO = networkIOResource sw sr,
       req_storage = storageResource sw sr \<rparr>"

definition flowMetricsOf :: "real WorkloadParams \<Rightarrow> real UserResources \<Rightarrow> FlowMetrics" where
  "flowMetricsOf sw sr =
     \<lparr> fm_totalMetricsPerSecond = totalMetricsPerSecond sw,
       fm_uniqueMetricsPerSecond = uniqueMetricsPerSecond sw,
       fm_writesPerSecond = writesPerSecond sw,
       fm_storagePerDay = dailyStorageGB sw,
       fm_metricsPerInstance = metricsPerInstance sw sr,
       fm_writesPerInstance = writesPerInstance sw sr,
       fm_totalStorageRequired = dailyStorageGB sw * retentionPeriodDays sw \<rparr>"

text \<open>
  The source has no \<^verbatim>\<open>throw\<close>, reads its arguments only through \<^verbatim>\<open>?.\<close> and calls no function
  that can raise, so the model is a total function without an error branch.
\<close>

definition calculateResourceRequirements :: "raw_workload \<Rightarrow> raw_resources \<Rightarrow> Estimate" where
  "calculateResourceRequirements workload userResources =
     (let sw = safeWorkload workload; sr = safeResources userResources
      in \<lparr> requirements = resourceRequirements sw sr, flowMetrics = flowMetricsOf sw sr \<rparr>)"

section \<open>Number formatting\<close>

text \<open>
  \<^verbatim>\<open>formatNumber(num)\<close> is \<^verbatim>\<open>num.toString().replace(/\B(?=(\d{3})+(?!\d))/g, ",")\<close>.
  The replacement works on the decimal string of the number, which is the argument of the
  model; \<open>toString_nat\<close> is that string for a non-negative integer (below \<open>10^21\<close>, where
  JavaScript prints all digits).

  The pattern matches the empty string at a position that is not a word boundary
  (\<^verbatim>\<open>\B\<close>: the characters before and after are both word characters or both not, the ends
  of the string counting as non-word) and from which a positive multiple of three digits
  runs up to a non-digit or the end (\<^verbatim>\<open>(?=(\d{3})+(?!\d))\<close>: the digits starting here are
  exactly \<open>3k\<close> many, \<open>k \<ge> 1\<close>).  Every match is replaced by a comma.
\<close>

definition isDigit :: "char \<Rightarrow> bool" where
  "isDigit c = (c \<in> set ''0123456789'')"

definition isWordChar :: "char \<Rightarrow> bool" where
  "isWordChar c =
     (c \<in> set ''abcdefghijklmnopqrstuvwxyzABCDEFGHIJKLMNOPQRSTUVWXYZ0123456789_'')"

definition isWordOpt :: "char option \<Rightarrow> bool" where
  "isWordOpt c = (case c of None \<Rightarrow> False | Some x \<Rightarrow> isWordChar x)"

definition nonBoundary :: "char option \<Rightarrow> string \<Rightarrow> bool" where
  "nonBoundary prev rest =
     (isWordOpt prev = isWordOpt (case rest of [] \<Rightarrow> None | c # _ \<Rightarrow> Some c))"

definition digitGroupsAhead :: "string \<Rightarrow> bool" where
  "digitGroupsAhead rest =
     (let n = length (takeWhile isDigit rest) in 0 < n \<and> n mod 3 = 0)"

fun replaceMatches :: "char option \<Rightarrow> string \<Rightarrow> string" where
  "replaceMatches prev [] = []"
| "replaceMatches prev (c # cs) =
     (if nonBoundary prev (c # cs) \<and> digitGroupsAhead (c # cs)
      then CHR '','' # c # replaceMatches (Some c) cs
      else c # replaceMatches (Some c) cs)"

definition formatNumber :: "string \<Rightarrow> string" where
  "formatNumber numToString = replaceMatches None numToString"

fun toString_nat :: "nat \<Rightarrow> string" where
  "toString_nat n =
     (if n < 10 then [''0123456789'' ! n]
      else toString_nat (n div 10) @ [''0123456789'' ! (n mod 10)])"

declare toString_nat.simps [simp del]

section \<open>Instance scaling explorer\<close>

text \<open>
  \<^verbatim>\<open>validateInstanceScaling\<close> divides by quantities that are zero for an empty workload, so
  its ratios are JavaScript numbers with \<^verbatim>\<open>NaN\<close> and the infinities: the type \<open>jsnum\<close>.
  The sign of zero is not modelled; every zero that this program divides by is \<open>+0\<close>.
\<close>

fun js_div :: "jsnum \<Rightarrow> jsnum \<Rightarrow> jsnum" where
  "js_div NaN y = NaN"
| "js_div x NaN = NaN"
| "js_div (Fin a) (Fin b) =
     (if b \<noteq> 0 then Fin (a / b)
      else if 0 < a then PosInf else if a < 0 then NegInf else NaN)"
| "js_div (Fin a) y = Fin 0"
| "js_div PosInf (Fin b) = (if b < 0 then NegInf else PosInf)"
| "js_div NegInf (Fin b) = (if b < 0 then PosInf else NegInf)"
| "js_div x y = NaN"

fun js_sub :: "jsnum \<Rightarrow> jsnum \<Rightarrow> jsnum" where
  "js_sub NaN y = NaN"
| "js_sub x NaN = NaN"
| "js_sub (Fin a) (Fin b) = Fin (a - b)"
| "js_sub (Fin a) PosInf = NegInf"
| "js_sub (Fin a) NegInf = PosInf"
| "js_sub PosInf PosInf = NaN"
| "js_sub PosInf y = PosInf"
| "js_sub NegInf NegInf = NaN"
| "js_sub NegInf y = NegInf"

fun js_mul :: "jsnum \<Rightarrow> jsnum \<Rightarrow> jsnum" where
  "js_mul NaN y = NaN"
| "js_mul x NaN = NaN"
| "js_mul (Fin a) (Fin b) = Fin (a * b)"
| "js_mul (Fin a) PosInf = (if 0 < a then PosInf else if a < 0 then NegInf else NaN)"
| "js_mul (Fin a) NegInf = (if 0 < a then NegInf else if a < 0 then PosInf else NaN)"
| "js_mul PosInf (Fin b) = (if 0 < b then PosInf else if b < 0 then NegInf else NaN)"
| "js_mul NegInf (Fin b) = (if 0 < b then NegInf else if b < 0 then PosInf else NaN)"
| "js_mul PosInf PosInf = PosInf"
| "js_mul NegInf NegInf = PosInf"
| "js_mul x y = NegInf"

fun js_round :: "jsnum \<Rightarrow> jsnum" where
  "js_round (Fin a) = Fin (Math_round a)"
| "js_round x = x"

fun js_lt :: "jsnum \<Rightarrow> jsnum \<Rightarrow> bool" where
  "js_lt NaN y = False"
| "js_lt x NaN = False"
| "js_lt (Fin a) (Fin b) = (a < b)"
| "js_lt x NegInf = False"
| "js_lt NegInf y = True"
| "js_lt PosInf y = False"
| "js_lt x PosInf = True"

text \<open>\<^verbatim>\<open>{ ...currentResources }\<close>: spreading \<^verbatim>\<open>null\<close> gives the empty object.\<close>

definition spreadResources :: "raw_resources \<Rightarrow> real option UserResources" where
  "spreadResources currentResources =
     (case currentResources of
        None \<Rightarrow> \<lparr> cpu = None, memory = None, diskIO = None, networkIO = None, storage = None,
                  statsdInstances = None, carbonInstances = None \<rparr>
      | Some r \<Rightarrow> r)"

definition testResources :: "raw_resources \<Rightarrow> real \<Rightarrow> real \<Rightarrow> raw_resources" where
  "testResources currentResources statsd carbon =
     Some ((spreadResources currentResources)
             \<lparr> statsdInstances := Some statsd, carbonInstances := Some carbon \<rparr>)"

definition baselineResult :: "raw_workload \<Rightarrow> raw_resources \<Rightarrow> Estimate" where
  "baselineResult workload currentResources =
     calculateResourceRequirements workload (testResources currentResources 1 1)"

definition cpuPer10kMetrics :: "Estimate \<Rightarrow> jsnum" where
  "cpuPer10kMetrics result =
     js_div (Fin (rvalue (req_cpu (requirements result))))
            (Fin (fm_totalMetricsPerSecond (flowMetrics result) / 10000))"

definition cpuPerWrite :: "Estimate \<Rightarrow> jsnum" where
  "cpuPerWrite result =
     js_div (Fin (rvalue (req_cpu (requirements result))))
            (Fin (fm_writesPerSecond (flowMetrics result)))"

definition memoryPerUniqueMetric :: "Estimate \<Rightarrow> jsnum" where
  "memoryPerUniqueMetric result =
     js_div (Fin (rvalue (req_memory (requirements result))))
            (Fin (fm_uniqueMetricsPerSecond (flowMetrics result)))"

text \<open>
  The two sweeps.  Each loop of the source pushes one value per instance count
  \<open>1, \<dots>, 8\<close> onto five arrays; an array is the map of its value over the counts.
\<close>

definition sweepInstances :: "real list" where
  "sweepInstances = map real [1..<9]"

definition collectorResult :: "raw_workload \<Rightarrow> raw_resources \<Rightarrow> real \<Rightarrow> Estimate" where
  "collectorResult workload currentResources instances =
     calculateResourceRequirements workload (testResources currentResources instances 1)"

definition processorResult :: "raw_workload \<Rightarrow> raw_resources \<Rightarrow> real \<Rightarrow> Estimate" where
  "processorResult workload currentResources instances =
     calculateResourceRequirements workload (testResources currentResources 1 instances)"

definition collectorCpuEfficiency :: "raw_workload \<Rightarrow> raw_resources \<Rightarrow> real \<Rightarrow> jsnum" where
  "collectorCpuEfficiency workload currentResources instances =
     js_div (cpuPer10kMetrics (collectorResult workload currentResources instances))
            (cpuPer10kMetrics (baselineResult workload currentResources))"

definition collectorMemoryEfficiency :: "raw_workload \<Rightarrow> raw_resources \<Rightarrow> real \<Rightarrow> jsnum" where
  "collectorMemoryEfficiency workload currentResources instances =
     js_div (memoryPerUniqueMetric (collectorResult workload currentResources instances))
            (memoryPerUniqueMetric (baselineResult workload currentResources))"

definition networkRatio :: "raw_workload \<Rightarrow> raw_resources \<Rightarrow> real \<Rightarrow> jsnum" where
  "networkRatio workload currentResources instances =
     js_div
       (Fin (rvalue (req_networkIO
          (requirements (collectorResult workload currentResources instances)))))
       (Fin (rvalue (req_networkIO (requirements (baselineResult workload currentResources)))))"

definition processorCpuEfficiency :: "raw_workload \<Rightarrow> raw_resources \<Rightarrow> real \<Rightarrow> jsnum" where
  "processorCpuEfficiency workload currentResources instances =
     js_div (cpuPerWrite (processorResult workload currentResources instances))
            (cpuPerWrite (baselineResult workload currentResources))"

definition processorMemoryEfficiency :: "raw_workload \<Rightarrow> raw_resources \<Rightarrow> real \<Rightarrow> jsnum" where
  "processorMemoryEfficiency workload currentResources instances =
     js_div (memoryPerUniqueMetric (processorResult workload currentResources instances))
            (memoryPerUniqueMetric (baselineResult workload currentResources))"

definition diskIoRatio :: "raw_workload \<Rightarrow> raw_resources \<Rightarrow> real \<Rightarrow> jsnum" where
  "diskIoRatio workload currentResources instances =
     js_div
       (Fin (rvalue (req_diskIO
          (requirements (processorResult workload currentResources instances)))))
       (Fin (rvalue (req_diskIO (requirements (baselineResult workload currentResources)))))"

record CollectorScaling =
  cs_instances :: "real list"
  cs_metricsPerInstance :: "real list"
  cs_cpuEfficiency :: "jsnum list"
  cs_memoryEfficiency :: "jsnum list"
  networkOverhead :: "jsnum list"

record ProcessorScaling =
  ps_instances :: "real list"
  ps_writesPerInstance :: "real list"
  ps_cpuEfficiency :: "jsnum list"
  ps_memoryEfficiency :: "jsnum list"
  diskIoEfficiency :: "jsnum list"

definition collectorScalingOf :: "raw_workload \<Rightarrow> raw_resources \<Rightarrow> CollectorScaling" where
  "collectorScalingOf workload currentResources =
     \<lparr> cs_instances = sweepInstances,
       cs_metricsPerInstance =
         map (\<lambda>i. fm_metricsPerInstance (flowMetrics (collectorResult workload currentResources i)))
             sweepInstances,
       cs_cpuEfficiency = map (collectorCpuEfficiency workload currentResources) sweepInstances,
       cs_memoryEfficiency =
         map (collectorMemoryEfficiency workload currentResources) sweepInstances,
       networkOverhead = map (networkRatio workload currentResources) sweepInstances \<rparr>"

definition processorScalingOf :: "raw_workload \<Rightarrow> raw_resources \<Rightarrow> ProcessorScaling" where
  "processorScalingOf workload currentResources =
     \<lparr> ps_instances = sweepInstances,
       ps_writesPerInstance =
         map (\<lambda>i. fm_writesPerInstance (flowMetrics (processorResult workload currentResources i)))
             sweepInstances,
       ps_cpuEfficiency = map (processorCpuEfficiency workload currentResources) sweepInstances,
       ps_memoryEfficiency =
         map (processorMemoryEfficiency workload currentResources) sweepInstances,
       diskIoEfficiency = map (diskIoRatio workload currentResources) sweepInstances \<rparr>"

text \<open>
  The search for the best efficiency: the loop over the indices of \<^verbatim>\<open>instances\<close>, reading
  the efficiency array at the same index, with the running best and ideal count as state.
\<close>

fun bestLoop :: "(real \<times> jsnum) list \<Rightarrow> jsnum \<Rightarrow> real \<Rightarrow> jsnum \<times> real" where
  "bestLoop [] best ideal = (best, ideal)"
| "bestLoop ((instances, currentEfficiency) # rest) best ideal =
     (if js_lt currentEfficiency best
      then bestLoop rest currentEfficiency instances
      else bestLoop rest best ideal)"

definition efficiencyGain :: "jsnum \<Rightarrow> jsnum" where
  "efficiencyGain best = js_mul (js_sub (Fin 1) best) (Fin 100)"

definition round1 :: "jsnum \<Rightarrow> jsnum" where
  "round1 x = js_div (js_round (js_mul x (Fin 10))) (Fin 10)"

text \<open>
  The recommendation reads \<^verbatim>\<open>currentResources.statsdInstances\<close> without \<^verbatim>\<open>?.\<close> in one
  of its branches, which raises a \<^verbatim>\<open>TypeError\<close> when \<^verbatim>\<open>currentResources\<close> is \<^verbatim>\<open>null\<close>.
  A comparison with a missing field (\<^verbatim>\<open>undefined\<close>, read as \<^verbatim>\<open>NaN\<close>) is false.  The
  recommendation is a template literal like the explanations.
\<close>

datatype error = TypeError

definition gtField :: "real \<Rightarrow> real option \<Rightarrow> bool" where
  "gtField x field = (case field of None \<Rightarrow> False | Some v \<Rightarrow> x > v)"

definition highestUtilization :: "Estimate \<Rightarrow> real" where
  "highestUtilization baseResult =
     max (max (max (utilization (req_cpu (requirements baseResult)))
                   (utilization (req_memory (requirements baseResult))))
              (utilization (req_diskIO (requirements baseResult))))
         (utilization (req_networkIO (requirements baseResult)))"

definition recommendation ::
  "raw_workload \<Rightarrow> raw_resources \<Rightarrow> real \<Rightarrow> real \<Rightarrow> jsnum \<Rightarrow> jsnum \<Rightarrow> error + fragment list" where
  "recommendation workload currentResources idealCollectorCount idealProcessorCount
       collectorEfficiencyGain processorEfficiencyGain =
     (let baseResult = calculateResourceRequirements workload currentResources in
      if highestUtilization baseResult < 5 / 10 then
        Inr [Lit ''Current resource allocation is sufficient; no scaling needed.'']
      else if highestUtilization baseResult < 7 / 10 then
        (case currentResources of
           None \<Rightarrow> Inl TypeError
         | Some cr \<Rightarrow>
             if gtField idealCollectorCount (statsdInstances cr) then
               Inr [Lit ''Consider increasing collector instances to '', Num idealCollectorCount,
                    Lit '' for better load distribution ('',
                    NumJ (js_round collectorEfficiencyGain), Lit ''% efficiency gain).'']
             else if gtField idealProcessorCount (carbonInstances cr) then
               Inr [Lit ''Consider increasing processor instances to '', Num idealProcessorCount,
                    Lit '' for better I/O performance ('',
                    NumJ (js_round processorEfficiencyGain), Lit ''% efficiency gain).'']
             else Inr [Lit ''Current instance counts are optimal for this workload.''])
      else if highestUtilization baseResult < 9 / 10 then
        (if utilization (req_networkIO (requirements baseResult)) \<ge> 7 / 10 then
           Inr [Lit ''Scale up collector instances to '', Num idealCollectorCount,
                Lit '' to distribute network load ('',
                NumJ (js_round collectorEfficiencyGain), Lit ''% improvement).'']
         else if utilization (req_diskIO (requirements baseResult)) \<ge> 7 / 10 then
           Inr [Lit ''Increase processor instances to '', Num idealProcessorCount,
                Lit '' to reduce I/O pressure ('',
                NumJ (js_round processorEfficiencyGain), Lit ''% improvement).'']
         else
           Inr [Lit ''Scale up both collector ('', Num idealCollectorCount,
                Lit '') and processor ('', Num idealProcessorCount,
                Lit '') instances for balanced performance.''])
      else
        Inr [Lit ''Urgent: Increase both hardware capacity and instance counts ('',
             Num (max idealCollectorCount 2), Lit '' collectors, '',
             Num (max idealProcessorCount 2), Lit '' processors).''])"

record Analysis =
  collectorIdealCount :: real
  processorIdealCount :: real
  collectorEfficiencyGain :: jsnum
  processorEfficiencyGain :: jsnum
  combinedScalingRecommendation :: "fragment list"

record ScalingResults =
  collectorScaling :: CollectorScaling
  processorScaling :: ProcessorScaling
  analysis :: Analysis

definition collectorBest :: "raw_workload \<Rightarrow> raw_resources \<Rightarrow> jsnum \<times> real" where
  "collectorBest workload currentResources =
     (let results = collectorScalingOf workload currentResources
      in bestLoop (zip (cs_instances results) (cs_cpuEfficiency results)) (Fin 1) 1)"

definition processorBest :: "raw_workload \<Rightarrow> raw_resources \<Rightarrow> jsnum \<times> real" where
  "processorBest workload currentResources =
     (let results = processorScalingOf workload currentResources
      in bestLoop (zip (ps_instances results) (diskIoEfficiency results)) (Fin 1) 1)"

definition validateInstanceScaling :: "raw_workload \<Rightarrow> raw_resources \<Rightarrow> error + ScalingResults" where
  "validateInstanceScaling workload currentResources =
     (let (bestCollectorEfficiency, idealCollectorCount) =
            collectorBest workload currentResources;
          (bestProcessorEfficiency, idealProcessorCount) =
            processorBest workload currentResources
      in case recommendation workload currentResources idealCollectorCount idealProcessorCount
                (efficiencyGain bestCollectorEfficiency) (efficiencyGain bestProcessorEfficiency)
         of Inl e \<Rightarrow> Inl e
          | Inr recommendationText \<Rightarrow>
              Inr \<lparr> collectorScaling = collectorScalingOf workload currentResources,
                    processorScaling = processorScalingOf workload currentResources,
                    analysis =
                      \<lparr> collectorIdealCount = idealCollectorCount,
                        processorIdealCount = idealProcessorCount,
                        collectorEfficiencyGain =
                          round1 (efficiencyGain bestCollectorEfficiency),
                        processorEfficiencyGain =
                          round1 (efficiencyGain bestProcessorEfficiency),
                        combinedScalingRecommendation = recommendationText \<rparr> \<rparr>)"

section \<open>Double-precision model\<close>

text \<open>
  The definitions above compute on exact reals.  The source computes on IEEE 754 binary64
  numbers, and where a property depends on rounding, overflow or a non-finite input the
  functions concerned are modelled a second time on \<open>jsnum\<close>, with the suffix \<open>D\<close>: a finite
  double is \<open>Fin\<close> of its value, and every arithmetic operation returns the exact result
  rounded by \<open>fl\<close> (round to nearest, ties to even, 53 significant bits, exponent at least
  \<open>-1022\<close>, overflow to an infinity).  The sign of zero is not modelled.  A decimal literal
  of the source that is not a double, such as \<^verbatim>\<open>0.6\<close>, is \<open>fl\<close> of its value; an integer
  literal is \<open>Fin\<close> of it.
\<close>

definition roundEven :: "real \<Rightarrow> int" where
  "roundEven q =
     (let f = \<lfloor>q\<rfloor> in
      if q - of_int f < 1 / 2 then f
      else if 1 / 2 < q - of_int f then f + 1
      else if even f then f else f + 1)"

definition fl :: "real \<Rightarrow> jsnum" where
  "fl x =
     (if x = 0 then Fin 0
      else
        let e = max \<lfloor>log 2 \<bar>x\<bar>\<rfloor> (- 1022);
            u = 2 powr (of_int e - 52);
            y = of_int (roundEven (x / u)) * u
        in if 2 ^ 1024 \<le> \<bar>y\<bar> then (if 0 < x then PosInf else NegInf) else Fin y)"

fun fl_add :: "jsnum \<Rightarrow> jsnum \<Rightarrow> jsnum" where
  "fl_add NaN y = NaN"
| "fl_add x NaN = NaN"
| "fl_add (Fin a) (Fin b) = fl (a + b)"
| "fl_add (Fin a) y = y"
| "fl_add x (Fin b) = x"
| "fl_add PosInf PosInf = PosInf"
| "fl_add NegInf NegInf = NegInf"
| "fl_add x y = NaN"

fun fl_sub :: "jsnum \<Rightarrow> jsnum \<Rightarrow> jsnum" where
  "fl_sub NaN y = NaN"
| "fl_sub x NaN = NaN"
| "fl_sub (Fin a) (Fin b) = fl (a - b)"
| "fl_sub (Fin a) PosInf = NegInf"
| "fl_sub (Fin a) NegInf = PosInf"
| "fl_sub x (Fin b) = x"
| "fl_sub PosInf NegInf = PosInf"
| "fl_sub NegInf PosInf = NegInf"
| "fl_sub x y = NaN"

fun fl_mul :: "jsnum \<Rightarrow> jsnum \<Rightarrow> jsnum" where
  "fl_mul NaN y = NaN"
| "fl_mul x NaN = NaN"
| "fl_mul (Fin a) (Fin b) = fl (a * b)"
| "fl_mul (Fin a) PosInf = (if 0 < a then PosInf else if a < 0 then NegInf else NaN)"
| "fl_mul (Fin a) NegInf = (if 0 < a then NegInf else if a < 0 then PosInf else NaN)"
| "fl_mul PosInf (Fin b) = (if 0 < b then PosInf else if b < 0 then NegInf else NaN)"
| "fl_mul NegInf (Fin b) = (if 0 < b then NegInf else if b < 0 then PosInf else NaN)"
| "fl_mul PosInf PosInf = PosInf"
| "fl_mul NegInf NegInf = PosInf"
| "fl_mul x y = NegInf"

fun fl_div :: "jsnum \<Rightarrow> jsnum \<Rightarrow> jsnum" where
  "fl_div NaN y = NaN"
| "fl_div x NaN = NaN"
| "fl_div (Fin a) (Fin b) =
     (if b \<noteq> 0 then fl (a / b)
      else if 0 < a then PosInf else if a < 0 then NegInf else NaN)"
| "fl_div (Fin a) y = Fin 0"
| "fl_div PosInf (Fin b) = (if b < 0 then NegInf else PosInf)"
| "fl_div NegInf (Fin b) = (if b < 0 then PosInf else NegInf)"
| "fl_div x y = NaN"

text \<open>\<^verbatim>\<open>Math.max\<close> and \<^verbatim>\<open>Math.min\<close> return \<^verbatim>\<open>NaN\<close> when an argument is \<^verbatim>\<open>NaN\<close>.\<close>

fun Math_maxD :: "jsnum \<Rightarrow> jsnum \<Rightarrow> jsnum" where
  "Math_maxD NaN y = NaN"
| "Math_maxD x NaN = NaN"
| "Math_maxD (Fin a) (Fin b) = Fin (max a b)"
| "Math_maxD PosInf y = PosInf"
| "Math_maxD x PosInf = PosInf"
| "Math_maxD NegInf y = y"
| "Math_maxD x NegInf = x"

fun Math_minD :: "jsnum \<Rightarrow> jsnum \<Rightarrow> jsnum" where
  "Math_minD NaN y = NaN"
| "Math_minD x NaN = NaN"
| "Math_minD (Fin a) (Fin b) = Fin (min a b)"
| "Math_minD NegInf y = NegInf"
| "Math_minD x NegInf = NegInf"
| "Math_minD PosInf y = y"
| "Math_minD x PosInf = x"

fun Math_ceilD :: "jsnum \<Rightarrow> jsnum" where
  "Math_ceilD (Fin a) = Fin (real_of_int \<lceil>a\<rceil>)"
| "Math_ceilD x = x"

text \<open>
  \<^verbatim>\<open>Math.log10\<close> is implementation-approximated: the language fixes its value only at the
  special arguments.  The functions that call it take it as the parameter \<open>lg\<close>;
  \<open>log10_rounded\<close> is the implementation that rounds the exact logarithm.
\<close>

definition log10_rounded :: "jsnum \<Rightarrow> jsnum" where
  "log10_rounded x =
     (case x of
        Fin v \<Rightarrow> if v < 0 then NaN else if v = 0 then NegInf else fl (log 10 v)
      | PosInf \<Rightarrow> PosInf
      | NegInf \<Rightarrow> NaN
      | NaN \<Rightarrow> NaN)"

text \<open>
  A raw field is now any JavaScript number or missing: \<open>None\<close> is \<^verbatim>\<open>undefined\<close> (or
  \<^verbatim>\<open>null\<close>, which \<^verbatim>\<open>||\<close> treats alike), and \<^verbatim>\<open>NaN\<close> and the infinities are values.
\<close>

type_synonym raw_workloadD = "jsnum option WorkloadParams option"
type_synonym raw_resourcesD = "jsnum option UserResources option"

definition opt_chainD :: "'r option \<Rightarrow> ('r \<Rightarrow> jsnum option) \<Rightarrow> jsnum option" where
  "opt_chainD r f = (case r of None \<Rightarrow> None | Some x \<Rightarrow> f x)"

definition or_defaultD :: "jsnum option \<Rightarrow> jsnum \<Rightarrow> jsnum" where
  "or_defaultD x d =
     (case x of
        None \<Rightarrow> d
      | Some NaN \<Rightarrow> d
      | Some (Fin v) \<Rightarrow> if v = 0 then d else Fin v
      | Some y \<Rightarrow> y)"

definition safeWorkloadD :: "raw_workloadD \<Rightarrow> jsnum WorkloadParams" where
  "safeWorkloadD workload =
     \<lparr> requestsPerSecond =
         Math_maxD (Fin 0) (or_defaultD (opt_chainD workload requestsPerSecond) (Fin 0)),
       metricsPerRequest =
         Math_maxD (Fin 0) (or_defaultD (opt_chainD workload metricsPerRequest) (Fin 0)),
       uniqueMetricsRatio =
         Math_minD (Fin 1)
           (Math_maxD (Fin 0) (or_defaultD (opt_chainD workload uniqueMetricsRatio) (fl (2 / 10)))),
       calculationComplexity =
         Math_maxD (Fin 1) (or_defaultD (opt_chainD workload calculationComplexity) (Fin 1)),
       flushIntervalSeconds =
         Math_maxD (Fin 1) (or_defaultD (opt_chainD workload flushIntervalSeconds) (Fin 10)),
       retentionPeriodDays =
         Math_maxD (Fin 1) (or_defaultD (opt_chainD workload retentionPeriodDays) (Fin 1)) \<rparr>"

definition safeResourcesD :: "raw_resourcesD \<Rightarrow> jsnum UserResources" where
  "safeResourcesD userResources =
     \<lparr> cpu = Math_maxD (fl (1 / 10)) (or_defaultD (opt_chainD userResources cpu) (Fin 1)),
       memory = Math_maxD (fl (1 / 10)) (or_defaultD (opt_chainD userResources memory) (Fin 1)),
       diskIO = Math_maxD (Fin 1) (or_defaultD (opt_chainD userResources diskIO) (Fin 10)),
       networkIO = Math_maxD (Fin 1) (or_defaultD (opt_chainD userResources networkIO) (Fin 10)),
       storage = Math_maxD (Fin 1) (or_defaultD (opt_chainD userResources storage) (Fin 10)),
       statsdInstances =
         Math_maxD (Fin 1) (or_defaultD (opt_chainD userResources statsdInstances) (Fin 1)),
       carbonInstances =
         Math_maxD (Fin 1) (or_defaultD (opt_chainD userResources carbonInstances) (Fin 1)) \<rparr>"

definition totalMetricsPerSecondD :: "jsnum WorkloadParams \<Rightarrow> jsnum" where
  "totalMetricsPerSecondD sw = fl_mul (requestsPerSecond sw) (metricsPerRequest sw)"

definition uniqueMetricsPerSecondD :: "jsnum WorkloadParams \<Rightarrow> jsnum" where
  "uniqueMetricsPerSecondD sw =
     Math_ceilD (fl_mul (totalMetricsPerSecondD sw) (uniqueMetricsRatio sw))"

definition writesPerSecondD :: "jsnum WorkloadParams \<Rightarrow> jsnum" where
  "writesPerSecondD sw = uniqueMetricsPerSecondD sw"

definition metricsPerInstanceD :: "jsnum WorkloadParams \<Rightarrow> jsnum UserResources \<Rightarrow> jsnum" where
  "metricsPerInstanceD sw sr =
     Math_ceilD (fl_div (totalMetricsPerSecondD sw) (statsdInstances sr))"

definition writesPerInstanceD :: "jsnum WorkloadParams \<Rightarrow> jsnum UserResources \<Rightarrow> jsnum" where
  "writesPerInstanceD sw sr =
     Math_ceilD (fl_div (writesPerSecondD sw) (carbonInstances sr))"

definition totalStatsDLoadD :: "jsnum WorkloadParams \<Rightarrow> jsnum" where
  "totalStatsDLoadD sw = fl_div (totalMetricsPerSecondD sw) (Fin 10000)"

definition singleInstanceStatsDCpuD :: "(jsnum \<Rightarrow> jsnum) \<Rightarrow> jsnum WorkloadParams \<Rightarrow> jsnum" where
  "singleInstanceStatsDCpuD lg sw =
     fl_mul
       (fl_mul (totalStatsDLoadD sw)
          (fl_add (Fin 1) (lg (Math_maxD (Fin 1) (totalStatsDLoadD sw)))))
       (fl (6 / 10))"

definition totalWriteLoadD :: "jsnum WorkloadParams \<Rightarrow> jsnum" where
  "totalWriteLoadD sw = fl_div (writesPerSecondD sw) (Fin 5000)"

definition singleInstanceCarbonCpuD :: "(jsnum \<Rightarrow> jsnum) \<Rightarrow> jsnum WorkloadParams \<Rightarrow> jsnum" where
  "singleInstanceCarbonCpuD lg sw =
     fl_mul
       (fl_mul (totalWriteLoadD sw)
          (fl_add (Fin 1) (lg (Math_maxD (Fin 1) (totalWriteLoadD sw)))))
       (fl (12 / 10))"

definition statsdCpuCoresD ::
  "(jsnum \<Rightarrow> jsnum) \<Rightarrow> jsnum WorkloadParams \<Rightarrow> jsnum UserResources \<Rightarrow> jsnum" where
  "statsdCpuCoresD lg sw sr =
     fl_add
       (fl_div (singleInstanceStatsDCpuD lg sw) (statsdInstances sr))
       (fl_mul (fl_mul (singleInstanceStatsDCpuD lg sw) (fl (15 / 1000)))
          (fl_sub (statsdInstances sr) (Fin 1)))"

definition carbonCpuCoresD ::
  "(jsnum \<Rightarrow> jsnum) \<Rightarrow> jsnum WorkloadParams \<Rightarrow> jsnum UserResources \<Rightarrow> jsnum" where
  "carbonCpuCoresD lg sw sr =
     fl_add
       (fl_div (singleInstanceCarbonCpuD lg sw) (carbonInstances sr))
       (fl_mul (fl_mul (singleInstanceCarbonCpuD lg sw) (fl (1 / 100)))
          (fl_sub (carbonInstances sr) (Fin 1)))"

definition graphiteCpuCoresD :: "jsnum WorkloadParams \<Rightarrow> jsnum" where
  "graphiteCpuCoresD sw =
     fl_mul
       (fl_mul (fl_div (calculationComplexity sw) (Fin 5))
          (fl_add (Fin 1) (fl_div (calculationComplexity sw) (Fin 10))))
       (fl (4 / 10))"

definition totalCpuRequiredD ::
  "(jsnum \<Rightarrow> jsnum) \<Rightarrow> jsnum WorkloadParams \<Rightarrow> jsnum UserResources \<Rightarrow> jsnum" where
  "totalCpuRequiredD lg sw sr =
     Math_maxD (fl (1 / 10))
       (fl_add (fl_add (statsdCpuCoresD lg sw sr) (carbonCpuCoresD lg sw sr))
          (graphiteCpuCoresD sw))"

text \<open>The fields \<^verbatim>\<open>value\<close> and \<^verbatim>\<open>utilization\<close> of \<^verbatim>\<open>cpuResource\<close>.\<close>

definition cpuValueD ::
  "(jsnum \<Rightarrow> jsnum) \<Rightarrow> jsnum WorkloadParams \<Rightarrow> jsnum UserResources \<Rightarrow> jsnum" where
  "cpuValueD lg sw sr =
     fl_div (Math_ceilD (fl_mul (totalCpuRequiredD lg sw sr) (Fin 10))) (Fin 10)"

definition cpuUtilizationD ::
  "(jsnum \<Rightarrow> jsnum) \<Rightarrow> jsnum WorkloadParams \<Rightarrow> jsnum UserResources \<Rightarrow> jsnum" where
  "cpuUtilizationD lg sw sr = fl_div (totalCpuRequiredD lg sw sr) (cpu sr)"

text \<open>The memory estimator.\<close>

definition singleInstanceStatsDMemoryD :: "jsnum WorkloadParams \<Rightarrow> jsnum" where
  "singleInstanceStatsDMemoryD sw =
     fl_div
       (fl_mul
          (fl_mul (fl_mul (uniqueMetricsPerSecondD sw) (flushIntervalSeconds sw)) (Fin 150))
          (fl (12 / 10)))
       (Fin (1024 * 1024 * 1024))"

definition singleInstanceCarbonMemoryD :: "jsnum WorkloadParams \<Rightarrow> jsnum" where
  "singleInstanceCarbonMemoryD sw =
     fl_div (fl_mul (fl_mul (uniqueMetricsPerSecondD sw) (Fin 10)) (Fin 150))
       (Fin (1024 * 1024 * 1024))"

definition statsdMemoryGBD :: "jsnum WorkloadParams \<Rightarrow> jsnum UserResources \<Rightarrow> jsnum" where
  "statsdMemoryGBD sw sr =
     fl_add
       (fl_div (fl_mul (singleInstanceStatsDMemoryD sw) (fl (85 / 100))) (statsdInstances sr))
       (fl_mul (fl (5 / 100)) (statsdInstances sr))"

definition writeLoadFactorD :: "jsnum WorkloadParams \<Rightarrow> jsnum UserResources \<Rightarrow> jsnum" where
  "writeLoadFactorD sw sr =
     Math_minD (fl (12 / 10))
       (fl_add (Fin 1) (fl_mul (fl_div (writesPerInstanceD sw sr) (Fin 10000)) (fl (2 / 10))))"

definition carbonMemoryGBD :: "jsnum WorkloadParams \<Rightarrow> jsnum UserResources \<Rightarrow> jsnum" where
  "carbonMemoryGBD sw sr =
     fl_add
       (fl_mul
          (fl_div (fl_mul (singleInstanceCarbonMemoryD sw) (fl (85 / 100))) (carbonInstances sr))
          (writeLoadFactorD sw sr))
       (fl_mul (fl (75 / 1000)) (carbonInstances sr))"

definition effectiveStatsDMemoryD :: "jsnum WorkloadParams \<Rightarrow> jsnum UserResources \<Rightarrow> jsnum" where
  "effectiveStatsDMemoryD sw sr =
     Math_minD (statsdMemoryGBD sw sr)
       (fl_add (fl_mul (singleInstanceStatsDMemoryD sw) (fl (4 / 10))) (fl (5 / 100)))"

definition effectiveCarbonMemoryD :: "jsnum WorkloadParams \<Rightarrow> jsnum UserResources \<Rightarrow> jsnum" where
  "effectiveCarbonMemoryD sw sr =
     Math_minD (carbonMemoryGBD sw sr)
       (fl_add (fl_mul (singleInstanceCarbonMemoryD sw) (fl (4 / 10))) (fl (75 / 1000)))"

definition graphiteMemoryGBD :: "jsnum WorkloadParams \<Rightarrow> jsnum" where
  "graphiteMemoryGBD sw =
     fl_add (Fin (1 / 2))
       (fl_mul
          (fl_mul (fl_div (calculationComplexity sw) (Fin 5))
             (fl_add (Fin 1) (fl_div (uniqueMetricsPerSecondD sw) (Fin 100000))))
          (Fin 2))"

definition totalMemoryRequiredD :: "jsnum WorkloadParams \<Rightarrow> jsnum UserResources \<Rightarrow> jsnum" where
  "totalMemoryRequiredD sw sr =
     Math_maxD (Fin (1 / 2))
       (fl_add (fl_add (effectiveStatsDMemoryD sw sr) (effectiveCarbonMemoryD sw sr))
          (graphiteMemoryGBD sw))"

definition memoryValueD :: "jsnum WorkloadParams \<Rightarrow> jsnum UserResources \<Rightarrow> jsnum" where
  "memoryValueD sw sr = fl_div (Math_ceilD (fl_mul (totalMemoryRequiredD sw sr) (Fin 10))) (Fin 10)"

definition memoryUtilizationD :: "jsnum WorkloadParams \<Rightarrow> jsnum UserResources \<Rightarrow> jsnum" where
  "memoryUtilizationD sw sr = fl_div (totalMemoryRequiredD sw sr) (memory sr)"

text \<open>The disk estimator; \<^verbatim>\<open>diskIORequired\<close> is the value of the resource.\<close>

definition randomIoFactorD :: "jsnum WorkloadParams \<Rightarrow> jsnum" where
  "randomIoFactorD sw =
     fl_add (Fin 1) (fl_mul (fl_div (uniqueMetricsPerSecondD sw) (Fin 6000)) (fl (4 / 10)))"

definition diskScalingFactorD :: "jsnum UserResources \<Rightarrow> jsnum" where
  "diskScalingFactorD sr =
     fl_mul (fl_div (Fin 1) (carbonInstances sr))
       (fl_add (Fin 1) (fl_mul (fl (5 / 1000)) (fl_sub (carbonInstances sr) (Fin 1))))"

definition effectiveIopsPerWriteD :: "jsnum WorkloadParams \<Rightarrow> jsnum UserResources \<Rightarrow> jsnum" where
  "effectiveIopsPerWriteD sw sr =
     fl_mul (fl_mul (Fin (5 / 2)) (randomIoFactorD sw)) (diskScalingFactorD sr)"

definition bytesPerOperationD :: jsnum where
  "bytesPerOperationD =
     fl_mul (fl_mul (Math_ceilD (fl_div (Fin 100) (Fin 4096))) (Fin 4096)) (fl (115 / 100))"

definition diskIopsRequiredD :: "jsnum WorkloadParams \<Rightarrow> jsnum UserResources \<Rightarrow> jsnum" where
  "diskIopsRequiredD sw sr = fl_mul (writesPerSecondD sw) (effectiveIopsPerWriteD sw sr)"

definition diskIORequiredD :: "jsnum WorkloadParams \<Rightarrow> jsnum UserResources \<Rightarrow> jsnum" where
  "diskIORequiredD sw sr =
     fl_div
       (Math_ceilD
          (fl_mul
             (fl_div (fl_mul (diskIopsRequiredD sw sr) bytesPerOperationD) (Fin (1024 * 1024)))
             (Fin 10)))
       (Fin 10)"

definition diskIOUtilizationD :: "jsnum WorkloadParams \<Rightarrow> jsnum UserResources \<Rightarrow> jsnum" where
  "diskIOUtilizationD sw sr = fl_div (diskIORequiredD sw sr) (diskIO sr)"

text \<open>
  The network estimator; \<^verbatim>\<open>totalNetworkRequired\<close> is the value of the resource.  The
  per-instance figures of the source go into the explanation only and are left out.
\<close>

definition clientStatsDTrafficD :: "jsnum WorkloadParams \<Rightarrow> jsnum" where
  "clientStatsDTrafficD sw =
     fl_div (fl_mul (fl_mul (totalMetricsPerSecondD sw) (Fin 50)) (Fin 8)) (Fin (1024 * 1024))"

definition statsdToCarbonTrafficD :: "jsnum WorkloadParams \<Rightarrow> jsnum" where
  "statsdToCarbonTrafficD sw = fl_mul (clientStatsDTrafficD sw) (fl (3 / 10))"

definition queryTrafficMbpsD :: "jsnum WorkloadParams \<Rightarrow> jsnum" where
  "queryTrafficMbpsD sw =
     fl_mul (fl_mul (clientStatsDTrafficD sw) (fl (5 / 100))) (calculationComplexity sw)"

definition maxInboundTrafficD :: "jsnum WorkloadParams \<Rightarrow> jsnum" where
  "maxInboundTrafficD sw = Math_maxD (clientStatsDTrafficD sw) (statsdToCarbonTrafficD sw)"

definition totalNetworkRequiredD :: "jsnum WorkloadParams \<Rightarrow> jsnum" where
  "totalNetworkRequiredD sw =
     fl_div
       (Math_ceilD (fl_mul (fl_add (maxInboundTrafficD sw) (queryTrafficMbpsD sw)) (Fin 10)))
       (Fin 10)"

definition networkIOUtilizationD :: "jsnum WorkloadParams \<Rightarrow> jsnum UserResources \<Rightarrow> jsnum" where
  "networkIOUtilizationD sw sr = fl_div (totalNetworkRequiredD sw) (networkIO sr)"

text \<open>The storage estimator.\<close>

definition dailyStorageGBD :: "jsnum WorkloadParams \<Rightarrow> jsnum" where
  "dailyStorageGBD sw =
     fl_div
       (fl_mul (fl_mul (uniqueMetricsPerSecondD sw) (fl_div (Fin 86400) (Fin 10))) (Fin 12))
       (Fin (1024 * 1024 * 1024))"

definition storageValueD :: "jsnum WorkloadParams \<Rightarrow> jsnum" where
  "storageValueD sw = fl_div (Math_ceilD (fl_mul (dailyStorageGBD sw) (Fin 10))) (Fin 10)"

definition storageUtilizationD :: "jsnum WorkloadParams \<Rightarrow> jsnum UserResources \<Rightarrow> jsnum" where
  "storageUtilizationD sw sr =
     fl_div (fl_mul (dailyStorageGBD sw) (retentionPeriodDays sw)) (storage sr)"

text \<open>The status classifier; a comparison with \<^verbatim>\<open>NaN\<close> is false.\<close>

definition getResourceStatusD :: "jsnum \<Rightarrow> jsnum \<Rightarrow> ResourceStatus" where
  "getResourceStatusD required available =
     (let utilization = fl_div required available in
      if js_lt (fl (9 / 10)) utilization then critical
      else if js_lt (fl (7 / 10)) utilization then warning
      else healthy)"

definition networkIOStatusD :: "jsnum WorkloadParams \<Rightarrow> jsnum UserResources \<Rightarrow> ResourceStatus" where
  "networkIOStatusD sw sr = getResourceStatusD (totalNetworkRequiredD sw) (networkIO sr)"

text \<open>
  The network resource of an estimate, as \<^verbatim>\<open>calculateResourceRequirements\<close> returns it for
  raw inputs, without its explanation.
\<close>

record NetworkIOD =
  valueD :: jsnum
  utilizationD :: jsnum
  statusD :: ResourceStatus

definition networkIOResourceD :: "raw_workloadD \<Rightarrow> raw_resourcesD \<Rightarrow> NetworkIOD" where
  "networkIOResourceD workload userResources =
     \<lparr> valueD = totalNetworkRequiredD (safeWorkloadD workload),
       utilizationD =
         networkIOUtilizationD (safeWorkloadD workload) (safeResourcesD userResources),
       statusD = networkIOStatusD (safeWorkloadD workload) (safeResourcesD userResources) \<rparr>"

text \<open>
  The network ratios of the explorer's collector sweep: for each count \<open>1, \<dots>, 8\<close> the
  network value of the configuration with that many collectors and one writer, over the value
  of the baseline with one of each.
\<close>

definition spreadResourcesD :: "raw_resourcesD \<Rightarrow> jsnum option UserResources" where
  "spreadResourcesD currentResources =
     (case currentResources of
        None \<Rightarrow> \<lparr> cpu = None, memory = None, diskIO = None, networkIO = None, storage = None,
                  statsdInstances = None, carbonInstances = None \<rparr>
      | Some r \<Rightarrow> r)"

definition testResourcesD :: "raw_resourcesD \<Rightarrow> real \<Rightarrow> real \<Rightarrow> raw_resourcesD" where
  "testResourcesD currentResources statsd carbon =
     Some ((spreadResourcesD currentResources)
             \<lparr> statsdInstances := Some (Fin statsd), carbonInstances := Some (Fin carbon) \<rparr>)"

definition networkRatioD :: "raw_workloadD \<Rightarrow> raw_resourcesD \<Rightarrow> real \<Rightarrow> jsnum" where
  "networkRatioD workload currentResources instances =
     fl_div
       (valueD (networkIOResourceD workload (testResourcesD currentResources instances 1)))
       (valueD (networkIOResourceD workload (testResourcesD currentResources 1 1)))"

definition networkOverheadD :: "raw_workloadD \<Rightarrow> raw_resourcesD \<Rightarrow> jsnum list" where
  "networkOverheadD workload currentResources =
     map (networkRatioD workload currentResources) sweepInstances"

section \<open>Definitions for the properties\<close>

text \<open>Example inputs: the empty records, and the valid workload and resources of the
  property tests.\<close>

definition emptyWorkload :: "real option WorkloadParams" where
  "emptyWorkload =
     \<lparr> requestsPerSecond = None, metricsPerRequest = None, uniqueMetricsRatio = None,
       calculationComplexity = None, flushIntervalSeconds = None, retentionPeriodDays = None \<rparr>"





text \<open>The status of a resource agrees with its utilization at the thresholds 0.7 and 0.9.\<close>

definition statusMatchesUtilization :: "Resource \<Rightarrow> bool" where
  "statusMatchesUtilization r =
     ((status r = critical) = (utilization r > 9 / 10) \<and>
      (status r = warning) = (7 / 10 < utilization r \<and> utilization r \<le> 9 / 10) \<and>
      (status r = healthy) = (utilization r \<le> 7 / 10))"

text \<open>
  The CPU model in the words of the specification: the saturation curve of a tier, its
  distribution over instances, the fixed cost, and their sum floored at 0.1 core.
\<close>

definition spec_tierCost :: "real \<Rightarrow> real \<Rightarrow> real \<Rightarrow> real" where
  "spec_tierCost load unitLoad k =
     (load / unitLoad) * (1 + log 10 (max 1 (load / unitLoad))) * k"

definition spec_distributed :: "real \<Rightarrow> real \<Rightarrow> real \<Rightarrow> real" where
  "spec_distributed tierCost overheadRate instances =
     tierCost / instances + tierCost * overheadRate * (instances - 1)"

definition spec_fixedCost :: "real \<Rightarrow> real" where
  "spec_fixedCost complexity = (complexity / 5) * (1 + complexity / 10) * (4 / 10)"

definition spec_cpuTotal :: "real WorkloadParams \<Rightarrow> real UserResources \<Rightarrow> real" where
  "spec_cpuTotal sw sr =
     max (1 / 10)
       (spec_distributed (spec_tierCost (totalMetricsPerSecond sw) 10000 (6 / 10)) (15 / 1000)
          (statsdInstances sr) +
        spec_distributed (spec_tierCost (writesPerSecond sw) 5000 (12 / 10)) (1 / 100)
          (carbonInstances sr) +
        spec_fixedCost (calculationComplexity sw))"






definition scalingBaseResources :: "real option UserResources" where
  "scalingBaseResources =
     \<lparr> cpu = Some 8, memory = Some 16, diskIO = Some 200, networkIO = Some 1000,
       storage = Some 1000, statsdInstances = Some 1, carbonInstances = Some 1 \<rparr>"


definition explorerWorkload :: "real option WorkloadParams" where
  "explorerWorkload =
     \<lparr> requestsPerSecond = Some 1000, metricsPerRequest = Some 100,
       uniqueMetricsRatio = Some (5 / 100), calculationComplexity = Some 1,
       flushIntervalSeconds = Some 10, retentionPeriodDays = Some 30 \<rparr>"

text \<open>
  What the search of the explorer finds.  No ratio of the sweep is below \<open>best\<close>; when
  \<open>best\<close> is below 1, \<open>ideal\<close> is the first count of the sweep whose ratio is \<open>best\<close>;
  otherwise \<open>best\<close> is 1 and \<open>ideal\<close> is 1.
\<close>

definition firstLowest :: "(real \<times> jsnum) list \<Rightarrow> jsnum \<Rightarrow> real \<Rightarrow> bool" where
  "firstLowest sweep best ideal =
     ((\<forall>p \<in> set sweep. \<not> js_lt (snd p) best) \<and>
      (if js_lt best (Fin 1)
       then \<exists>before after. sweep = before @ (ideal, best) # after \<and>
              (\<forall>p \<in> set before. snd p \<noteq> best)
       else best = Fin 1 \<and> ideal = 1))"

text \<open>
  The efficiency gain in the words of the specification, from the ratios of a sweep: the
  lowest ratio, and \<open>(1 - lowest) \<times> 100\<close>.
\<close>

definition spec_lowestRatio :: "jsnum list \<Rightarrow> jsnum" where
  "spec_lowestRatio ratios =
     foldr (\<lambda>x m. if js_lt x m then x else m) (butlast ratios) (last ratios)"

definition spec_efficiencyGain :: "jsnum list \<Rightarrow> jsnum" where
  "spec_efficiencyGain ratios = js_mul (js_sub (Fin 1) (spec_lowestRatio ratios)) (Fin 100)"

text \<open>
  The clamp rules in the words of the specification, with the meaning of \<^verbatim>\<open>||\<close>,
  \<^verbatim>\<open>Math.max\<close> and \<^verbatim>\<open>Math.min\<close> on every kind of number written out: \<open>max(lo, x || d)\<close>
  and \<open>min(1, max(0, x || 0.2))\<close>.  \<open>double_01\<close> and \<open>double_02\<close> are the doubles that the
  literals \<^verbatim>\<open>0.1\<close> and \<^verbatim>\<open>0.2\<close> denote.
\<close>

definition double_01 :: real where
  "double_01 = 3602879701896397 / 36028797018963968"

definition double_02 :: real where
  "double_02 = 3602879701896397 / 18014398509481984"

definition spec_clampD :: "real \<Rightarrow> real \<Rightarrow> jsnum option \<Rightarrow> jsnum" where
  "spec_clampD lo d x =
     (case x of
        Some (Fin v) \<Rightarrow> if v = 0 then Fin (max lo d) else Fin (max lo v)
      | Some PosInf \<Rightarrow> PosInf
      | Some NegInf \<Rightarrow> Fin lo
      | _ \<Rightarrow> Fin (max lo d))"

definition spec_clampRatioD :: "jsnum option \<Rightarrow> jsnum" where
  "spec_clampRatioD x =
     (case x of
        Some (Fin v) \<Rightarrow> if v = 0 then Fin double_02 else Fin (min 1 (max 0 v))
      | Some PosInf \<Rightarrow> Fin 1
      | Some NegInf \<Rightarrow> Fin 0
      | _ \<Rightarrow> Fin double_02)"

text \<open>A number (not \<^verbatim>\<open>NaN\<close>) that is at least \<open>lo\<close>; a finite number between two bounds.\<close>

definition numberAtLeast :: "real \<Rightarrow> jsnum \<Rightarrow> bool" where
  "numberAtLeast lo y = (case y of Fin v \<Rightarrow> lo \<le> v | PosInf \<Rightarrow> True | _ \<Rightarrow> False)"

definition finiteBetween :: "real \<Rightarrow> real \<Rightarrow> jsnum \<Rightarrow> bool" where
  "finiteBetween lo hi y = (case y of Fin v \<Rightarrow> lo \<le> v \<and> v \<le> hi | _ \<Rightarrow> False)"

definition emptyWorkloadD :: "jsnum option WorkloadParams" where
  "emptyWorkloadD =
     \<lparr> requestsPerSecond = None, metricsPerRequest = None, uniqueMetricsRatio = None,
       calculationComplexity = None, flushIntervalSeconds = None, retentionPeriodDays = None \<rparr>"

definition emptyResourcesD :: "jsnum option UserResources" where
  "emptyResourcesD =
     \<lparr> cpu = None, memory = None, diskIO = None, networkIO = None, storage = None,
       statsdInstances = None, carbonInstances = None \<rparr>"

text \<open>
  Inputs at which rounding or overflow shows: only a complexity of 5; both throughput
  drivers \<open>2^600\<close>; 100 metrics per second with the ratio \<^verbatim>\<open>0.07\<close>; \<open>2^1020\<close> requests per
  second with one metric each.
\<close>

definition complexityFiveWorkloadD :: "jsnum option WorkloadParams" where
  "complexityFiveWorkloadD = emptyWorkloadD\<lparr>calculationComplexity := Some (Fin 5)\<rparr>"

definition complexityFiveWorkload :: "real option WorkloadParams" where
  "complexityFiveWorkload = emptyWorkload\<lparr>calculationComplexity := Some 5\<rparr>"

definition hugeWorkloadD :: "jsnum option WorkloadParams" where
  "hugeWorkloadD =
     emptyWorkloadD\<lparr>requestsPerSecond := Some (Fin (2 ^ 600)),
       metricsPerRequest := Some (Fin (2 ^ 600))\<rparr>"

definition ratio007WorkloadD :: "jsnum option WorkloadParams" where
  "ratio007WorkloadD =
     emptyWorkloadD\<lparr>requestsPerSecond := Some (Fin 100), metricsPerRequest := Some (Fin 1),
       uniqueMetricsRatio := Some (fl (7 / 100))\<rparr>"

definition pow1020WorkloadD :: "jsnum option WorkloadParams" where
  "pow1020WorkloadD =
     emptyWorkloadD\<lparr>requestsPerSecond := Some (Fin (2 ^ 1020)),
       metricsPerRequest := Some (Fin 1)\<rparr>"





text \<open>
  The parts of \<open>fl\<close>, named for the proofs: the binary exponent of a number, the spacing
  of the doubles at that exponent, the rounded number before the overflow test, and the
  order of the numbers, in which \<^verbatim>\<open>NaN\<close> compares with nothing.
\<close>

definition binexp :: "real \<Rightarrow> int" where
  "binexp x = max \<lfloor>log 2 \<bar>x\<bar>\<rfloor> (- 1022)"

definition ulp :: "real \<Rightarrow> real" where
  "ulp x = 2 powr (of_int (binexp x) - 52)"

definition rnd :: "real \<Rightarrow> real" where
  "rnd x = of_int (roundEven (x / ulp x)) * ulp x"

fun js_le :: "jsnum \<Rightarrow> jsnum \<Rightarrow> bool" where
  "js_le NaN y = False"
| "js_le x NaN = False"
| "js_le (Fin a) (Fin b) = (a \<le> b)"
| "js_le NegInf y = True"
| "js_le x PosInf = True"
| "js_le x y = False"

text \<open>\<^verbatim>\<open>NaN\<close>, or a number that is at least \<open>lo\<close>.\<close>

definition nanOrAtLeast :: "real \<Rightarrow> jsnum \<Rightarrow> bool" where
  "nanOrAtLeast lo y =
     (case y of Fin v \<Rightarrow> lo \<le> v | PosInf \<Rightarrow> True | NegInf \<Rightarrow> False | NaN \<Rightarrow> True)"

text \<open>What the normalizer guarantees of its two records.\<close>

definition normalWorkloadD :: "jsnum WorkloadParams \<Rightarrow> bool" where
  "normalWorkloadD sw =
     (numberAtLeast 0 (requestsPerSecond sw) \<and> numberAtLeast 0 (metricsPerRequest sw) \<and>
      finiteBetween 0 1 (uniqueMetricsRatio sw) \<and>
      numberAtLeast 1 (calculationComplexity sw) \<and> numberAtLeast 1 (flushIntervalSeconds sw) \<and>
      numberAtLeast 1 (retentionPeriodDays sw))"

definition normalResourcesD :: "jsnum UserResources \<Rightarrow> bool" where
  "normalResourcesD sr =
     (numberAtLeast (1 / 10) (cpu sr) \<and> numberAtLeast (1 / 10) (memory sr) \<and>
      numberAtLeast 1 (diskIO sr) \<and> numberAtLeast 1 (networkIO sr) \<and>
      numberAtLeast 1 (storage sr) \<and> numberAtLeast 1 (statsdInstances sr) \<and>
      numberAtLeast 1 (carbonInstances sr))"

section \<open>Properties\<close>

lemma or_default_simps:
  "or_default None d = d"
  "or_default (Some v) d = (if v = 0 then d else v)"
  by (simp_all add: or_default_def)

lemma opt_chain_simps:
  "opt_chain None f = None"
  "opt_chain (Some r) f = f r"
  by (simp_all add: opt_chain_def)

lemma safeWorkload_bounds:
  "0 \<le> requestsPerSecond (safeWorkload w)"
  "0 \<le> metricsPerRequest (safeWorkload w)"
  "0 \<le> uniqueMetricsRatio (safeWorkload w)"
  "uniqueMetricsRatio (safeWorkload w) \<le> 1"
  "1 \<le> calculationComplexity (safeWorkload w)"
  "1 \<le> flushIntervalSeconds (safeWorkload w)"
  "1 \<le> retentionPeriodDays (safeWorkload w)"
  by (simp_all add: safeWorkload_def)

lemma safeResources_bounds:
  "1 / 10 \<le> cpu (safeResources u)"
  "1 / 10 \<le> memory (safeResources u)"
  "1 \<le> diskIO (safeResources u)"
  "1 \<le> networkIO (safeResources u)"
  "1 \<le> storage (safeResources u)"
  "1 \<le> statsdInstances (safeResources u)"
  "1 \<le> carbonInstances (safeResources u)"
  by (simp_all add: safeResources_def)

lemma total_nonneg: "0 \<le> totalMetricsPerSecond (safeWorkload w)"
  by (simp add: totalMetricsPerSecond_def safeWorkload_bounds)

lemma unique_nonneg: "0 \<le> uniqueMetricsPerSecond (safeWorkload w)"
proof -
  have "0 \<le> totalMetricsPerSecond (safeWorkload w) * uniqueMetricsRatio (safeWorkload w)"
    by (intro mult_nonneg_nonneg total_nonneg safeWorkload_bounds)
  then have "0 \<le> \<lceil>totalMetricsPerSecond (safeWorkload w) * uniqueMetricsRatio (safeWorkload w)\<rceil>"
    by (simp add: ceiling_le_iff le_ceiling_iff)
  then show ?thesis by (simp add: uniqueMetricsPerSecond_def Math_ceil_def)
qed

lemma Math_ceil_pos: "0 < x \<Longrightarrow> 0 < Math_ceil x"
  by (simp add: Math_ceil_def)

lemma Math_ceil_nonneg: "0 \<le> x \<Longrightarrow> 0 \<le> Math_ceil x"
  unfolding Math_ceil_def by (simp add: le_ceiling_iff)

lemma Math_ceil_pos_iff: "0 < Math_ceil x \<longleftrightarrow> 0 < x"
  by (simp add: Math_ceil_def)

lemma cpu_value_pos: "0 < rvalue (cpuResource sw sr)"
proof -
  have "0 < totalCpuRequired sw sr * 10" by (simp add: totalCpuRequired_def)
  then show ?thesis by (simp add: cpuResource_def Math_ceil_pos)
qed


lemma bytesPerOperation_value: "bytesPerOperation = 47104 / 10"
proof -
  have "\<lceil>100 / 4096 :: real\<rceil> = 1" by (simp add: ceiling_eq_iff)
  then show ?thesis
    by (simp add: bytesPerOperation_def Math_ceil_def effectiveBlockSize_def metadataOverhead_def)
qed

lemma diskScalingFactor_pos:
  assumes "1 \<le> carbonInstances sr"
  shows "0 < diskScalingFactor sr"
proof -
  have "0 < 1 + ioCoordinationOverhead * (carbonInstances sr - 1)"
    using assms unfolding ioCoordinationOverhead_def by argo
  moreover have "0 < 1 / carbonInstances sr" using assms by simp
  ultimately show ?thesis unfolding diskScalingFactor_def by (rule mult_pos_pos[rotated])
qed

lemma randomIoFactor_pos: "1 \<le> randomIoFactor (safeWorkload w)"
  using unique_nonneg[of w] by (simp add: randomIoFactor_def)

lemma effectiveIops_pos: "0 < effectiveIopsPerWrite (safeWorkload w) (safeResources u)"
proof -
  have "0 < randomIoFactor (safeWorkload w)" using randomIoFactor_pos[of w] by linarith
  moreover have "0 < diskScalingFactor (safeResources u)"
    by (rule diskScalingFactor_pos) (rule safeResources_bounds)
  ultimately show ?thesis by (simp add: effectiveIopsPerWrite_def baseIopsPerWrite_def)
qed

lemma diskIO_value_pos_iff:
  "0 < diskIORequired (safeWorkload w) (safeResources u) \<longleftrightarrow> 0 < uniqueMetricsPerSecond (safeWorkload w)"
  using effectiveIops_pos[of w u] unique_nonneg[of w]
  by (simp add: diskIORequired_def Math_ceil_pos_iff diskIopsRequired_def writesPerSecond_def
      bytesPerOperation_value zero_less_mult_iff)

lemma diskIO_value_nonneg: "0 \<le> diskIORequired (safeWorkload w) (safeResources u)"
proof -
  have "0 \<le> diskIopsRequired (safeWorkload w) (safeResources u)"
    using effectiveIops_pos[of w u] unique_nonneg[of w]
    by (simp add: diskIopsRequired_def writesPerSecond_def)
  then show ?thesis
    by (simp add: diskIORequired_def bytesPerOperation_value Math_ceil_nonneg)
qed

lemma clientTraffic_nonneg: "0 \<le> clientStatsDTraffic (safeWorkload w)"
  using total_nonneg[of w] by (simp add: clientStatsDTraffic_def avgMetricSizeBytes_def)

lemma clientTraffic_pos_iff:
  "0 < clientStatsDTraffic sw \<longleftrightarrow> 0 < totalMetricsPerSecond sw"
  by (simp add: clientStatsDTraffic_def avgMetricSizeBytes_def zero_less_mult_iff)

lemma network_sum:
  "maxInboundTraffic (safeWorkload w) + queryTrafficMbps (safeWorkload w) =
   clientStatsDTraffic (safeWorkload w) * (1 + (5 / 100) * calculationComplexity (safeWorkload w))"
proof -
  have "maxInboundTraffic (safeWorkload w) = clientStatsDTraffic (safeWorkload w)"
    using clientTraffic_nonneg[of w]
    by (simp add: maxInboundTraffic_def statsdToCarbonTraffic_def statsdToCarbonRatio_def max_def)
  then show ?thesis by (simp add: queryTrafficMbps_def algebra_simps)
qed

lemma network_value_pos_iff:
  "0 < totalNetworkRequired (safeWorkload w) \<longleftrightarrow> 0 < totalMetricsPerSecond (safeWorkload w)"
proof -
  have "0 < 1 + (5 / 100) * calculationComplexity (safeWorkload w)"
    using safeWorkload_bounds(5)[of w] by simp
  then show ?thesis
    using clientTraffic_nonneg[of w]
    by (simp add: totalNetworkRequired_def Math_ceil_pos_iff network_sum zero_less_mult_iff
        clientTraffic_pos_iff)
qed

lemma network_value_nonneg: "0 \<le> totalNetworkRequired (safeWorkload w)"
proof -
  have "0 \<le> 1 + (5 / 100) * calculationComplexity (safeWorkload w)"
    using safeWorkload_bounds(5)[of w] by simp
  then have "0 \<le> clientStatsDTraffic (safeWorkload w) * (1 + (5 / 100) * calculationComplexity (safeWorkload w))"
    using clientTraffic_nonneg[of w] by (intro mult_nonneg_nonneg)
  then show ?thesis
    by (simp add: totalNetworkRequired_def network_sum Math_ceil_nonneg)
qed



lemma estimate_fields:
  "req_cpu (requirements (calculateResourceRequirements w u)) = cpuResource (safeWorkload w) (safeResources u)"
  "req_memory (requirements (calculateResourceRequirements w u)) = memoryResource (safeWorkload w) (safeResources u)"
  "req_diskIO (requirements (calculateResourceRequirements w u)) = diskIOResource (safeWorkload w) (safeResources u)"
  "req_networkIO (requirements (calculateResourceRequirements w u)) = networkIOResource (safeWorkload w) (safeResources u)"
  "req_storage (requirements (calculateResourceRequirements w u)) = storageResource (safeWorkload w) (safeResources u)"
  "flowMetrics (calculateResourceRequirements w u) = flowMetricsOf (safeWorkload w) (safeResources u)"
  by (simp_all add: calculateResourceRequirements_def Let_def resourceRequirements_def)










lemma getResourceStatus_iff:
  "(getResourceStatus required available = critical) = (required / available > 9 / 10)"
  "(getResourceStatus required available = warning) =
     (7 / 10 < required / available \<and> required / available \<le> 9 / 10)"
  "(getResourceStatus required available = healthy) = (required / available \<le> 7 / 10)"
  by (auto simp add: getResourceStatus_def Let_def)

text \<open>
  Claim C3.  Every resource of an estimate has status critical iff its utilization exceeds
  0.9, warning iff the utilization is above 0.7 and at most 0.9, healthy otherwise; each of the
  five estimators gets the status from \<open>getResourceStatus\<close> on the same required and available
  amounts whose quotient is the utilization.
\<close>

theorem status_thresholds:
  "(let R = requirements (calculateResourceRequirements workload userResources);
        sw = safeWorkload workload; sr = safeResources userResources
    in statusMatchesUtilization (req_cpu R) \<and> statusMatchesUtilization (req_memory R) \<and>
       statusMatchesUtilization (req_diskIO R) \<and> statusMatchesUtilization (req_networkIO R) \<and>
       statusMatchesUtilization (req_storage R) \<and>
       status (req_cpu R) = getResourceStatus (totalCpuRequired sw sr) (cpu sr) \<and>
       utilization (req_cpu R) = totalCpuRequired sw sr / cpu sr \<and>
       status (req_memory R) = getResourceStatus (totalMemoryRequired sw sr) (memory sr) \<and>
       utilization (req_memory R) = totalMemoryRequired sw sr / memory sr \<and>
       status (req_diskIO R) = getResourceStatus (diskIORequired sw sr) (diskIO sr) \<and>
       utilization (req_diskIO R) = diskIORequired sw sr / diskIO sr \<and>
       status (req_networkIO R) = getResourceStatus (totalNetworkRequired sw) (networkIO sr) \<and>
       utilization (req_networkIO R) = totalNetworkRequired sw / networkIO sr \<and>
       status (req_storage R) =
         getResourceStatus (dailyStorageGB sw * retentionPeriodDays sw) (storage sr) \<and>
       utilization (req_storage R) = dailyStorageGB sw * retentionPeriodDays sw / storage sr)"
  unfolding Let_def statusMatchesUtilization_def estimate_fields
  by (simp add: cpuResource_def memoryResource_def diskIOResource_def networkIOResource_def
      storageResource_def cpuStatus_def memoryStatus_def diskIOStatus_def networkIOStatus_def
      storageStatus_def getResourceStatus_iff)

lemma totalCpu_spec: "totalCpuRequired sw sr = spec_cpuTotal sw sr"
  by (simp add: totalCpuRequired_def spec_cpuTotal_def spec_distributed_def spec_tierCost_def
      spec_fixedCost_def statsdCpuCores_def carbonCpuCores_def graphiteCpuCores_def
      singleInstanceStatsDCpu_def singleInstanceCarbonCpu_def totalStatsDLoad_def
      totalWriteLoad_def Math_log10_def statsdCoordinationOverhead_def
      carbonCoordinationOverhead_def)

















lemma diskScalingFactor_alt:
  "0 < carbonInstances sr \<Longrightarrow>
   diskScalingFactor sr = (995 / 1000) / carbonInstances sr + 5 / 1000"
  by (simp add: diskScalingFactor_def ioCoordinationOverhead_def field_simps)

lemma diskScalingFactor_strict_mono:
  assumes "1 \<le> carbonInstances sr1" "carbonInstances sr1 < carbonInstances sr2"
  shows "diskScalingFactor sr2 < diskScalingFactor sr1"
proof -
  have p1: "0 < carbonInstances sr1" and p2: "0 < carbonInstances sr2" using assms by simp_all
  have "(995 / 1000) / carbonInstances sr2 < (995 / 1000) / carbonInstances sr1"
    using assms p1 by (intro divide_strict_left_mono) simp_all
  then show ?thesis by (simp add: diskScalingFactor_alt[OF p1] diskScalingFactor_alt[OF p2])
qed









lemma sweepInstances_list: "sweepInstances = [1, 2, 3, 4, 5, 6, 7, 8]"
proof -
  have "[1..<9] = [1, 2, 3, 4, 5, 6, 7, 8 :: nat]" by code_simp
  then show ?thesis by (simp add: sweepInstances_def)
qed

lemma js_lt_irrefl: "\<not> js_lt x x"
  by (cases x) simp_all

lemma js_lt_trans: "js_lt a b \<Longrightarrow> js_lt b c \<Longrightarrow> js_lt a c"
  by (cases a; cases b; cases c) simp_all

lemma bestLoop_inv:
  "bestLoop xs b0 i0 = (b, i) \<Longrightarrow>
   (\<forall>p \<in> set xs. \<not> js_lt (snd p) b) \<and> \<not> js_lt b0 b \<and>
   ((b, i) = (b0, i0) \<or> ((i, b) \<in> set xs \<and> js_lt b b0))"
proof (induction xs arbitrary: b0 i0)
  case Nil
  then show ?case by (simp add: js_lt_irrefl)
next
  case (Cons p rest)
  obtain j x where p: "p = (j, x)" by (cases p)
  show ?case
  proof (cases "js_lt x b0")
    case True
    then have "bestLoop rest x j = (b, i)" using Cons.prems p by simp
    from Cons.IH[OF this] have ih: "\<forall>p \<in> set rest. \<not> js_lt (snd p) b" "\<not> js_lt x b"
      "(b, i) = (x, j) \<or> ((i, b) \<in> set rest \<and> js_lt b x)" by blast+
    have n: "\<not> js_lt b0 b" using True ih(2) js_lt_trans by blast
    have "(b, i) = (x, j) \<or> js_lt b x" using ih(3) by blast
    then have lt: "js_lt b b0" using True js_lt_trans by auto
    have mem: "(i, b) \<in> set (p # rest)" using ih(3) p by auto
    have "\<forall>q \<in> set (p # rest). \<not> js_lt (snd q) b" using ih(1) ih(2) p by simp
    then show ?thesis using n lt mem by blast
  next
    case False
    then have "bestLoop rest b0 i0 = (b, i)" using Cons.prems p by simp
    from Cons.IH[OF this] have ih: "\<forall>p \<in> set rest. \<not> js_lt (snd p) b" "\<not> js_lt b0 b"
      "(b, i) = (b0, i0) \<or> ((i, b) \<in> set rest \<and> js_lt b b0)" by blast+
    have "\<not> js_lt x b" using ih(3) False js_lt_trans by blast
    then have "\<forall>q \<in> set (p # rest). \<not> js_lt (snd q) b" using ih(1) p by simp
    moreover have "(b, i) = (b0, i0) \<or> ((i, b) \<in> set (p # rest) \<and> js_lt b b0)"
      using ih(3) by auto
    ultimately show ?thesis using ih(2) by blast
  qed
qed

lemma bestLoop_first:
  "bestLoop xs b0 i0 = (b, i) \<Longrightarrow> js_lt b b0 \<Longrightarrow>
   \<exists>before after. xs = before @ (i, b) # after \<and> (\<forall>p \<in> set before. snd p \<noteq> b)"
proof (induction xs arbitrary: b0 i0)
  case Nil
  then have "b = b0" by simp
  then show ?case using Nil.prems(2) js_lt_irrefl by blast
next
  case (Cons p rest)
  obtain j x where p: "p = (j, x)" by (cases p)
  show ?case
  proof (cases "js_lt x b0")
    case True
    then have r: "bestLoop rest x j = (b, i)" using Cons.prems(1) p by simp
    from bestLoop_inv[OF r] have "(b, i) = (x, j) \<or> js_lt b x" by blast
    then show ?thesis
    proof
      assume "(b, i) = (x, j)"
      then have "p # rest = [] @ (i, b) # rest" using p by simp
      moreover have "\<forall>p \<in> set []. snd p \<noteq> b" by simp
      ultimately show ?thesis by blast
    next
      assume lt: "js_lt b x"
      from Cons.IH[OF r lt] obtain before after where
        ba: "rest = before @ (i, b) # after" "\<forall>p \<in> set before. snd p \<noteq> b" by blast
      have xb: "snd p \<noteq> b" using lt js_lt_irrefl p by auto
      have "p # rest = (p # before) @ (i, b) # after" using ba(1) by simp
      moreover have "\<forall>q \<in> set (p # before). snd q \<noteq> b" using ba(2) xb by simp
      ultimately show ?thesis by blast
    qed
  next
    case False
    then have r: "bestLoop rest b0 i0 = (b, i)" using Cons.prems(1) p by simp
    from Cons.IH[OF r Cons.prems(2)] obtain before after where
      ba: "rest = before @ (i, b) # after" "\<forall>p \<in> set before. snd p \<noteq> b" by blast
    have xb: "snd p \<noteq> b" using False Cons.prems(2) p by auto
    have "p # rest = (p # before) @ (i, b) # after" using ba(1) by simp
    moreover have "\<forall>q \<in> set (p # before). snd q \<noteq> b" using ba(2) xb by simp
    ultimately show ?thesis by blast
  qed
qed

lemma bestLoop_firstLowest:
  assumes "bestLoop xs (Fin 1) 1 = (b, i)"
  shows "firstLowest xs b i"
proof -
  from bestLoop_inv[OF assms] have
    lo: "\<forall>p \<in> set xs. \<not> js_lt (snd p) b" and
    alt: "(b, i) = (Fin 1, 1) \<or> ((i, b) \<in> set xs \<and> js_lt b (Fin 1))"
    by blast+
  show ?thesis
  proof (cases "js_lt b (Fin 1)")
    case True
    from bestLoop_first[OF assms True] lo True show ?thesis
      unfolding firstLowest_def by (simp only: if_True simp_thms)
  next
    case False
    then have "b = Fin 1 \<and> i = 1" using alt by blast
    then show ?thesis using lo False unfolding firstLowest_def by (simp only: if_False simp_thms)
  qed
qed

lemma bestLoop_ideal_range:
  assumes "bestLoop xs b0 i0 = (b, i)"
  shows "i = i0 \<or> i \<in> fst ` set xs"
proof -
  from bestLoop_inv[OF assms] have "(b, i) = (b0, i0) \<or> (i, b) \<in> set xs" by blast
  then show ?thesis
  proof
    assume "(b, i) = (b0, i0)" then show ?thesis by simp
  next
    assume "(i, b) \<in> set xs"
    then have "fst (i, b) \<in> fst ` set xs" by (rule imageI)
    then show ?thesis by simp
  qed
qed

lemma recommendation_total:
  "\<not> isl (recommendation w (Some cr) a b c d)"
  unfolding recommendation_def Let_def
  by (simp only: option.case sum.disc split: if_splits) simp

lemma validate_cases:
  obtains (err) "validateInstanceScaling w u = Inl TypeError"
  | (ok) t where
      "validateInstanceScaling w u =
         Inr \<lparr> collectorScaling = collectorScalingOf w u,
               processorScaling = processorScalingOf w u,
               analysis =
                 \<lparr> collectorIdealCount = snd (collectorBest w u),
                   processorIdealCount = snd (processorBest w u),
                   collectorEfficiencyGain = round1 (efficiencyGain (fst (collectorBest w u))),
                   processorEfficiencyGain = round1 (efficiencyGain (fst (processorBest w u))),
                   combinedScalingRecommendation = t \<rparr> \<rparr>"
      "recommendation w u (snd (collectorBest w u)) (snd (processorBest w u))
         (efficiencyGain (fst (collectorBest w u))) (efficiencyGain (fst (processorBest w u))) =
       Inr t"
proof -
  obtain bc ic where c: "collectorBest w u = (bc, ic)" by (cases "collectorBest w u")
  obtain bp ip where p: "processorBest w u = (bp, ip)" by (cases "processorBest w u")
  show ?thesis
  proof (cases "recommendation w u ic ip (efficiencyGain bc) (efficiencyGain bp)")
    case (Inl e)
    then have "validateInstanceScaling w u = Inl TypeError"
      by (cases e) (simp add: validateInstanceScaling_def c p)
    then show ?thesis by (rule err)
  next
    case (Inr t)
    show ?thesis
      by (rule ok[of t]) (simp_all add: validateInstanceScaling_def c p Inr)
  qed
qed

lemma validate_Inr:
  assumes "validateInstanceScaling w u = Inr res"
  shows "collectorScaling res = collectorScalingOf w u \<and>
     processorScaling res = processorScalingOf w u \<and>
     collectorIdealCount (analysis res) = snd (collectorBest w u) \<and>
     processorIdealCount (analysis res) = snd (processorBest w u) \<and>
     collectorEfficiencyGain (analysis res) = round1 (efficiencyGain (fst (collectorBest w u))) \<and>
     processorEfficiencyGain (analysis res) = round1 (efficiencyGain (fst (processorBest w u)))"
proof (cases rule: validate_cases[of w u])
  case err
  then show ?thesis using assms by simp
next
  case (ok t)
  then have "res = \<lparr> collectorScaling = collectorScalingOf w u,
               processorScaling = processorScalingOf w u,
               analysis =
                 \<lparr> collectorIdealCount = snd (collectorBest w u),
                   processorIdealCount = snd (processorBest w u),
                   collectorEfficiencyGain = round1 (efficiencyGain (fst (collectorBest w u))),
                   processorEfficiencyGain = round1 (efficiencyGain (fst (processorBest w u))),
                   combinedScalingRecommendation = t \<rparr> \<rparr>"
    using assms by simp
  then show ?thesis by simp
qed

lemma validate_total: "\<not> isl (validateInstanceScaling w (Some cr))"
proof (cases rule: validate_cases[of w "Some cr"])
  case err
  obtain bc ic where c: "collectorBest w (Some cr) = (bc, ic)" by (cases "collectorBest w (Some cr)")
  obtain bp ip where p: "processorBest w (Some cr) = (bp, ip)" by (cases "processorBest w (Some cr)")
  have "\<not> isl (recommendation w (Some cr) ic ip (efficiencyGain bc) (efficiencyGain bp))"
    by (rule recommendation_total)
  then obtain t where "recommendation w (Some cr) ic ip (efficiencyGain bc) (efficiencyGain bp) = Inr t"
    by (cases "recommendation w (Some cr) ic ip (efficiencyGain bc) (efficiencyGain bp)") simp_all
  then have "validateInstanceScaling w (Some cr) \<noteq> Inl TypeError"
    by (simp add: validateInstanceScaling_def c p)
  then show ?thesis using err by simp
next
  case (ok t)
  then show ?thesis by simp
qed

lemma collectorBest_eq:
  "collectorBest w u =
     bestLoop (zip sweepInstances (map (collectorCpuEfficiency w u) sweepInstances)) (Fin 1) 1"
  by (simp add: collectorBest_def collectorScalingOf_def Let_def)

lemma processorBest_eq:
  "processorBest w u =
     bestLoop (zip sweepInstances (map (diskIoRatio w u) sweepInstances)) (Fin 1) 1"
  by (simp add: processorBest_def processorScalingOf_def Let_def)

lemma safeResources_testResources:
  "1 \<le> a \<Longrightarrow> 1 \<le> b \<Longrightarrow>
   statsdInstances (safeResources (testResources u a b)) = a \<and>
   carbonInstances (safeResources (testResources u a b)) = b"
  by (simp add: safeResources_def testResources_def opt_chain_simps or_default_simps max_def)

lemma networkRatio_eq:
  "networkRatio w u i = (if 0 < totalMetricsPerSecond (safeWorkload w) then Fin 1 else NaN)"
proof -
  let ?v = "totalNetworkRequired (safeWorkload w)"
  have r: "networkRatio w u i = js_div (Fin ?v) (Fin ?v)"
    by (simp add: networkRatio_def collectorResult_def baselineResult_def estimate_fields
        networkIOResource_def)
  show ?thesis
  proof (cases "0 < totalMetricsPerSecond (safeWorkload w)")
    case True
    then have "0 < ?v" by (simp add: network_value_pos_iff)
    then show ?thesis using True by (simp add: r)
  next
    case False
    then have "\<not> 0 < ?v" by (simp add: network_value_pos_iff)
    then have "?v = 0" using network_value_nonneg[of w] by simp
    then show ?thesis using False by (simp add: r)
  qed
qed

lemma collectorCpuEfficiency_eq:
  "collectorCpuEfficiency w u i =
     (if 0 < totalMetricsPerSecond (safeWorkload w)
      then Fin (rvalue (req_cpu (requirements (collectorResult w u i))) /
                rvalue (req_cpu (requirements (baselineResult w u))))
      else NaN)"
proof -
  let ?t = "totalMetricsPerSecond (safeWorkload w)"
  let ?v = "rvalue (req_cpu (requirements (collectorResult w u i)))"
  let ?b = "rvalue (req_cpu (requirements (baselineResult w u)))"
  have v: "0 < ?v" and b: "0 < ?b"
    by (simp_all add: collectorResult_def baselineResult_def estimate_fields cpu_value_pos)
  have t1: "fm_totalMetricsPerSecond (flowMetrics (collectorResult w u i)) = ?t"
    and t2: "fm_totalMetricsPerSecond (flowMetrics (baselineResult w u)) = ?t"
    by (simp_all add: collectorResult_def baselineResult_def estimate_fields flowMetricsOf_def)
  show ?thesis
  proof (cases "0 < ?t")
    case True
    then show ?thesis using v b
      by (simp add: collectorCpuEfficiency_def cpuPer10kMetrics_def t1 t2)
  next
    case False
    then have "?t = 0" using total_nonneg[of w] by simp
    then show ?thesis using v b
      by (simp add: collectorCpuEfficiency_def cpuPer10kMetrics_def t1 t2)
  qed
qed

lemma diskIoRatio_eq:
  "diskIoRatio w u i =
     (if 0 < uniqueMetricsPerSecond (safeWorkload w)
      then Fin (rvalue (req_diskIO (requirements (processorResult w u i))) /
                rvalue (req_diskIO (requirements (baselineResult w u))))
      else NaN)"
proof -
  let ?q = "uniqueMetricsPerSecond (safeWorkload w)"
  let ?v = "rvalue (req_diskIO (requirements (processorResult w u i)))"
  let ?b = "rvalue (req_diskIO (requirements (baselineResult w u)))"
  have v: "?v = diskIORequired (safeWorkload w) (safeResources (testResources u 1 i))"
    and b: "?b = diskIORequired (safeWorkload w) (safeResources (testResources u 1 1))"
    by (simp_all add: processorResult_def baselineResult_def estimate_fields diskIOResource_def)
  show ?thesis
  proof (cases "0 < ?q")
    case True
    then have "0 < ?b" by (simp add: b diskIO_value_pos_iff)
    then show ?thesis using True by (simp add: diskIoRatio_def)
  next
    case False
    then have "\<not> 0 < ?b" "\<not> 0 < ?v" by (simp_all add: b v diskIO_value_pos_iff)
    then have "?b = 0" "?v = 0"
      using diskIO_value_nonneg[of w "testResources u 1 1"] diskIO_value_nonneg[of w "testResources u 1 i"]
      by (simp_all add: b v)
    then show ?thesis using False by (simp add: diskIoRatio_def)
  qed
qed

lemma explorer_safeWorkload:
  "safeWorkload (Some explorerWorkload) =
     \<lparr> requestsPerSecond = 1000, metricsPerRequest = 100, uniqueMetricsRatio = 5 / 100,
       calculationComplexity = 1, flushIntervalSeconds = 10, retentionPeriodDays = 30 \<rparr>"
  by (simp add: safeWorkload_def explorerWorkload_def opt_chain_simps or_default_simps)

lemma explorer_flow:
  "totalMetricsPerSecond (safeWorkload (Some explorerWorkload)) = 100000"
  "uniqueMetricsPerSecond (safeWorkload (Some explorerWorkload)) = 5000"
  by (simp_all add: explorer_safeWorkload totalMetricsPerSecond_def uniqueMetricsPerSecond_def
      Math_ceil_def)

lemma explorer_single_costs:
  "singleInstanceStatsDCpu (safeWorkload (Some explorerWorkload)) = 12"
  "singleInstanceCarbonCpu (safeWorkload (Some explorerWorkload)) = 12 / 10"
  "graphiteCpuCores (safeWorkload (Some explorerWorkload)) = 88 / 1000"
proof -
  show "singleInstanceStatsDCpu (safeWorkload (Some explorerWorkload)) = 12"
    by (simp add: singleInstanceStatsDCpu_def totalStatsDLoad_def explorer_flow Math_log10_def)
  show "singleInstanceCarbonCpu (safeWorkload (Some explorerWorkload)) = 12 / 10"
    by (simp add: singleInstanceCarbonCpu_def totalWriteLoad_def writesPerSecond_def
        explorer_flow Math_log10_def)
  show "graphiteCpuCores (safeWorkload (Some explorerWorkload)) = 88 / 1000"
    by (simp add: graphiteCpuCores_def explorer_safeWorkload)
qed

lemma explorer_cpu_total:
  assumes "1 \<le> n"
  shows "totalCpuRequired (safeWorkload (Some explorerWorkload)) (safeResources (testResources u n 1)) =
         12 / n + (18 / 100) * (n - 1) + 1288 / 1000"
proof -
  have "0 \<le> 12 / n" "0 \<le> (18 / 100) * (n - 1)" using assms by simp_all
  then have "1 / 10 \<le> 12 / n + (18 / 100) * (n - 1) + 1288 / 1000" by argo
  then show ?thesis
    using safeResources_testResources[OF assms, of 1 u]
    by (simp add: totalCpuRequired_def statsdCpuCores_def carbonCpuCores_def explorer_single_costs
        statsdCoordinationOverhead_def carbonCoordinationOverhead_def max_def)
qed

lemma explorer_cpu_value:
  assumes "1 \<le> n"
  shows "rvalue (req_cpu (requirements (collectorResult (Some explorerWorkload) u n))) =
         real_of_int \<lceil>(12 / n + (18 / 100) * (n - 1) + 1288 / 1000) * 10\<rceil> / 10"
  by (simp add: collectorResult_def estimate_fields cpuResource_def explorer_cpu_total[OF assms]
      Math_ceil_def)

lemma explorer_cpu_values:
  "rvalue (req_cpu (requirements (baselineResult (Some explorerWorkload) u))) = 133 / 10"
  "rvalue (req_cpu (requirements (collectorResult (Some explorerWorkload) u 1))) = 133 / 10"
  "rvalue (req_cpu (requirements (collectorResult (Some explorerWorkload) u 2))) = 75 / 10"
  "rvalue (req_cpu (requirements (collectorResult (Some explorerWorkload) u 3))) = 57 / 10"
  "rvalue (req_cpu (requirements (collectorResult (Some explorerWorkload) u 4))) = 49 / 10"
  "rvalue (req_cpu (requirements (collectorResult (Some explorerWorkload) u 5))) = 45 / 10"
  "rvalue (req_cpu (requirements (collectorResult (Some explorerWorkload) u 6))) = 42 / 10"
  "rvalue (req_cpu (requirements (collectorResult (Some explorerWorkload) u 7))) = 41 / 10"
  "rvalue (req_cpu (requirements (collectorResult (Some explorerWorkload) u 8))) = 41 / 10"
proof -
  have b: "baselineResult (Some explorerWorkload) u = collectorResult (Some explorerWorkload) u 1"
    by (simp add: baselineResult_def collectorResult_def)
  show "rvalue (req_cpu (requirements (collectorResult (Some explorerWorkload) u 1))) = 133 / 10"
    by (simp add: explorer_cpu_value ceiling_eq_iff)
  then show "rvalue (req_cpu (requirements (baselineResult (Some explorerWorkload) u))) = 133 / 10"
    by (simp only: b)
  show "rvalue (req_cpu (requirements (collectorResult (Some explorerWorkload) u 2))) = 75 / 10"
    by (simp add: explorer_cpu_value ceiling_eq_iff)
  show "rvalue (req_cpu (requirements (collectorResult (Some explorerWorkload) u 3))) = 57 / 10"
    by (simp add: explorer_cpu_value ceiling_eq_iff)
  show "rvalue (req_cpu (requirements (collectorResult (Some explorerWorkload) u 4))) = 49 / 10"
    by (simp add: explorer_cpu_value ceiling_eq_iff)
  show "rvalue (req_cpu (requirements (collectorResult (Some explorerWorkload) u 5))) = 45 / 10"
    by (simp add: explorer_cpu_value ceiling_eq_iff)
  show "rvalue (req_cpu (requirements (collectorResult (Some explorerWorkload) u 6))) = 42 / 10"
    by (simp add: explorer_cpu_value ceiling_eq_iff)
  show "rvalue (req_cpu (requirements (collectorResult (Some explorerWorkload) u 7))) = 41 / 10"
    by (simp add: explorer_cpu_value ceiling_eq_iff)
  show "rvalue (req_cpu (requirements (collectorResult (Some explorerWorkload) u 8))) = 41 / 10"
    by (simp add: explorer_cpu_value ceiling_eq_iff)
qed

lemma explorer_collectorBest:
  "collectorBest (Some explorerWorkload) u = (Fin (41 / 133), 7)"
  by (simp add: collectorBest_eq sweepInstances_list collectorCpuEfficiency_eq explorer_flow
      explorer_cpu_values)

lemma explorer_gain:
  "round1 (efficiencyGain (Fin (41 / 133))) = Fin (692 / 10)"
proof -
  have "\<lfloor>92000 / 133 + 1 / 2 :: real\<rfloor> = 692" by (simp add: floor_eq_iff)
  then show ?thesis by (simp add: round1_def efficiencyGain_def Math_round_def)
qed

lemma networkOverhead_eq:
  "networkOverhead (collectorScalingOf w u) =
     (if 0 < totalMetricsPerSecond (safeWorkload w)
      then [Fin 1, Fin 1, Fin 1, Fin 1, Fin 1, Fin 1, Fin 1, Fin 1]
      else [NaN, NaN, NaN, NaN, NaN, NaN, NaN, NaN])"
  by (simp add: collectorScalingOf_def sweepInstances_list networkRatio_eq)






lemma best_finite:
  assumes "bestLoop (zip sweepInstances (map f sweepInstances)) (Fin 1) 1 = (b, i)"
    and "\<And>n. f n = NaN \<or> (\<exists>x. f n = Fin x)"
  shows "\<exists>x. b = Fin x \<and> x \<le> 1"
proof -
  from bestLoop_inv[OF assms(1)] have
    "(b, i) = (Fin 1, 1) \<or>
     ((i, b) \<in> set (zip sweepInstances (map f sweepInstances)) \<and> js_lt b (Fin 1))" by blast
  then show ?thesis
  proof
    assume "(b, i) = (Fin 1, 1)" then show ?thesis by simp
  next
    assume h: "(i, b) \<in> set (zip sweepInstances (map f sweepInstances)) \<and> js_lt b (Fin 1)"
    then have "b \<in> set (map f sweepInstances)" by (meson set_zip_rightD)
    then obtain n where "b = f n" by auto
    then have "b = NaN \<or> (\<exists>x. b = Fin x)" using assms(2)[of n] by simp
    then show ?thesis using h by auto
  qed
qed

lemma round1_gain_Fin:
  "round1 (efficiencyGain (Fin b)) = Fin (Math_round ((1 - b) * 100 * 10) / 10)"
  by (simp add: round1_def efficiencyGain_def)

text \<open>
  Claim C5, as the code has it.  When \<^verbatim>\<open>validateInstanceScaling\<close> returns, the ideal
  collector count is the first count of the sweep \<open>1, \<dots>, 8\<close> with the lowest CPU
  efficiency ratio (count 1 when no ratio is below 1), the ideal writer count is the same
  for the disk I/O ratio, and each reported gain is \<open>(1 - bestRatio) \<times> 100\<close> rounded to one
  decimal.
\<close>

theorem explorer_ideal_counts:
  assumes "validateInstanceScaling workload u = Inr res"
  shows "firstLowest (zip (cs_instances (collectorScaling res)) (cs_cpuEfficiency (collectorScaling res)))
           (fst (collectorBest workload u)) (collectorIdealCount (analysis res)) \<and>
         firstLowest (zip (ps_instances (processorScaling res)) (diskIoEfficiency (processorScaling res)))
           (fst (processorBest workload u)) (processorIdealCount (analysis res)) \<and>
         cs_instances (collectorScaling res) = [1, 2, 3, 4, 5, 6, 7, 8] \<and>
         ps_instances (processorScaling res) = [1, 2, 3, 4, 5, 6, 7, 8] \<and>
         collectorIdealCount (analysis res) \<in> {1, 2, 3, 4, 5, 6, 7, 8} \<and>
         processorIdealCount (analysis res) \<in> {1, 2, 3, 4, 5, 6, 7, 8} \<and>
         (\<exists>bestRatio. fst (collectorBest workload u) = Fin bestRatio \<and> bestRatio \<le> 1 \<and>
            collectorEfficiencyGain (analysis res) =
              Fin (Math_round ((1 - bestRatio) * 100 * 10) / 10)) \<and>
         (\<exists>bestRatio. fst (processorBest workload u) = Fin bestRatio \<and> bestRatio \<le> 1 \<and>
            processorEfficiencyGain (analysis res) =
              Fin (Math_round ((1 - bestRatio) * 100 * 10) / 10))"
proof -
  note v = validate_Inr[OF assms]
  obtain bc ic where c: "collectorBest workload u = (bc, ic)" by (cases "collectorBest workload u")
  obtain bp ip where p: "processorBest workload u = (bp, ip)" by (cases "processorBest workload u")
  let ?cs = "zip sweepInstances (map (collectorCpuEfficiency workload u) sweepInstances)"
  let ?ps = "zip sweepInstances (map (diskIoRatio workload u) sweepInstances)"
  have lc: "bestLoop ?cs (Fin 1) 1 = (bc, ic)" using c by (simp only: collectorBest_eq)
  have lp: "bestLoop ?ps (Fin 1) 1 = (bp, ip)" using p by (simp only: processorBest_eq)
  have zc: "zip (cs_instances (collectorScaling res)) (cs_cpuEfficiency (collectorScaling res)) = ?cs"
    using v by (simp add: collectorScalingOf_def)
  have zp: "zip (ps_instances (processorScaling res)) (diskIoEfficiency (processorScaling res)) = ?ps"
    using v by (simp add: processorScalingOf_def)
  have f1: "firstLowest ?cs bc ic" by (rule bestLoop_firstLowest[OF lc])
  have f2: "firstLowest ?ps bp ip" by (rule bestLoop_firstLowest[OF lp])
  have i1: "cs_instances (collectorScaling res) = [1, 2, 3, 4, 5, 6, 7, 8]"
    and i2: "ps_instances (processorScaling res) = [1, 2, 3, 4, 5, 6, 7, 8]"
    using v by (simp_all add: collectorScalingOf_def processorScalingOf_def sweepInstances_list)
  have "fst ` set ?cs \<subseteq> set sweepInstances" "fst ` set ?ps \<subseteq> set sweepInstances"
    by (auto dest: set_zip_leftD)
  then have "ic \<in> set sweepInstances \<union> {1}" "ip \<in> set sweepInstances \<union> {1}"
    using bestLoop_ideal_range[OF lc] bestLoop_ideal_range[OF lp] by blast+
  then have r1: "ic \<in> {1, 2, 3, 4, 5, 6, 7, 8}" and r2: "ip \<in> {1, 2, 3, 4, 5, 6, 7, 8}"
    by (simp_all add: sweepInstances_list)
  obtain xc where xc: "bc = Fin xc" "xc \<le> 1"
    using best_finite[OF lc] collectorCpuEfficiency_eq[of workload u] by metis
  obtain xp where xp: "bp = Fin xp" "xp \<le> 1"
    using best_finite[OF lp] diskIoRatio_eq[of workload u] by metis
  have g1: "\<exists>bestRatio. fst (collectorBest workload u) = Fin bestRatio \<and> bestRatio \<le> 1 \<and>
            collectorEfficiencyGain (analysis res) =
              Fin (Math_round ((1 - bestRatio) * 100 * 10) / 10)"
    using v xc by (simp add: c round1_gain_Fin)
  have g2: "\<exists>bestRatio. fst (processorBest workload u) = Fin bestRatio \<and> bestRatio \<le> 1 \<and>
            processorEfficiencyGain (analysis res) =
              Fin (Math_round ((1 - bestRatio) * 100 * 10) / 10)"
    using v xp by (simp add: p round1_gain_Fin)
  have k1: "collectorIdealCount (analysis res) = ic" and k2: "processorIdealCount (analysis res) = ip"
    using v by (simp_all add: c p)
  show ?thesis
    unfolding zc zp k1 k2 using f1 f2 i1 i2 r1 r2 g1 g2 by (simp only: c p fst_conv simp_thms)
qed

theorem explorer_ideal_counts_witness:
  "validateInstanceScaling (Some explorerWorkload) (Some scalingBaseResources) =
     Inr (projr (validateInstanceScaling (Some explorerWorkload) (Some scalingBaseResources))) \<and>
   firstLowest
     (zip (cs_instances (collectorScaling
             (projr (validateInstanceScaling (Some explorerWorkload) (Some scalingBaseResources)))))
          (cs_cpuEfficiency (collectorScaling
             (projr (validateInstanceScaling (Some explorerWorkload) (Some scalingBaseResources))))))
     (Fin (41 / 133)) 7 \<and>
   collectorIdealCount (analysis
     (projr (validateInstanceScaling (Some explorerWorkload) (Some scalingBaseResources)))) = 7"
proof -
  let ?R = "projr (validateInstanceScaling (Some explorerWorkload) (Some scalingBaseResources))"
  have i: "validateInstanceScaling (Some explorerWorkload) (Some scalingBaseResources) = Inr ?R"
    using validate_total[of "Some explorerWorkload" scalingBaseResources] by simp
  have k: "collectorIdealCount (analysis ?R) = 7"
    using validate_Inr[OF i] by (simp add: explorer_collectorBest)
  from explorer_ideal_counts[OF i] have
    "firstLowest (zip (cs_instances (collectorScaling ?R)) (cs_cpuEfficiency (collectorScaling ?R)))
       (fst (collectorBest (Some explorerWorkload) (Some scalingBaseResources)))
       (collectorIdealCount (analysis ?R))"
    by (rule conjunct1)
  then have f: "firstLowest
      (zip (cs_instances (collectorScaling ?R)) (cs_cpuEfficiency (collectorScaling ?R)))
      (Fin (41 / 133)) 7"
    by (simp only: explorer_collectorBest fst_conv k)
  show ?thesis
    by (intro conjI) (rule i, rule f, rule k)
qed

text \<open>
  Claim C5 as stated takes the collector's best ratio from the network ratios.  For 100000
  metrics per second these are all 1, which gives a gain of 0, while the code reports the
  gain 69.2 of the CPU ratio at the ideal count 7.
\<close>

theorem explorer_ideal_counts_counterexample:
  "\<not> isl (validateInstanceScaling (Some explorerWorkload) (Some scalingBaseResources)) \<and>
   networkOverhead (collectorScaling
     (projr (validateInstanceScaling (Some explorerWorkload) (Some scalingBaseResources)))) =
     [Fin 1, Fin 1, Fin 1, Fin 1, Fin 1, Fin 1, Fin 1, Fin 1] \<and>
   spec_efficiencyGain (networkOverhead (collectorScaling
     (projr (validateInstanceScaling (Some explorerWorkload) (Some scalingBaseResources))))) =
     Fin 0 \<and>
   collectorEfficiencyGain (analysis
     (projr (validateInstanceScaling (Some explorerWorkload) (Some scalingBaseResources)))) =
     Fin (692 / 10) \<and>
   collectorIdealCount (analysis
     (projr (validateInstanceScaling (Some explorerWorkload) (Some scalingBaseResources)))) = 7"
proof -
  let ?R = "projr (validateInstanceScaling (Some explorerWorkload) (Some scalingBaseResources))"
  have n: "\<not> isl (validateInstanceScaling (Some explorerWorkload) (Some scalingBaseResources))"
    by (rule validate_total)
  then have i: "validateInstanceScaling (Some explorerWorkload) (Some scalingBaseResources) = Inr ?R"
    by simp
  note v = validate_Inr[OF i]
  have o: "networkOverhead (collectorScaling ?R) =
     [Fin 1, Fin 1, Fin 1, Fin 1, Fin 1, Fin 1, Fin 1, Fin 1]"
    using v by (simp add: networkOverhead_eq explorer_flow)
  have s: "spec_efficiencyGain [Fin 1, Fin 1, Fin 1, Fin 1, Fin 1, Fin 1, Fin 1, Fin 1] = Fin 0"
    by (simp add: spec_efficiencyGain_def spec_lowestRatio_def)
  have g: "collectorEfficiencyGain (analysis ?R) = Fin (692 / 10)"
    using v by (simp add: explorer_collectorBest explorer_gain)
  have k: "collectorIdealCount (analysis ?R) = 7"
    using v by (simp add: explorer_collectorBest)
  show ?thesis using n o s g k by (simp only: simp_thms)
qed

text \<open>
  The look-ahead of the pattern, read literally: some \<open>k \<ge> 1\<close> groups of three digits start
  here and are followed by the end of the string or by a character that is not a digit.
\<close>

lemma takeWhile_all_digits:
  "j < length (takeWhile P xs) \<Longrightarrow> P (xs ! j)"
  by (metis nth_mem set_takeWhileD takeWhile_nth)

lemma digitGroupsAhead_regex:
  "digitGroupsAhead rest \<longleftrightarrow>
     (\<exists>k\<ge>1. 3 * k \<le> length rest \<and> (\<forall>j<3 * k. isDigit (rest ! j)) \<and>
        (3 * k = length rest \<or> \<not> isDigit (rest ! (3 * k))))"
proof
  let ?n = "length (takeWhile isDigit rest)"
  assume "digitGroupsAhead rest"
  then have n: "0 < ?n" "?n mod 3 = 0" by (simp_all add: digitGroupsAhead_def Let_def)
  then obtain k where k: "?n = 3 * k" by (auto simp add: mod_eq_0_iff_dvd elim: dvdE)
  then have k1: "1 \<le> k" using n(1) by simp
  have le: "3 * k \<le> length rest" using k length_takeWhile_le[of isDigit rest] by simp
  have d: "\<forall>j<3 * k. isDigit (rest ! j)" using k takeWhile_all_digits[of _ isDigit rest] by simp
  have e: "3 * k = length rest \<or> \<not> isDigit (rest ! (3 * k))"
    using nth_length_takeWhile[of isDigit rest] k le by auto
  show "\<exists>k\<ge>1. 3 * k \<le> length rest \<and> (\<forall>j<3 * k. isDigit (rest ! j)) \<and>
        (3 * k = length rest \<or> \<not> isDigit (rest ! (3 * k)))"
    using k1 le d e by blast
next
  let ?n = "length (takeWhile isDigit rest)"
  assume "\<exists>k\<ge>1. 3 * k \<le> length rest \<and> (\<forall>j<3 * k. isDigit (rest ! j)) \<and>
        (3 * k = length rest \<or> \<not> isDigit (rest ! (3 * k)))"
  then obtain k where k: "1 \<le> k" "3 * k \<le> length rest" "\<forall>j<3 * k. isDigit (rest ! j)"
    "3 * k = length rest \<or> \<not> isDigit (rest ! (3 * k))" by blast
  have ge: "3 * k \<le> ?n" using k(2,3) by (intro length_takeWhile_less_P_nth) simp_all
  have "\<not> 3 * k < ?n"
  proof
    assume lt: "3 * k < ?n"
    then have "isDigit (rest ! (3 * k))" by (rule takeWhile_all_digits)
    moreover have "3 * k \<noteq> length rest" using lt length_takeWhile_le[of isDigit rest] by simp
    ultimately show False using k(4) by simp
  qed
  then have "?n = 3 * k" using ge by simp
  then show "digitGroupsAhead rest" using k(1) by (simp add: digitGroupsAhead_def Let_def)
qed

lemma toString_nat_million: "toString_nat 1000000 = ''1000000''"
  by (simp add: toString_nat.simps)

lemma toString_nat_zero: "toString_nat 0 = ''0''"
  by (simp add: toString_nat.simps)

text \<open>
  Claim C9.  \<open>formatNumber\<close> formats 1234.56, 1000000 and 0 as the claim says, but for
  1234.5678 it also puts a comma into the fraction.
\<close>

theorem formatNumber_examples:
  "formatNumber ''1234.5678'' = ''1,234.5,678'' \<and>
   formatNumber ''1234.56'' = ''1,234.56'' \<and>
   formatNumber (toString_nat 1000000) = ''1,000,000'' \<and>
   formatNumber (toString_nat 0) = ''0''"
  unfolding toString_nat_million toString_nat_zero
  by (simp add: formatNumber_def nonBoundary_def digitGroupsAhead_def isDigit_def isWordChar_def
      isWordOpt_def)

section \<open>Properties of the double-precision model\<close>

lemma floor_log2:
  fixes x :: real
  assumes "2 powr of_int e \<le> x" "x < 2 powr (of_int e + 1)"
  shows "\<lfloor>log 2 x\<rfloor> = e"
proof -
  have "0 < 2 powr (of_int e :: real)" by simp
  then have pos: "0 < x" using assms(1) by (rule less_le_trans)
  have "of_int e \<le> log 2 x" using assms(1) pos by (simp add: le_log_iff)
  moreover have "log 2 x < of_int e + 1" using assms(2) pos by (simp add: log_less_iff)
  ultimately show ?thesis by (simp add: floor_unique)
qed

lemma roundEven_near: "\<bar>of_int (roundEven q) - q\<bar> \<le> 1 / 2"
  unfolding roundEven_def Let_def
  by (auto simp: abs_le_iff)

lemma fl_normal:
  assumes b1: "2 powr of_int e \<le> \<bar>x\<bar>" and b2: "\<bar>x\<bar> < 2 powr (of_int e + 1)"
    and r1: "- 1022 \<le> e" and r2: "e \<le> 1022"
    and u: "u = 2 powr (of_int e - 52)"
    and m: "roundEven (x / u) = m"
  shows "fl x = Fin (of_int m * u)"
proof -
  have upos: "0 < u" by (simp add: u)
  have "0 < 2 powr (of_int e :: real)" by simp
  then have xpos: "0 < \<bar>x\<bar>" using b1 by (rule less_le_trans)
  then have x0: "x \<noteq> 0" by simp
  have e: "\<lfloor>log 2 \<bar>x\<bar>\<rfloor> = e" by (rule floor_log2[OF b1 b2])
  have me: "max e (- 1022) = e" using r1 by simp
  have near: "\<bar>of_int m - x / u\<bar> \<le> 1 / 2" using roundEven_near[of "x / u"] m by simp
  have "of_int m * u - x = (of_int m - x / u) * u" using upos by (simp add: field_simps)
  then have "\<bar>of_int m * u - x\<bar> = \<bar>of_int m - x / u\<bar> * \<bar>u\<bar>" by (simp only: abs_mult)
  then have "\<bar>of_int m * u - x\<bar> = \<bar>of_int m - x / u\<bar> * u" using upos by simp
  also have "\<dots> \<le> (1 / 2) * u" using near upos by (intro mult_right_mono) simp_all
  finally have d: "\<bar>of_int m * u - x\<bar> \<le> u / 2" by simp
  have "u \<le> 2 powr of_int e" unfolding u by (simp add: powr_mono)
  then have u2: "u / 2 \<le> \<bar>x\<bar>" using b1 upos by argo
  have "\<bar>of_int m * u\<bar> \<le> \<bar>x\<bar> + u / 2" using d by argo
  also have "\<dots> \<le> 2 * \<bar>x\<bar>" using u2 by argo
  also have "\<dots> < 2 * 2 powr (of_int e + 1)" using b2 by simp
  also have "\<dots> = 2 powr (of_int e + 2)" by (simp add: powr_add)
  also have "\<dots> \<le> 2 powr 1024" using r2 by (intro powr_mono) simp_all
  also have "\<dots> = 2 ^ 1024" by simp
  finally have no: "\<not> 2 ^ 1024 \<le> \<bar>of_int m * u\<bar>" by simp
  show ?thesis
    unfolding fl_def Let_def e me using x0 no m by (simp add: u)
qed

lemma fl_overflow:
  assumes "2 ^ 1024 \<le> \<bar>x\<bar>"
  shows "fl x = (if 0 < x then PosInf else NegInf)"
proof -
  let ?e = "\<lfloor>log 2 \<bar>x\<bar>\<rfloor>"
  let ?u = "2 powr (of_int (max ?e (- 1022)) - 52) :: real"
  have "0 < (2::real) ^ 1024" by simp
  then have xpos: "0 < \<bar>x\<bar>" using assms by (rule less_le_trans)
  then have x0: "x \<noteq> 0" by simp
  have "(1024::real) \<le> log 2 \<bar>x\<bar>"
  proof -
    have "(2::real) powr 1024 \<le> \<bar>x\<bar>" using assms by simp
    then show ?thesis using xpos by (simp add: le_log_iff)
  qed
  then have e1024: "1024 \<le> ?e" by (simp add: le_floor_iff)
  then have me: "max ?e (- 1022) = ?e" by simp
  have le: "2 powr of_int ?e \<le> \<bar>x\<bar>"
  proof -
    have "of_int ?e \<le> log 2 \<bar>x\<bar>" by simp
    then show ?thesis using le_log_iff[of 2 "\<bar>x\<bar>" "of_int ?e"] xpos by simp
  qed
  have upos: "0 < ?u" by simp
  have q: "2 ^ 52 \<le> \<bar>x / ?u\<bar>"
  proof -
    have "2 powr of_int ?e / ?u = 2 powr 52" by (simp add: me powr_diff[symmetric])
    then have "2 powr 52 \<le> \<bar>x\<bar> / ?u" using le upos by (metis divide_right_mono less_imp_le)
    then show ?thesis using upos by simp
  qed
  have near: "\<bar>of_int (roundEven (x / ?u)) - x / ?u\<bar> \<le> 1 / 2" by (rule roundEven_near)
  have "2 ^ 52 - 1 / 2 \<le> \<bar>real_of_int (roundEven (x / ?u))\<bar>" using q near by argo
  then have "2 ^ 52 - 1 < \<bar>real_of_int (roundEven (x / ?u))\<bar>" by argo
  then have "real_of_int (2 ^ 52 - 1) < real_of_int \<bar>roundEven (x / ?u)\<bar>" by simp
  then have "2 ^ 52 - 1 < \<bar>roundEven (x / ?u)\<bar>" by (simp only: of_int_less_iff)
  then have "2 ^ 52 \<le> \<bar>roundEven (x / ?u)\<bar>" by simp
  then have "real_of_int (2 ^ 52) \<le> real_of_int \<bar>roundEven (x / ?u)\<bar>" by (simp only: of_int_le_iff)
  then have m52: "2 ^ 52 \<le> \<bar>real_of_int (roundEven (x / ?u))\<bar>" by simp
  have "2 ^ 1024 \<le> (2::real) powr of_int ?e"
  proof -
    have "(2::real) powr 1024 \<le> 2 powr of_int ?e" using e1024 by (intro powr_mono) simp_all
    then show ?thesis by simp
  qed
  also have "\<dots> = 2 ^ 52 * ?u" by (simp add: me powr_diff)
  also have "\<dots> \<le> \<bar>real_of_int (roundEven (x / ?u))\<bar> * ?u"
    using m52 upos by (intro mult_right_mono) simp_all
  also have "\<dots> = \<bar>real_of_int (roundEven (x / ?u)) * ?u\<bar>" using upos by (simp add: abs_mult)
  finally have ov: "2 ^ 1024 \<le> \<bar>real_of_int (roundEven (x / ?u)) * ?u\<bar>" .
  show ?thesis
    unfolding fl_def Let_def using x0 ov by simp
qed

lemma roundEven_of_int: "roundEven (of_int m) = m"
  by (simp add: roundEven_def)

lemma roundEven_floor: "\<lfloor>q\<rfloor> \<le> roundEven q" "roundEven q \<le> \<lfloor>q\<rfloor> + 1"
  by (simp_all add: roundEven_def Let_def)

lemma roundEven_mono:
  assumes "q \<le> r"
  shows "roundEven q \<le> roundEven r"
proof (cases "\<lfloor>q\<rfloor> = \<lfloor>r\<rfloor>")
  case True
  then show ?thesis using assms unfolding roundEven_def Let_def by auto
next
  case False
  have "\<lfloor>q\<rfloor> \<le> \<lfloor>r\<rfloor>" using assms by (rule floor_mono)
  then have "\<lfloor>q\<rfloor> + 1 \<le> \<lfloor>r\<rfloor>" using False by simp
  then show ?thesis using roundEven_floor(2)[of q] roundEven_floor(1)[of r] by simp
qed

lemma roundEven_le: "q \<le> of_int n \<Longrightarrow> roundEven q \<le> n"
  using roundEven_mono[of q "of_int n"] by (simp add: roundEven_of_int)

lemma roundEven_ge: "of_int n \<le> q \<Longrightarrow> n \<le> roundEven q"
  using roundEven_mono[of "of_int n" q] by (simp add: roundEven_of_int)

lemma fl_rnd:
  "fl x =
     (if x = 0 then Fin 0
      else if 2 ^ 1024 \<le> \<bar>rnd x\<bar> then (if 0 < x then PosInf else NegInf) else Fin (rnd x))"
  by (simp add: fl_def rnd_def ulp_def binexp_def Let_def)

lemma ulp_pos: "0 < ulp x"
  by (simp add: ulp_def)

lemma binexp_ge: "- 1022 \<le> binexp x"
  by (simp add: binexp_def)

lemma binexp_upper:
  assumes "0 < x"
  shows "x < 2 powr (of_int (binexp x) + 1)"
proof -
  have "log 2 x < of_int \<lfloor>log 2 x\<rfloor> + 1" by linarith
  also have "\<dots> \<le> of_int (binexp x) + 1" using assms by (simp add: binexp_def)
  finally have "log 2 x < of_int (binexp x) + 1" .
  then show ?thesis using assms by (simp add: log_less_iff)
qed

lemma binexp_lower:
  assumes "2 powr (- 1022) \<le> x"
  shows "2 powr of_int (binexp x) \<le> x"
proof -
  have "0 < (2::real) powr (- 1022)" by simp
  then have pos: "0 < x" using assms by (rule less_le_trans)
  have "- 1022 \<le> log 2 x" using assms pos le_log_iff[of 2 x "- 1022"] by simp
  then have "- 1022 \<le> \<lfloor>log 2 x\<rfloor>" by (simp add: le_floor_iff)
  then have e: "binexp x = \<lfloor>log 2 x\<rfloor>" using pos by (simp add: binexp_def)
  have "of_int \<lfloor>log 2 x\<rfloor> \<le> log 2 x" by simp
  then show ?thesis unfolding e using le_log_iff[of 2 x "of_int \<lfloor>log 2 x\<rfloor>"] pos by simp
qed

lemma binexp_mono:
  assumes "0 < x" "x \<le> y"
  shows "binexp x \<le> binexp y"
proof -
  have "log 2 x \<le> log 2 y" using assms by simp
  then have "\<lfloor>log 2 x\<rfloor> \<le> \<lfloor>log 2 y\<rfloor>" by (rule floor_mono)
  then show ?thesis using assms by (simp add: binexp_def)
qed

lemma binexp_unique:
  assumes "2 powr of_int e \<le> x" "x < 2 powr (of_int e + 1)" "- 1022 \<le> e"
  shows "binexp x = e"
proof -
  have "0 < 2 powr (of_int e :: real)" by simp
  then have pos: "0 < x" using assms(1) by (rule less_le_trans)
  have "\<lfloor>log 2 x\<rfloor> = e" by (rule floor_log2[OF assms(1,2)])
  then show ?thesis using pos assms(3) by (simp add: binexp_def)
qed

lemma rnd_nonneg:
  assumes "0 \<le> x"
  shows "0 \<le> rnd x"
proof -
  have "0 \<le> x / ulp x" using assms ulp_pos[of x] by simp
  then have "0 \<le> roundEven (x / ulp x)" using roundEven_ge[of 0 "x / ulp x"] by simp
  then show ?thesis using ulp_pos[of x] by (simp add: rnd_def)
qed

lemma rnd_upper:
  assumes "0 < x"
  shows "rnd x \<le> 2 powr (of_int (binexp x) + 1)"
proof -
  have "x / ulp x \<le> 2 powr (of_int (binexp x) + 1) / ulp x"
    using binexp_upper[OF assms] ulp_pos[of x] by (simp add: divide_right_mono)
  also have "\<dots> = 2 powr 53" by (simp add: ulp_def powr_diff[symmetric])
  also have "\<dots> = of_int (2 ^ 53)" by simp
  finally have "roundEven (x / ulp x) \<le> 2 ^ 53" by (rule roundEven_le)
  then have "real_of_int (roundEven (x / ulp x)) \<le> real_of_int (2 ^ 53)"
    by (simp only: of_int_le_iff)
  then have "rnd x \<le> of_int (2 ^ 53) * ulp x"
    unfolding rnd_def using ulp_pos[of x] by (intro mult_right_mono) simp_all
  also have "\<dots> = 2 powr 53 * ulp x" by simp
  also have "\<dots> = 2 powr (53 + (of_int (binexp x) - 52))"
    unfolding ulp_def by (rule powr_add[symmetric])
  also have "53 + (real_of_int (binexp x) - 52) = of_int (binexp x) + 1" by simp
  finally show ?thesis .
qed

lemma rnd_lower:
  assumes "2 powr (- 1022) \<le> x"
  shows "2 powr of_int (binexp x) \<le> rnd x"
proof -
  have "2 powr of_int (binexp x) / ulp x \<le> x / ulp x"
    using binexp_lower[OF assms] ulp_pos[of x] by (simp add: divide_right_mono)
  moreover have "2 powr of_int (binexp x) / ulp x = 2 powr 52"
    by (simp add: ulp_def powr_diff[symmetric])
  moreover have "(2::real) powr 52 = of_int (2 ^ 52)" by simp
  ultimately have "of_int (2 ^ 52) \<le> x / ulp x" by simp
  then have "2 ^ 52 \<le> roundEven (x / ulp x)" by (rule roundEven_ge)
  then have "real_of_int (2 ^ 52) \<le> real_of_int (roundEven (x / ulp x))"
    by (simp only: of_int_le_iff)
  then have "of_int (2 ^ 52) * ulp x \<le> rnd x"
    unfolding rnd_def using ulp_pos[of x] by (intro mult_right_mono) simp_all
  moreover have "of_int (2 ^ 52) * ulp x = 2 powr 52 * ulp x" by simp
  moreover have "2 powr 52 * ulp x = 2 powr of_int (binexp x)"
  proof -
    have "2 powr 52 * ulp x = 2 powr (52 + (of_int (binexp x) - 52))"
      unfolding ulp_def by (rule powr_add[symmetric])
    also have "52 + (real_of_int (binexp x) - 52) = of_int (binexp x)" by simp
    finally show ?thesis .
  qed
  ultimately show ?thesis by simp
qed

lemma rnd_mono:
  assumes "0 < x" "x \<le> y"
  shows "rnd x \<le> rnd y"
proof (cases "binexp x = binexp y")
  case True
  then have u: "ulp x = ulp y" by (simp add: ulp_def)
  have "x / ulp y \<le> y / ulp y" using assms ulp_pos[of y] by (simp add: divide_right_mono)
  then have "roundEven (x / ulp y) \<le> roundEven (y / ulp y)" by (rule roundEven_mono)
  then have "real_of_int (roundEven (x / ulp y)) \<le> real_of_int (roundEven (y / ulp y))"
    by (simp only: of_int_le_iff)
  then show ?thesis unfolding rnd_def u using ulp_pos[of y] by (intro mult_right_mono) simp_all
next
  case False
  have le: "binexp x \<le> binexp y" by (rule binexp_mono[OF assms])
  then have lt: "binexp x + 1 \<le> binexp y" using False by simp
  have "- 1022 < binexp y" using lt binexp_ge[of x] by simp
  have ypos: "0 < y" using assms by simp
  have "2 powr (- 1022) \<le> y"
  proof (rule ccontr)
    assume "\<not> 2 powr (- 1022) \<le> y"
    then have "y < 2 powr (- 1022)" by simp
    then have "log 2 y < - 1022" using ypos log_less_iff[of 2 y "- 1022"] by simp
    then have "\<lfloor>log 2 y\<rfloor> < - 1022" by (simp add: floor_less_iff)
    then have "binexp y = - 1022" using ypos by (simp add: binexp_def)
    then show False using \<open>- 1022 < binexp y\<close> by simp
  qed
  then have lo: "2 powr of_int (binexp y) \<le> rnd y" by (rule rnd_lower)
  have "rnd x \<le> 2 powr (of_int (binexp x) + 1)" by (rule rnd_upper[OF assms(1)])
  also have "\<dots> = 2 powr (of_int (binexp x + 1))" by simp
  also have "\<dots> \<le> 2 powr of_int (binexp y)" using lt by (intro powr_mono) simp_all
  also have "\<dots> \<le> rnd y" by (rule lo)
  finally show ?thesis .
qed

lemma fl_mono:
  assumes "0 \<le> x" "x \<le> y"
  shows "js_le (fl x) (fl y)"
proof (cases "x = 0")
  case True
  have "0 \<le> rnd y" using assms by (intro rnd_nonneg) simp
  then show ?thesis using True assms by (simp add: fl_rnd)
next
  case False
  then have xpos: "0 < x" using assms by simp
  then have ypos: "0 < y" using assms by simp
  have m: "rnd x \<le> rnd y" by (rule rnd_mono[OF xpos assms(2)])
  have "0 \<le> rnd x" using assms(1) by (rule rnd_nonneg)
  then show ?thesis using xpos ypos m by (simp add: fl_rnd)
qed

lemma fl_nonneg: "0 \<le> x \<Longrightarrow> numberAtLeast 0 (fl x)"
  using rnd_nonneg[of x] by (simp add: fl_rnd numberAtLeast_def)

lemma fl_repr:
  assumes m: "0 < m" "m < 2 ^ 53" and k: "- 1074 \<le> k"
    and b: "real_of_int m * 2 powr of_int k < 2 ^ 1024"
  shows "fl (real_of_int m * 2 powr of_int k) = Fin (real_of_int m * 2 powr of_int k)"
proof -
  let ?z = "real_of_int m * 2 powr of_int k"
  have zpos: "0 < ?z" using m(1) by simp
  have "real_of_int m < real_of_int (2 ^ 53)" using m(2) by (simp only: of_int_less_iff)
  then have "real_of_int m < 2 powr 53" by simp
  then have "?z < 2 powr 53 * 2 powr of_int k" by (intro mult_strict_right_mono) simp_all
  also have "2 powr 53 * 2 powr of_int k = 2 powr (53 + real_of_int k)"
    by (rule powr_add[symmetric])
  also have "53 + real_of_int k = of_int (k + 53)" by simp
  finally have zlt: "?z < 2 powr (of_int (k + 53))" .
  have e: "binexp ?z \<le> max (k + 52) (- 1022)"
  proof -
    have "log 2 ?z < of_int (k + 53)" using zlt zpos log_less_iff[of 2 ?z "of_int (k + 53)"] by simp
    then have "\<lfloor>log 2 ?z\<rfloor> < k + 53" by (simp only: floor_less_iff)
    then show ?thesis using zpos by (simp add: binexp_def)
  qed
  define j where "j = k + 52 - binexp ?z"
  have j0: "0 \<le> j" using e k by (simp add: j_def)
  have "?z / ulp ?z = real_of_int m * 2 powr (of_int k - (of_int (binexp ?z) - 52))"
    by (simp add: ulp_def powr_diff)
  also have "of_int k - (of_int (binexp ?z) - 52) = (of_int j :: real)" by (simp add: j_def)
  also have "(2::real) powr of_int j = 2 ^ nat j" using j0 by (simp add: powr_real_of_int)
  also have "real_of_int m * 2 ^ nat j = of_int (m * 2 ^ nat j)" by simp
  finally have "roundEven (?z / ulp ?z) = m * 2 ^ nat j" by (simp only: roundEven_of_int)
  then have "rnd ?z = of_int (m * 2 ^ nat j) * ulp ?z" by (simp add: rnd_def)
  also have "\<dots> = real_of_int m * (2 powr of_int j * ulp ?z)"
    using j0 by (simp add: powr_real_of_int)
  also have "2 powr of_int j * ulp ?z = 2 powr of_int k"
    by (simp add: ulp_def powr_add[symmetric] j_def)
  finally have r: "rnd ?z = ?z" .
  show ?thesis using zpos b by (simp add: fl_rnd r)
qed

lemma fl_zero: "fl 0 = Fin 0"
  by (simp add: fl_def)

lemma fl_pow2:
  assumes "- 1074 \<le> k" "k \<le> 1023"
  shows "fl (2 powr of_int k) = Fin (2 powr of_int k)"
proof -
  have "(2::real) powr of_int k \<le> 2 powr 1023" using assms by (intro powr_mono) simp_all
  also have "\<dots> < 2 powr 1024" by (intro powr_less_mono) simp_all
  also have "\<dots> = 2 ^ 1024" by simp
  finally have "real_of_int 1 * 2 powr of_int k < 2 ^ 1024" by simp
  then have "fl (real_of_int 1 * 2 powr of_int k) = Fin (real_of_int 1 * 2 powr of_int k)"
    using assms by (intro fl_repr) simp_all
  then show ?thesis by simp
qed

lemma fl_idem:
  assumes "0 \<le> x" "fl x = Fin y"
  shows "fl y = Fin y"
proof (cases "x = 0")
  case True
  then show ?thesis using assms by (simp add: fl_zero)
next
  case False
  then have xpos: "0 < x" using assms by simp
  define M where "M = roundEven (x / ulp x)"
  define k where "k = binexp x - 52"
  have u: "ulp x = 2 powr of_int k" by (simp add: ulp_def k_def)
  have k: "- 1074 \<le> k" using binexp_ge[of x] by (simp add: k_def)
  have y: "y = rnd x" and lt: "rnd x < 2 ^ 1024"
    using assms(2) xpos rnd_nonneg[of x] by (simp_all add: fl_rnd split: if_splits)
  have r: "rnd x = real_of_int M * 2 powr of_int k" by (simp add: rnd_def M_def u)
  have "0 \<le> x / ulp x" using xpos ulp_pos[of x] by simp
  then have M0: "0 \<le> M" unfolding M_def using roundEven_ge[of 0 "x / ulp x"] by simp
  have "x / ulp x \<le> 2 powr (of_int (binexp x) + 1) / ulp x"
    using binexp_upper[OF xpos] ulp_pos[of x] by (simp add: divide_right_mono)
  also have "\<dots> = 2 powr 53" by (simp add: ulp_def powr_diff[symmetric])
  also have "\<dots> = of_int (2 ^ 53)" by simp
  finally have M53: "M \<le> 2 ^ 53" unfolding M_def by (rule roundEven_le)
  consider "M = 0" | "0 < M" "M < 2 ^ 53" | "M = 2 ^ 53" using M0 M53 by linarith
  then show ?thesis
  proof cases
    case 1
    then show ?thesis by (simp add: y r fl_zero)
  next
    case 2
    then show ?thesis unfolding y r using k lt r by (intro fl_repr) simp_all
  next
    case 3
    have e: "real_of_int M * 2 powr of_int k = real_of_int (2 ^ 52) * 2 powr of_int (k + 1)"
    proof -
      have "real_of_int (2 ^ 52) * 2 powr of_int (k + 1) = 2 ^ 52 * (2 powr of_int k * 2 powr 1)"
        by (simp add: powr_add)
      also have "\<dots> = real_of_int (2 ^ 53) * 2 powr of_int k" by simp
      finally show ?thesis by (simp add: 3)
    qed
    have "fl (real_of_int (2 ^ 52) * 2 powr of_int (k + 1)) =
        Fin (real_of_int (2 ^ 52) * 2 powr of_int (k + 1))"
      using k lt r e by (intro fl_repr) simp_all
    then show ?thesis unfolding y r e .
  qed
qed

lemma fl_ge:
  assumes "0 \<le> c" "c \<le> x" "fl c = Fin c'"
  shows "numberAtLeast c' (fl x)"
proof -
  have "js_le (fl c) (fl x)" using assms(1,2) by (rule fl_mono)
  then show ?thesis unfolding assms(3) by (cases "fl x") (simp_all add: numberAtLeast_def)
qed

lemma fl_le:
  assumes "0 \<le> x" "x \<le> b" "fl b = Fin b'"
  shows "finiteBetween 0 b' (fl x)"
proof -
  have "js_le (fl x) (fl b)" using assms(1,2) by (rule fl_mono)
  moreover have "numberAtLeast 0 (fl x)" using assms(1) by (rule fl_nonneg)
  ultimately show ?thesis unfolding assms(3)
    by (cases "fl x") (simp_all add: numberAtLeast_def finiteBetween_def)
qed

lemma numberAtLeast_nan: "numberAtLeast lo x \<Longrightarrow> nanOrAtLeast lo x"
  by (cases x) (simp_all add: numberAtLeast_def nanOrAtLeast_def)

lemma nanOrAtLeast_weaken: "nanOrAtLeast lo x \<Longrightarrow> lo' \<le> lo \<Longrightarrow> nanOrAtLeast lo' x"
  by (cases x) (simp_all add: nanOrAtLeast_def)

lemma numberAtLeast_weaken: "numberAtLeast lo x \<Longrightarrow> lo' \<le> lo \<Longrightarrow> numberAtLeast lo' x"
  by (cases x) (simp_all add: numberAtLeast_def)

lemma fl_nan0: "0 \<le> x \<Longrightarrow> nanOrAtLeast 0 (fl x)"
  by (rule numberAtLeast_nan, rule fl_nonneg)

lemma mul_nan0:
  assumes "nanOrAtLeast 0 x" "nanOrAtLeast 0 y"
  shows "nanOrAtLeast 0 (fl_mul x y)"
proof (cases x)
  case (Fin a)
  then show ?thesis using assms
    by (cases y) (simp_all add: nanOrAtLeast_def fl_nan0[unfolded nanOrAtLeast_def])
next
  case PosInf
  then show ?thesis using assms by (cases y) (simp_all add: nanOrAtLeast_def)
next
  case NegInf
  then show ?thesis using assms by (simp add: nanOrAtLeast_def)
next
  case NaN
  then show ?thesis by (simp add: nanOrAtLeast_def)
qed

lemma add_nan0:
  assumes "nanOrAtLeast 0 x" "nanOrAtLeast 0 y"
  shows "nanOrAtLeast 0 (fl_add x y)"
proof (cases x)
  case (Fin a)
  then show ?thesis using assms
    by (cases y) (simp_all add: nanOrAtLeast_def fl_nan0[unfolded nanOrAtLeast_def])
next
  case PosInf
  then show ?thesis using assms by (cases y) (simp_all add: nanOrAtLeast_def)
next
  case NegInf
  then show ?thesis using assms by (simp add: nanOrAtLeast_def)
next
  case NaN
  then show ?thesis by (simp add: nanOrAtLeast_def)
qed

lemma div_nan0:
  assumes "nanOrAtLeast 0 x" "nanOrAtLeast 0 y"
  shows "nanOrAtLeast 0 (fl_div x y)"
proof (cases x)
  case (Fin a)
  then show ?thesis using assms
    by (cases y) (simp_all add: nanOrAtLeast_def fl_nan0[unfolded nanOrAtLeast_def])
next
  case PosInf
  then show ?thesis using assms by (cases y) (simp_all add: nanOrAtLeast_def)
next
  case NegInf
  then show ?thesis using assms by (simp add: nanOrAtLeast_def)
next
  case NaN
  then show ?thesis by (simp add: nanOrAtLeast_def)
qed

lemma max_nan:
  assumes "nanOrAtLeast lo y"
  shows "nanOrAtLeast (max c lo) (Math_maxD (Fin c) y)"
  using assms by (cases y) (simp_all add: nanOrAtLeast_def)

lemma max_nan_any:
  shows "Math_maxD (Fin c) y = NaN \<or> numberAtLeast c (Math_maxD (Fin c) y)"
  by (cases y) (simp_all add: numberAtLeast_def)

lemma min_nan0:
  assumes "nanOrAtLeast 0 x" "nanOrAtLeast 0 y"
  shows "nanOrAtLeast 0 (Math_minD x y)"
  using assms by (cases x; cases y) (simp_all add: nanOrAtLeast_def)

lemma ceil_nan:
  assumes "nanOrAtLeast (of_int n) x"
  shows "nanOrAtLeast (of_int n) (Math_ceilD x)"
  using assms by (cases x) (simp_all add: nanOrAtLeast_def le_ceiling_iff)

lemma sub_one:
  assumes "numberAtLeast 1 x"
  shows "numberAtLeast 0 (fl_sub x (Fin 1))"
  using assms by (cases x) (simp_all add: numberAtLeast_def fl_nonneg[unfolded numberAtLeast_def])

lemma fl_lit_01: "fl (1 / 10) = Fin (3602879701896397 / 36028797018963968)"
proof -
  have "fl (1 / 10) = Fin (real_of_int (7205759403792794) * (1 / 2 ^ 56))"
    by (rule fl_normal[where e = "- 4"])
       (simp_all add: roundEven_def powr_neg_numeral)
  then show ?thesis by simp
qed

lemma fl_lit_02: "fl (1 / 5) = Fin (3602879701896397 / 18014398509481984)"
proof -
  have "fl (1 / 5) = Fin (real_of_int (7205759403792794) * (1 / 2 ^ 55))"
    by (rule fl_normal[where e = "- 3"])
       (simp_all add: roundEven_def powr_neg_numeral)
  then show ?thesis by simp
qed

lemma fl_lit_06: "fl (3 / 5) = Fin (5404319552844595 / 9007199254740992)"
proof -
  have "fl (3 / 5) = Fin (real_of_int (5404319552844595) * (1 / 2 ^ 53))"
    by (rule fl_normal[where e = "- 1"])
       (simp_all add: roundEven_def powr_neg_numeral)
  then show ?thesis by simp
qed

lemma fl_lit_04: "fl (2 / 5) = Fin (3602879701896397 / 9007199254740992)"
proof -
  have "fl (2 / 5) = Fin (real_of_int (7205759403792794) * (1 / 2 ^ 54))"
    by (rule fl_normal[where e = "- 2"])
       (simp_all add: roundEven_def powr_neg_numeral)
  then show ?thesis by simp
qed

lemma fl_lit_0015: "fl (3 / 200) = Fin (1080863910568919 / 72057594037927936)"
proof -
  have "fl (3 / 200) = Fin (real_of_int (8646911284551352) * (1 / 2 ^ 59))"
    by (rule fl_normal[where e = "- 7"])
       (simp_all add: roundEven_def powr_neg_numeral)
  then show ?thesis by simp
qed

lemma fl_lit_001: "fl (1 / 100) = Fin (5764607523034235 / 576460752303423488)"
proof -
  have "fl (1 / 100) = Fin (real_of_int (5764607523034235) * (1 / 2 ^ 59))"
    by (rule fl_normal[where e = "- 7"])
       (simp_all add: roundEven_def powr_neg_numeral)
  then show ?thesis by simp
qed

lemma fl_lit_12: "fl (6 / 5) = Fin (5404319552844595 / 4503599627370496)"
proof -
  have "fl (6 / 5) = Fin (real_of_int (5404319552844595) * (1 / 2 ^ 52))"
    by (rule fl_normal[where e = "0"])
       (simp_all add: roundEven_def powr_neg_numeral)
  then show ?thesis by simp
qed

lemma fl_lit_03: "fl (3 / 10) = Fin (5404319552844595 / 18014398509481984)"
proof -
  have "fl (3 / 10) = Fin (real_of_int (5404319552844595) * (1 / 2 ^ 54))"
    by (rule fl_normal[where e = "- 2"])
       (simp_all add: roundEven_def powr_neg_numeral)
  then show ?thesis by simp
qed

lemma fl_lit_005: "fl (1 / 20) = Fin (3602879701896397 / 72057594037927936)"
proof -
  have "fl (1 / 20) = Fin (real_of_int (7205759403792794) * (1 / 2 ^ 57))"
    by (rule fl_normal[where e = "- 5"])
       (simp_all add: roundEven_def powr_neg_numeral)
  then show ?thesis by simp
qed

lemma fl_lit_007: "fl (7 / 100) = Fin (1261007895663739 / 18014398509481984)"
proof -
  have "fl (7 / 100) = Fin (real_of_int (5044031582654956) * (1 / 2 ^ 56))"
    by (rule fl_normal[where e = "- 4"])
       (simp_all add: roundEven_def powr_neg_numeral)
  then show ?thesis by simp
qed

lemma fl_lit_07: "fl (7 / 10) = Fin (3152519739159347 / 4503599627370496)"
proof -
  have "fl (7 / 10) = Fin (real_of_int (6305039478318694) * (1 / 2 ^ 53))"
    by (rule fl_normal[where e = "- 1"])
       (simp_all add: roundEven_def powr_neg_numeral)
  then show ?thesis by simp
qed

lemma fl_one: "fl (1) = Fin (1)"
proof -
  have "fl (1) = Fin (real_of_int (4503599627370496) * (1 / 2 ^ 52))"
    by (rule fl_normal[where e = "0"])
       (simp_all add: roundEven_def powr_neg_numeral)
  then show ?thesis by simp
qed

lemma fl_half: "fl (1 / 2) = Fin (1 / 2)"
proof -
  have "fl (1 / 2) = Fin (real_of_int (4503599627370496) * (1 / 2 ^ 53))"
    by (rule fl_normal[where e = "- 1"])
       (simp_all add: roundEven_def powr_neg_numeral)
  then show ?thesis by simp
qed

lemma fl_three_halves: "fl (3 / 2) = Fin (3 / 2)"
proof -
  have "fl (3 / 2) = Fin (real_of_int (6755399441055744) * (1 / 2 ^ 52))"
    by (rule fl_normal[where e = "0"])
       (simp_all add: roundEven_def powr_neg_numeral)
  then show ?thesis by simp
qed

lemma fl_graphite5: "fl (10808639105689191 / 18014398509481984) = Fin (1351079888211149 / 2251799813685248)"
proof -
  have "fl (10808639105689191 / 18014398509481984) = Fin (real_of_int (5404319552844596) * (1 / 2 ^ 53))"
    by (rule fl_normal[where e = "- 1"])
       (simp_all add: roundEven_def powr_neg_numeral)
  then show ?thesis by simp
qed

lemma fl_graphite5_idem: "fl (1351079888211149 / 2251799813685248) = Fin (1351079888211149 / 2251799813685248)"
proof -
  have "fl (1351079888211149 / 2251799813685248) = Fin (real_of_int (5404319552844596) * (1 / 2 ^ 53))"
    by (rule fl_normal[where e = "- 1"])
       (simp_all add: roundEven_def powr_neg_numeral)
  then show ?thesis by simp
qed

lemma fl_graphite5_times10: "fl (6755399441055745 / 1125899906842624) = Fin (6755399441055745 / 1125899906842624)"
proof -
  have "fl (6755399441055745 / 1125899906842624) = Fin (real_of_int (6755399441055745) * (1 / 2 ^ 50))"
    by (rule fl_normal[where e = "2"])
       (simp_all add: roundEven_def powr_neg_numeral)
  then show ?thesis by simp
qed

lemma fl_hundred: "fl (100) = Fin (100)"
proof -
  have "fl (100) = Fin (real_of_int (7036874417766400) * (1 / 2 ^ 46))"
    by (rule fl_normal[where e = "6"])
       (simp_all add: roundEven_def powr_neg_numeral)
  then show ?thesis by simp
qed

lemma fl_unique_007: "fl (31525197391593475 / 4503599627370496) = Fin (7881299347898369 / 1125899906842624)"
proof -
  have "fl (31525197391593475 / 4503599627370496) = Fin (real_of_int (7881299347898369) * (1 / 2 ^ 50))"
    by (rule fl_normal[where e = "2"])
       (simp_all add: roundEven_def powr_neg_numeral)
  then show ?thesis by simp
qed

lemma opt_chainD_simps:
  "opt_chainD None f = None"
  "opt_chainD (Some r) f = f r"
  by (simp_all add: opt_chainD_def)

lemma clamp_rule:
  "lo \<le> d \<Longrightarrow> Math_maxD (Fin lo) (or_defaultD x (Fin d)) = spec_clampD lo d x"
  by (cases x; simp add: or_defaultD_def spec_clampD_def split: jsnum.splits option.splits)

lemma clamp_ratio_rule:
  "Math_minD (Fin 1) (Math_maxD (Fin 0) (or_defaultD x (fl (2 / 10)))) = spec_clampRatioD x"
  by (cases x; simp add: or_defaultD_def spec_clampRatioD_def fl_lit_02 double_02_def
        split: jsnum.splits option.splits)

lemma safeWorkloadD_rules:
  "safeWorkloadD workload =
     \<lparr> requestsPerSecond = spec_clampD 0 0 (opt_chainD workload requestsPerSecond),
       metricsPerRequest = spec_clampD 0 0 (opt_chainD workload metricsPerRequest),
       uniqueMetricsRatio = spec_clampRatioD (opt_chainD workload uniqueMetricsRatio),
       calculationComplexity = spec_clampD 1 1 (opt_chainD workload calculationComplexity),
       flushIntervalSeconds = spec_clampD 1 10 (opt_chainD workload flushIntervalSeconds),
       retentionPeriodDays = spec_clampD 1 1 (opt_chainD workload retentionPeriodDays) \<rparr>"
  unfolding safeWorkloadD_def clamp_ratio_rule by (simp add: clamp_rule)

lemma safeResourcesD_rules:
  "safeResourcesD userResources =
     \<lparr> cpu = spec_clampD double_01 1 (opt_chainD userResources cpu),
       memory = spec_clampD double_01 1 (opt_chainD userResources memory),
       diskIO = spec_clampD 1 10 (opt_chainD userResources diskIO),
       networkIO = spec_clampD 1 10 (opt_chainD userResources networkIO),
       storage = spec_clampD 1 10 (opt_chainD userResources storage),
       statsdInstances = spec_clampD 1 1 (opt_chainD userResources statsdInstances),
       carbonInstances = spec_clampD 1 1 (opt_chainD userResources carbonInstances) \<rparr>"
proof -
  have l: "double_01 \<le> 1" by (simp add: double_01_def)
  have f: "fl (1 / 10) = Fin double_01" by (simp add: fl_lit_01 double_01_def)
  show ?thesis
    unfolding safeResourcesD_def f by (simp add: clamp_rule l)
qed

lemma spec_clampD_atLeast: "lo \<le> d \<Longrightarrow> numberAtLeast lo (spec_clampD lo d x)"
  by (simp add: numberAtLeast_def spec_clampD_def split: jsnum.splits option.splits)

lemma spec_clampD_PosInf: "(spec_clampD lo d x = PosInf) = (x = Some PosInf)"
  by (simp add: spec_clampD_def split: jsnum.splits option.splits)

lemma spec_clampRatioD_between: "finiteBetween 0 1 (spec_clampRatioD x)"
  by (simp add: finiteBetween_def spec_clampRatioD_def double_02_def
      split: jsnum.splits option.splits)

lemmas fl_values = fl_zero fl_lit_01 fl_lit_02 fl_lit_06 fl_lit_04 fl_lit_0015 fl_lit_001 fl_lit_12
  fl_lit_03 fl_lit_005 fl_lit_007 fl_lit_07 fl_one fl_half fl_three_halves fl_graphite5
  fl_graphite5_idem fl_graphite5_times10 fl_hundred fl_unique_007

lemma safeResourcesD_None:
  "safeResourcesD None =
     \<lparr> cpu = Fin 1, memory = Fin 1, diskIO = Fin 10, networkIO = Fin 10, storage = Fin 10,
       statsdInstances = Fin 1, carbonInstances = Fin 1 \<rparr>"
  by (simp add: safeResourcesD_rules opt_chainD_simps spec_clampD_def double_01_def)

lemma complexityFive_safe:
  "safeWorkloadD (Some complexityFiveWorkloadD) =
     \<lparr> requestsPerSecond = Fin 0, metricsPerRequest = Fin 0, uniqueMetricsRatio = Fin double_02,
       calculationComplexity = Fin 5, flushIntervalSeconds = Fin 10, retentionPeriodDays = Fin 1 \<rparr>"
  by (simp add: safeWorkloadD_rules opt_chainD_simps spec_clampD_def spec_clampRatioD_def
      complexityFiveWorkloadD_def emptyWorkloadD_def)

lemma log10_rounded_one: "log10_rounded (Fin 1) = Fin 0"
  by (simp add: log10_rounded_def fl_zero)

lemma complexityFive_value:
  "cpuValueD log10_rounded (safeWorkloadD (Some complexityFiveWorkloadD)) (safeResourcesD None) =
   fl (7 / 10)"
proof -
  let ?sw = "safeWorkloadD (Some complexityFiveWorkloadD)"
  let ?sr = "safeResourcesD None"
  have f: "requestsPerSecond ?sw = Fin 0" "metricsPerRequest ?sw = Fin 0"
    "uniqueMetricsRatio ?sw = Fin double_02" "calculationComplexity ?sw = Fin 5"
    by (simp_all add: complexityFive_safe)
  have t: "totalMetricsPerSecondD ?sw = Fin 0"
    by (simp add: totalMetricsPerSecondD_def f fl_zero)
  have q: "uniqueMetricsPerSecondD ?sw = Fin 0"
    by (simp add: uniqueMetricsPerSecondD_def t f fl_zero)
  have s1: "singleInstanceStatsDCpuD log10_rounded ?sw = Fin 0"
    by (simp add: singleInstanceStatsDCpuD_def totalStatsDLoadD_def t log10_rounded_one fl_values)
  have s2: "singleInstanceCarbonCpuD log10_rounded ?sw = Fin 0"
    by (simp add: singleInstanceCarbonCpuD_def totalWriteLoadD_def writesPerSecondD_def q
        log10_rounded_one fl_values)
  have c1: "statsdCpuCoresD log10_rounded ?sw ?sr = Fin 0"
    by (simp add: statsdCpuCoresD_def s1 safeResourcesD_None fl_values)
  have c2: "carbonCpuCoresD log10_rounded ?sw ?sr = Fin 0"
    by (simp add: carbonCpuCoresD_def s2 safeResourcesD_None fl_values)
  have g: "graphiteCpuCoresD ?sw = Fin (5404319552844596 / 9007199254740992)"
    by (simp add: graphiteCpuCoresD_def f fl_values)
  have tot: "totalCpuRequiredD log10_rounded ?sw ?sr = Fin (5404319552844596 / 9007199254740992)"
    by (simp add: totalCpuRequiredD_def c1 c2 g fl_values)
  show ?thesis
    by (simp add: cpuValueD_def tot fl_values)
qed

lemma log10_rounded_PosInf: "log10_rounded PosInf = PosInf"
  by (simp add: log10_rounded_def)

lemma huge_safe:
  "requestsPerSecond (safeWorkloadD (Some hugeWorkloadD)) = Fin (2 ^ 600)"
  "metricsPerRequest (safeWorkloadD (Some hugeWorkloadD)) = Fin (2 ^ 600)"
  "uniqueMetricsRatio (safeWorkloadD (Some hugeWorkloadD)) = Fin double_02"
  "calculationComplexity (safeWorkloadD (Some hugeWorkloadD)) = Fin 1"
  by (simp_all add: safeWorkloadD_rules opt_chainD_simps spec_clampD_def spec_clampRatioD_def
      hugeWorkloadD_def emptyWorkloadD_def)

lemma huge_total: "totalMetricsPerSecondD (safeWorkloadD (Some hugeWorkloadD)) = PosInf"
proof -
  have "(2::real) ^ 1024 \<le> \<bar>2 ^ 600 * 2 ^ 600\<bar>" by simp
  then have "fl (2 ^ 600 * 2 ^ 600) = PosInf" by (simp add: fl_overflow)
  then show ?thesis by (simp only: totalMetricsPerSecondD_def huge_safe fl_mul.simps)
qed

lemma huge_cpu_value:
  "cpuValueD log10_rounded (safeWorkloadD (Some hugeWorkloadD)) (safeResourcesD None) = NaN"
proof -
  let ?sw = "safeWorkloadD (Some hugeWorkloadD)"
  let ?sr = "safeResourcesD None"
  have s1: "singleInstanceStatsDCpuD log10_rounded ?sw = PosInf"
    by (simp add: singleInstanceStatsDCpuD_def totalStatsDLoadD_def huge_total
        log10_rounded_PosInf fl_lit_06)
  have c1: "statsdCpuCoresD log10_rounded ?sw ?sr = NaN"
    by (simp add: statsdCpuCoresD_def s1 safeResourcesD_None fl_lit_0015 fl_zero)
  show ?thesis
    by (simp add: cpuValueD_def totalCpuRequiredD_def c1 fl_lit_01)
qed

lemma ratio007_unique:
  "uniqueMetricsPerSecondD (safeWorkloadD (Some ratio007WorkloadD)) = Fin 8"
proof -
  let ?sw = "safeWorkloadD (Some ratio007WorkloadD)"
  have f: "requestsPerSecond ?sw = Fin 100" "metricsPerRequest ?sw = Fin 1"
    "uniqueMetricsRatio ?sw = Fin (5044031582654956 / 72057594037927936)"
    by (simp_all add: safeWorkloadD_rules opt_chainD_simps spec_clampD_def spec_clampRatioD_def
        ratio007WorkloadD_def emptyWorkloadD_def fl_lit_007)
  have t: "totalMetricsPerSecondD ?sw = Fin 100"
    by (simp add: totalMetricsPerSecondD_def f fl_hundred)
  show ?thesis
    by (simp add: uniqueMetricsPerSecondD_def t f fl_unique_007)
qed

lemma pow1020_network:
  "totalMetricsPerSecondD (safeWorkloadD (Some pow1020WorkloadD)) = Fin (2 ^ 1020)"
  "totalNetworkRequiredD (safeWorkloadD (Some pow1020WorkloadD)) = PosInf"
  "networkRatioD (Some pow1020WorkloadD) None 4 = NaN"
proof -
  let ?sw = "safeWorkloadD (Some pow1020WorkloadD)"
  have f: "requestsPerSecond ?sw = Fin (2 ^ 1020)" "metricsPerRequest ?sw = Fin 1"
    "calculationComplexity ?sw = Fin 1"
    by (simp_all add: safeWorkloadD_rules opt_chainD_simps spec_clampD_def
        pow1020WorkloadD_def emptyWorkloadD_def)
  have "fl (2 ^ 1020 * 1) = Fin (2 ^ 1020)" using fl_pow2[of 1020] by (simp add: powr_realpow)
  then show t: "totalMetricsPerSecondD ?sw = Fin (2 ^ 1020)"
    by (simp only: totalMetricsPerSecondD_def f fl_mul.simps)
  have "(2::real) ^ 1024 \<le> \<bar>2 ^ 1020 * 50\<bar>" by simp
  then have o: "fl (2 ^ 1020 * 50) = PosInf" by (simp add: fl_overflow)
  have c: "clientStatsDTrafficD ?sw = PosInf"
    by (simp only: clientStatsDTrafficD_def t fl_mul.simps o) simp
  have s: "statsdToCarbonTrafficD ?sw = PosInf"
    by (simp add: statsdToCarbonTrafficD_def c fl_lit_03)
  have q: "queryTrafficMbpsD ?sw = PosInf"
    by (simp add: queryTrafficMbpsD_def c f fl_lit_005)
  show n: "totalNetworkRequiredD ?sw = PosInf"
    by (simp add: totalNetworkRequiredD_def maxInboundTrafficD_def c s q)
  show "networkRatioD (Some pow1020WorkloadD) None 4 = NaN"
    by (simp add: networkRatioD_def networkIOResourceD_def n)
qed

lemma normal_safeWorkloadD: "normalWorkloadD (safeWorkloadD workload)"
  unfolding safeWorkloadD_rules normalWorkloadD_def
  by (simp add: spec_clampD_atLeast spec_clampRatioD_between)

lemma normal_safeResourcesD: "normalResourcesD (safeResourcesD userResources)"
proof -
  have a: "numberAtLeast (1 / 10) (spec_clampD double_01 1 x)" for x
    by (rule numberAtLeast_weaken[OF spec_clampD_atLeast]) (simp_all add: double_01_def)
  show ?thesis
    unfolding safeResourcesD_rules normalResourcesD_def
    by (simp add: spec_clampD_atLeast a)
qed

lemma finiteBetween_nan0: "finiteBetween 0 hi x \<Longrightarrow> nanOrAtLeast 0 x"
  by (cases x) (simp_all add: finiteBetween_def nanOrAtLeast_def)

lemma numberAtLeast_nan0: "numberAtLeast lo x \<Longrightarrow> 0 \<le> lo \<Longrightarrow> nanOrAtLeast 0 x"
  by (cases x) (simp_all add: numberAtLeast_def nanOrAtLeast_def)

lemma Fin_nan0: "0 \<le> c \<Longrightarrow> nanOrAtLeast 0 (Fin c)"
  by (simp add: nanOrAtLeast_def)

lemma ceil_nan0: "nanOrAtLeast 0 x \<Longrightarrow> nanOrAtLeast 0 (Math_ceilD x)"
  using ceil_nan[of 0 x] by simp

lemma max_nan0: "nanOrAtLeast 0 x \<Longrightarrow> nanOrAtLeast 0 y \<Longrightarrow> nanOrAtLeast 0 (Math_maxD x y)"
  by (cases x; cases y) (simp_all add: nanOrAtLeast_def)

lemma sub_one_nan0: "numberAtLeast 1 x \<Longrightarrow> nanOrAtLeast 0 (fl_sub x (Fin 1))"
  by (rule numberAtLeast_nan, rule sub_one)

lemmas nan0_intros = mul_nan0 add_nan0 div_nan0 min_nan0 max_nan0 ceil_nan0 fl_nan0 Fin_nan0

lemma workload_nan0:
  assumes "normalWorkloadD sw"
  shows "nanOrAtLeast 0 (requestsPerSecond sw)" "nanOrAtLeast 0 (metricsPerRequest sw)"
    "nanOrAtLeast 0 (uniqueMetricsRatio sw)" "nanOrAtLeast 0 (calculationComplexity sw)"
    "nanOrAtLeast 0 (flushIntervalSeconds sw)" "nanOrAtLeast 0 (retentionPeriodDays sw)"
  using assms unfolding normalWorkloadD_def
  by (auto intro: numberAtLeast_nan0 finiteBetween_nan0)

lemma resources_nan0:
  assumes "normalResourcesD sr"
  shows "nanOrAtLeast 0 (cpu sr)" "nanOrAtLeast 0 (memory sr)" "nanOrAtLeast 0 (diskIO sr)"
    "nanOrAtLeast 0 (networkIO sr)" "nanOrAtLeast 0 (storage sr)"
    "nanOrAtLeast 0 (statsdInstances sr)" "nanOrAtLeast 0 (carbonInstances sr)"
  using assms unfolding normalResourcesD_def
  by (auto intro: numberAtLeast_nan0)

lemma resources_sub_nan0:
  assumes "normalResourcesD sr"
  shows "nanOrAtLeast 0 (fl_sub (statsdInstances sr) (Fin 1))"
    "nanOrAtLeast 0 (fl_sub (carbonInstances sr) (Fin 1))"
  using assms unfolding normalResourcesD_def by (auto intro: sub_one_nan0)

lemma total_nan0: "normalWorkloadD sw \<Longrightarrow> nanOrAtLeast 0 (totalMetricsPerSecondD sw)"
  unfolding totalMetricsPerSecondD_def by (intro nan0_intros workload_nan0)

lemma unique_nan0: "normalWorkloadD sw \<Longrightarrow> nanOrAtLeast 0 (uniqueMetricsPerSecondD sw)"
  unfolding uniqueMetricsPerSecondD_def by (intro nan0_intros workload_nan0 total_nan0)

lemma writes_nan0: "normalWorkloadD sw \<Longrightarrow> nanOrAtLeast 0 (writesPerSecondD sw)"
  unfolding writesPerSecondD_def by (rule unique_nan0)

lemma writesPerInstance_nan0:
  "normalWorkloadD sw \<Longrightarrow> normalResourcesD sr \<Longrightarrow> nanOrAtLeast 0 (writesPerInstanceD sw sr)"
  unfolding writesPerInstanceD_def by (intro nan0_intros writes_nan0 resources_nan0)

lemma lg_max_nan0:
  assumes lg: "\<And>x. nanOrAtLeast 1 x \<Longrightarrow> nanOrAtLeast 0 (lg x)"
    and x: "nanOrAtLeast 0 x"
  shows "nanOrAtLeast 0 (lg (Math_maxD (Fin 1) x))"
proof -
  have "nanOrAtLeast (max 1 0) (Math_maxD (Fin 1) x)" using x by (rule max_nan)
  then show ?thesis by (intro lg) simp
qed

lemma singleStatsd_nan0:
  assumes lg: "\<And>x. nanOrAtLeast 1 x \<Longrightarrow> nanOrAtLeast 0 (lg x)" and w: "normalWorkloadD sw"
  shows "nanOrAtLeast 0 (singleInstanceStatsDCpuD lg sw)"
  unfolding singleInstanceStatsDCpuD_def totalStatsDLoadD_def
  by (intro nan0_intros lg_max_nan0[of lg] lg total_nan0[OF w]) simp_all

lemma singleCarbon_nan0:
  assumes lg: "\<And>x. nanOrAtLeast 1 x \<Longrightarrow> nanOrAtLeast 0 (lg x)" and w: "normalWorkloadD sw"
  shows "nanOrAtLeast 0 (singleInstanceCarbonCpuD lg sw)"
  unfolding singleInstanceCarbonCpuD_def totalWriteLoadD_def
  by (intro nan0_intros lg_max_nan0[of lg] lg writes_nan0[OF w]) simp_all

lemma cpu_sum_nan0:
  assumes lg: "\<And>x. nanOrAtLeast 1 x \<Longrightarrow> nanOrAtLeast 0 (lg x)"
    and w: "normalWorkloadD sw" and r: "normalResourcesD sr"
  shows "nanOrAtLeast 0
    (fl_add (fl_add (statsdCpuCoresD lg sw sr) (carbonCpuCoresD lg sw sr)) (graphiteCpuCoresD sw))"
  unfolding statsdCpuCoresD_def carbonCpuCoresD_def graphiteCpuCoresD_def
  by (intro nan0_intros singleStatsd_nan0[OF lg] singleCarbon_nan0[OF lg] w
      resources_nan0[OF r] resources_sub_nan0[OF r] workload_nan0[OF w]) simp_all


lemma fl_01_times10: "fl (double_01 * 10) = Fin 1"
proof -
  have "fl (double_01 * 10) = Fin (real_of_int 4503599627370496 * (1 / 2 ^ 52))"
    by (rule fl_normal[where e = 0]) (simp_all add: roundEven_def double_01_def powr_neg_numeral)
  then show ?thesis by simp
qed

lemma round1_lower:
  assumes x: "nanOrAtLeast c x" and c: "0 \<le> c"
    and n: "fl (c * 10) = Fin (of_int n)" "0 \<le> n"
    and c': "fl (real_of_int n / 10) = Fin c'"
  shows "nanOrAtLeast c' (fl_div (Math_ceilD (fl_mul x (Fin 10))) (Fin 10))"
proof (cases x)
  case (Fin v)
  then have v: "c \<le> v" using x by (simp add: nanOrAtLeast_def)
  have "numberAtLeast (of_int n) (fl (v * 10))" using c v n(1) by (intro fl_ge[of "c * 10"]) simp_all
  then have "nanOrAtLeast (of_int n) (Math_ceilD (fl (v * 10)))"
    by (intro ceil_nan numberAtLeast_nan)
  then show ?thesis
  proof (cases "Math_ceilD (fl (v * 10))")
    case (Fin w)
    assume "nanOrAtLeast (of_int n) (Math_ceilD (fl (v * 10)))"
    then have "real_of_int n \<le> w" using Fin by (simp add: nanOrAtLeast_def)
    then have "numberAtLeast c' (fl (w / 10))" using n(2) c' by (intro fl_ge[of "real_of_int n / 10"]) simp_all
    then show ?thesis using Fin \<open>x = Fin v\<close> by (simp add: numberAtLeast_nan)
  qed (simp_all add: Fin nanOrAtLeast_def)
next
  case PosInf
  then show ?thesis by (simp add: nanOrAtLeast_def)
next
  case NegInf
  then show ?thesis using x by (simp add: nanOrAtLeast_def)
next
  case NaN
  then show ?thesis by (simp add: nanOrAtLeast_def)
qed

lemma round1_nan0:
  assumes "nanOrAtLeast 0 x"
  shows "nanOrAtLeast 0 (fl_div (Math_ceilD (fl_mul x (Fin 10))) (Fin 10))"
  using round1_lower[OF assms, where n = 0 and c' = 0] by (simp add: fl_zero)

lemma totalCpu_lower:
  assumes lg: "\<And>x. nanOrAtLeast 1 x \<Longrightarrow> nanOrAtLeast 0 (lg x)"
    and w: "normalWorkloadD sw" and r: "normalResourcesD sr"
  shows "nanOrAtLeast double_01 (totalCpuRequiredD lg sw sr)"
proof -
  have f: "fl (1 / 10) = Fin double_01" by (simp add: fl_lit_01 double_01_def)
  have "nanOrAtLeast (max double_01 0) (totalCpuRequiredD lg sw sr)"
    unfolding totalCpuRequiredD_def f by (intro max_nan cpu_sum_nan0[OF lg w r])
  then show ?thesis by (simp add: double_01_def)
qed

lemma cpuValue_lower:
  assumes lg: "\<And>x. nanOrAtLeast 1 x \<Longrightarrow> nanOrAtLeast 0 (lg x)"
    and w: "normalWorkloadD sw" and r: "normalResourcesD sr"
  shows "nanOrAtLeast (1 / 10) (cpuValueD lg sw sr)"
proof -
  have f: "fl (1 / 10) = Fin double_01" by (simp add: fl_lit_01 double_01_def)
  have p: "0 \<le> double_01" by (simp add: double_01_def)
  have "nanOrAtLeast double_01 (cpuValueD lg sw sr)"
    unfolding cpuValueD_def
    using round1_lower[OF totalCpu_lower[OF lg w r] p, where n = 1 and c' = double_01]
    by (simp add: fl_01_times10 f)
  then show ?thesis by (rule nanOrAtLeast_weaken) (simp add: double_01_def)
qed

lemma cpuUtilization_nan0:
  assumes lg: "\<And>x. nanOrAtLeast 1 x \<Longrightarrow> nanOrAtLeast 0 (lg x)"
    and w: "normalWorkloadD sw" and r: "normalResourcesD sr"
  shows "nanOrAtLeast 0 (cpuUtilizationD lg sw sr)"
  unfolding cpuUtilizationD_def
  by (intro div_nan0 resources_nan0[OF r] nanOrAtLeast_weaken[OF totalCpu_lower[OF lg w r]])
     (simp_all add: double_01_def)

lemma singleMemory_nan0:
  assumes w: "normalWorkloadD sw"
  shows "nanOrAtLeast 0 (singleInstanceStatsDMemoryD sw)"
    "nanOrAtLeast 0 (singleInstanceCarbonMemoryD sw)"
  unfolding singleInstanceStatsDMemoryD_def singleInstanceCarbonMemoryD_def
  by (intro nan0_intros unique_nan0[OF w] workload_nan0[OF w]; simp)+

lemma memory_sum_nan0:
  assumes w: "normalWorkloadD sw" and r: "normalResourcesD sr"
  shows "nanOrAtLeast 0
    (fl_add (fl_add (effectiveStatsDMemoryD sw sr) (effectiveCarbonMemoryD sw sr))
       (graphiteMemoryGBD sw))"
  unfolding effectiveStatsDMemoryD_def effectiveCarbonMemoryD_def graphiteMemoryGBD_def
    statsdMemoryGBD_def carbonMemoryGBD_def writeLoadFactorD_def
  by (intro nan0_intros singleMemory_nan0[OF w] unique_nan0[OF w] workload_nan0[OF w]
      resources_nan0[OF r] writesPerInstance_nan0[OF w r]) simp_all

lemma totalMemory_lower:
  assumes w: "normalWorkloadD sw" and r: "normalResourcesD sr"
  shows "nanOrAtLeast (1 / 2) (totalMemoryRequiredD sw sr)"
proof -
  have "nanOrAtLeast (max (1 / 2) 0) (totalMemoryRequiredD sw sr)"
    unfolding totalMemoryRequiredD_def by (intro max_nan memory_sum_nan0[OF w r])
  then show ?thesis by simp
qed

lemma fl_five: "fl 5 = Fin 5"
proof -
  have "fl 5 = Fin (real_of_int 5629499534213120 * (1 / 2 ^ 50))"
    by (rule fl_normal[where e = 2]) (simp_all add: roundEven_def powr_neg_numeral)
  then show ?thesis by simp
qed

lemma memoryValue_lower:
  assumes w: "normalWorkloadD sw" and r: "normalResourcesD sr"
  shows "nanOrAtLeast (1 / 2) (memoryValueD sw sr)"
  unfolding memoryValueD_def
  using round1_lower[OF totalMemory_lower[OF w r], where n = 5 and c' = "1 / 2"]
  by (simp add: fl_five fl_half)

lemma memoryUtilization_nan0:
  assumes w: "normalWorkloadD sw" and r: "normalResourcesD sr"
  shows "nanOrAtLeast 0 (memoryUtilizationD sw sr)"
  unfolding memoryUtilizationD_def
  by (intro div_nan0 resources_nan0[OF r] nanOrAtLeast_weaken[OF totalMemory_lower[OF w r]])
     simp_all

lemma bytesPerOperation_nan0: "nanOrAtLeast 0 bytesPerOperationD"
  unfolding bytesPerOperationD_def by (intro nan0_intros) simp_all

lemma diskIO_nan0:
  assumes w: "normalWorkloadD sw" and r: "normalResourcesD sr"
  shows "nanOrAtLeast 0 (diskIORequiredD sw sr)" "nanOrAtLeast 0 (diskIOUtilizationD sw sr)"
proof -
  have "nanOrAtLeast 0
     (fl_div (fl_mul (diskIopsRequiredD sw sr) bytesPerOperationD) (Fin (1024 * 1024)))"
    unfolding diskIopsRequiredD_def effectiveIopsPerWriteD_def randomIoFactorD_def
      diskScalingFactorD_def
    by (intro nan0_intros writes_nan0[OF w] unique_nan0[OF w] resources_nan0[OF r]
        resources_sub_nan0[OF r] bytesPerOperation_nan0) simp_all
  then show v: "nanOrAtLeast 0 (diskIORequiredD sw sr)"
    unfolding diskIORequiredD_def by (rule round1_nan0)
  show "nanOrAtLeast 0 (diskIOUtilizationD sw sr)"
    unfolding diskIOUtilizationD_def by (intro div_nan0 v resources_nan0[OF r])
qed

lemma network_nan0:
  assumes w: "normalWorkloadD sw" and r: "normalResourcesD sr"
  shows "nanOrAtLeast 0 (totalNetworkRequiredD sw)" "nanOrAtLeast 0 (networkIOUtilizationD sw sr)"
proof -
  have "nanOrAtLeast 0 (fl_add (maxInboundTrafficD sw) (queryTrafficMbpsD sw))"
    unfolding maxInboundTrafficD_def queryTrafficMbpsD_def statsdToCarbonTrafficD_def
      clientStatsDTrafficD_def
    by (intro nan0_intros total_nan0[OF w] workload_nan0[OF w]) simp_all
  then show v: "nanOrAtLeast 0 (totalNetworkRequiredD sw)"
    unfolding totalNetworkRequiredD_def by (rule round1_nan0)
  show "nanOrAtLeast 0 (networkIOUtilizationD sw sr)"
    unfolding networkIOUtilizationD_def by (intro div_nan0 v resources_nan0[OF r])
qed

lemma storage_nan0:
  assumes w: "normalWorkloadD sw" and r: "normalResourcesD sr"
  shows "nanOrAtLeast 0 (storageValueD sw)" "nanOrAtLeast 0 (storageUtilizationD sw sr)"
proof -
  have d: "nanOrAtLeast 0 (dailyStorageGBD sw)"
    unfolding dailyStorageGBD_def by (intro nan0_intros unique_nan0[OF w]) simp_all
  then show "nanOrAtLeast 0 (storageValueD sw)"
    unfolding storageValueD_def by (rule round1_nan0)
  show "nanOrAtLeast 0 (storageUtilizationD sw sr)"
    unfolding storageUtilizationD_def
    by (intro nan0_intros d workload_nan0[OF w] resources_nan0[OF r])
qed

text \<open>
  Claim C6, as the code has it.  Whatever the two records hold (a missing record, missing
  fields, \<^verbatim>\<open>NaN\<close>, negative or infinite numbers), the normalizer returns fully populated
  records in which every field is the clamp rule of the specification applied to the raw field,
  and a \<^verbatim>\<open>null\<close> record is normalized like the empty one.  Hence every field is a number,
  never \<^verbatim>\<open>NaN\<close>, not below its clamp: at least 0 for the two throughput drivers, between 0
  and 1 for the ratio, at least 0.1 for cpu and memory, at least 1 for the others; and a field
  other than the ratio is infinite exactly when the raw field is \<^verbatim>\<open>+Infinity\<close>.
\<close>

theorem normalizer_rules:
  "safeWorkloadD workload =
     \<lparr> requestsPerSecond = spec_clampD 0 0 (opt_chainD workload requestsPerSecond),
       metricsPerRequest = spec_clampD 0 0 (opt_chainD workload metricsPerRequest),
       uniqueMetricsRatio = spec_clampRatioD (opt_chainD workload uniqueMetricsRatio),
       calculationComplexity = spec_clampD 1 1 (opt_chainD workload calculationComplexity),
       flushIntervalSeconds = spec_clampD 1 10 (opt_chainD workload flushIntervalSeconds),
       retentionPeriodDays = spec_clampD 1 1 (opt_chainD workload retentionPeriodDays) \<rparr> \<and>
   safeResourcesD userResources =
     \<lparr> cpu = spec_clampD double_01 1 (opt_chainD userResources cpu),
       memory = spec_clampD double_01 1 (opt_chainD userResources memory),
       diskIO = spec_clampD 1 10 (opt_chainD userResources diskIO),
       networkIO = spec_clampD 1 10 (opt_chainD userResources networkIO),
       storage = spec_clampD 1 10 (opt_chainD userResources storage),
       statsdInstances = spec_clampD 1 1 (opt_chainD userResources statsdInstances),
       carbonInstances = spec_clampD 1 1 (opt_chainD userResources carbonInstances) \<rparr> \<and>
   safeWorkloadD None = safeWorkloadD (Some emptyWorkloadD) \<and>
   safeResourcesD None = safeResourcesD (Some emptyResourcesD) \<and>
   (let sw = safeWorkloadD workload; sr = safeResourcesD userResources
    in numberAtLeast 0 (requestsPerSecond sw) \<and> numberAtLeast 0 (metricsPerRequest sw) \<and>
       finiteBetween 0 1 (uniqueMetricsRatio sw) \<and>
       numberAtLeast 1 (calculationComplexity sw) \<and> numberAtLeast 1 (flushIntervalSeconds sw) \<and>
       numberAtLeast 1 (retentionPeriodDays sw) \<and>
       numberAtLeast (1 / 10) (cpu sr) \<and> numberAtLeast (1 / 10) (memory sr) \<and>
       numberAtLeast 1 (diskIO sr) \<and> numberAtLeast 1 (networkIO sr) \<and>
       numberAtLeast 1 (storage sr) \<and> numberAtLeast 1 (statsdInstances sr) \<and>
       numberAtLeast 1 (carbonInstances sr) \<and>
       (requestsPerSecond sw = PosInf) = (opt_chainD workload requestsPerSecond = Some PosInf) \<and>
       (metricsPerRequest sw = PosInf) = (opt_chainD workload metricsPerRequest = Some PosInf) \<and>
       (calculationComplexity sw = PosInf) =
         (opt_chainD workload calculationComplexity = Some PosInf) \<and>
       (flushIntervalSeconds sw = PosInf) =
         (opt_chainD workload flushIntervalSeconds = Some PosInf) \<and>
       (retentionPeriodDays sw = PosInf) =
         (opt_chainD workload retentionPeriodDays = Some PosInf) \<and>
       (cpu sr = PosInf) = (opt_chainD userResources cpu = Some PosInf) \<and>
       (memory sr = PosInf) = (opt_chainD userResources memory = Some PosInf) \<and>
       (diskIO sr = PosInf) = (opt_chainD userResources diskIO = Some PosInf) \<and>
       (networkIO sr = PosInf) = (opt_chainD userResources networkIO = Some PosInf) \<and>
       (storage sr = PosInf) = (opt_chainD userResources storage = Some PosInf) \<and>
       (statsdInstances sr = PosInf) = (opt_chainD userResources statsdInstances = Some PosInf) \<and>
       (carbonInstances sr = PosInf) = (opt_chainD userResources carbonInstances = Some PosInf))"
proof -
  have a: "numberAtLeast (1 / 10) (spec_clampD double_01 1 x)" for x
    by (simp add: numberAtLeast_def spec_clampD_def double_01_def
        split: jsnum.splits option.splits) (simp add: max_def)
  have e1: "safeWorkloadD None = safeWorkloadD (Some emptyWorkloadD)"
    by (simp add: safeWorkloadD_def opt_chainD_simps emptyWorkloadD_def)
  have e2: "safeResourcesD None = safeResourcesD (Some emptyResourcesD)"
    by (simp add: safeResourcesD_def opt_chainD_simps emptyResourcesD_def)
  have b: "(let sw = safeWorkloadD workload; sr = safeResourcesD userResources
    in numberAtLeast 0 (requestsPerSecond sw) \<and> numberAtLeast 0 (metricsPerRequest sw) \<and>
       finiteBetween 0 1 (uniqueMetricsRatio sw) \<and>
       numberAtLeast 1 (calculationComplexity sw) \<and> numberAtLeast 1 (flushIntervalSeconds sw) \<and>
       numberAtLeast 1 (retentionPeriodDays sw) \<and>
       numberAtLeast (1 / 10) (cpu sr) \<and> numberAtLeast (1 / 10) (memory sr) \<and>
       numberAtLeast 1 (diskIO sr) \<and> numberAtLeast 1 (networkIO sr) \<and>
       numberAtLeast 1 (storage sr) \<and> numberAtLeast 1 (statsdInstances sr) \<and>
       numberAtLeast 1 (carbonInstances sr) \<and>
       (requestsPerSecond sw = PosInf) = (opt_chainD workload requestsPerSecond = Some PosInf) \<and>
       (metricsPerRequest sw = PosInf) = (opt_chainD workload metricsPerRequest = Some PosInf) \<and>
       (calculationComplexity sw = PosInf) =
         (opt_chainD workload calculationComplexity = Some PosInf) \<and>
       (flushIntervalSeconds sw = PosInf) =
         (opt_chainD workload flushIntervalSeconds = Some PosInf) \<and>
       (retentionPeriodDays sw = PosInf) =
         (opt_chainD workload retentionPeriodDays = Some PosInf) \<and>
       (cpu sr = PosInf) = (opt_chainD userResources cpu = Some PosInf) \<and>
       (memory sr = PosInf) = (opt_chainD userResources memory = Some PosInf) \<and>
       (diskIO sr = PosInf) = (opt_chainD userResources diskIO = Some PosInf) \<and>
       (networkIO sr = PosInf) = (opt_chainD userResources networkIO = Some PosInf) \<and>
       (storage sr = PosInf) = (opt_chainD userResources storage = Some PosInf) \<and>
       (statsdInstances sr = PosInf) = (opt_chainD userResources statsdInstances = Some PosInf) \<and>
       (carbonInstances sr = PosInf) = (opt_chainD userResources carbonInstances = Some PosInf))"
    unfolding Let_def safeWorkloadD_rules safeResourcesD_rules
    by (simp add: spec_clampD_atLeast spec_clampD_PosInf spec_clampRatioD_between a)
  show ?thesis
    using safeWorkloadD_rules[of workload] safeResourcesD_rules[of userResources] e1 e2 b
    by (simp only: simp_thms)
qed

text \<open>
  Claim C6 as stated makes every field but the two throughput drivers positive and every
  field finite, so that nothing non-finite arises downstream.  A negative ratio is clamped to
  zero; an infinite request rate stays infinite; and with both throughput drivers at \<open>2^600\<close>,
  which the normalizer returns unchanged, the total metric rate overflows to \<^verbatim>\<open>Infinity\<close>.
\<close>

theorem normalizer_counterexample:
  "uniqueMetricsRatio
     (safeWorkloadD (Some (emptyWorkloadD\<lparr>uniqueMetricsRatio := Some (Fin (- (1 / 2)))\<rparr>))) =
     Fin 0 \<and>
   requestsPerSecond
     (safeWorkloadD (Some (emptyWorkloadD\<lparr>requestsPerSecond := Some PosInf\<rparr>))) = PosInf \<and>
   totalMetricsPerSecondD (safeWorkloadD (Some hugeWorkloadD)) = PosInf"
  by (simp add: huge_total)
     (simp add: safeWorkloadD_rules opt_chainD_simps spec_clampD_def spec_clampRatioD_def
        emptyWorkloadD_def)


end
